theory Spec2Isabelle
  imports Complex_Main "HOL-Library.Multiset" "HOL-Library.AList"
begin

section \<open>Python strings\<close>

text \<open>
  A Python \<^verbatim>\<open>str\<close> is a sequence of Unicode code points, and \<^verbatim>\<open>len\<close> counts code points.
  The model is a list of code points, each a natural number, so that the Czech letters of
  the labels (c with caron is 269, e with caron is 283, ...) are one element each, as in
  Python.
\<close>

type_synonym pystr = "nat list"

definition ascii :: "string \<Rightarrow> pystr" where
  "ascii s = map of_char s"

subsection \<open>The character tables\<close>

text \<open>
  The tables are those of Unicode 14.0.0, the version of CPython 3.11. Each is a list of
  ranges in increasing order, in two parts: the ranges that begin below code point 384
  (Basic Latin, Latin-1 Supplement and Latin Extended-A) and the ranges above.
\<close>

fun in_ranges :: "(nat \<times> nat) list \<Rightarrow> nat \<Rightarrow> bool" where
  "in_ranges [] c \<longleftrightarrow> False"
| "in_ranges ((a, b) # rs) c \<longleftrightarrow> (if c < a then False else if c \<le> b then True else in_ranges rs c)"

fun apply_runs :: "(nat \<times> nat \<times> nat \<times> nat) list \<Rightarrow> nat \<Rightarrow> nat" where
  "apply_runs [] c = c"
| "apply_runs ((a, b, t, k) # rs) c =
     (if c < a then c
      else if c \<le> b then (if (c - a) mod k = 0 then t + (c - a) else c)
      else apply_runs rs c)"

fun lookup_sorted :: "(nat \<times> nat list) list \<Rightarrow> nat \<Rightarrow> nat list" where
  "lookup_sorted [] c = []"
| "lookup_sorted ((k, v) # rs) c = (if c < k then [] else if c = k then v else lookup_sorted rs c)"

text \<open>
  The code points that are alphanumeric (\<^verbatim>\<open>str.isalnum\<close>) or the underscore: the class
  \<^verbatim>\<open>\w\<close>.
\<close>

definition word_latin :: "(nat \<times> nat) list" where
  "word_latin =
     [(48, 57), (65, 90), (95, 95), (97, 122), (170, 170), (178, 179),
      (181, 181), (185, 186), (188, 190), (192, 214), (216, 246), (248, 705)]"

definition word_above :: "(nat \<times> nat) list" where
  "word_above =
     [(710, 721), (736, 740), (748, 748), (750, 750), (880, 884), (886, 887),
      (890, 893), (895, 895), (902, 902), (904, 906), (908, 908), (910, 929),
      (931, 1013), (1015, 1153), (1162, 1327), (1329, 1366), (1369, 1369), (1376, 1416),
      (1488, 1514), (1519, 1522), (1568, 1610), (1632, 1641), (1646, 1647), (1649, 1747),
      (1749, 1749), (1765, 1766), (1774, 1788), (1791, 1791), (1808, 1808), (1810, 1839),
      (1869, 1957), (1969, 1969), (1984, 2026), (2036, 2037), (2042, 2042), (2048, 2069),
      (2074, 2074), (2084, 2084), (2088, 2088), (2112, 2136), (2144, 2154), (2160, 2183),
      (2185, 2190), (2208, 2249), (2308, 2361), (2365, 2365), (2384, 2384), (2392, 2401),
      (2406, 2415), (2417, 2432), (2437, 2444), (2447, 2448), (2451, 2472), (2474, 2480),
      (2482, 2482), (2486, 2489), (2493, 2493), (2510, 2510), (2524, 2525), (2527, 2529),
      (2534, 2545), (2548, 2553), (2556, 2556), (2565, 2570), (2575, 2576), (2579, 2600),
      (2602, 2608), (2610, 2611), (2613, 2614), (2616, 2617), (2649, 2652), (2654, 2654),
      (2662, 2671), (2674, 2676), (2693, 2701), (2703, 2705), (2707, 2728), (2730, 2736),
      (2738, 2739), (2741, 2745), (2749, 2749), (2768, 2768), (2784, 2785), (2790, 2799),
      (2809, 2809), (2821, 2828), (2831, 2832), (2835, 2856), (2858, 2864), (2866, 2867),
      (2869, 2873), (2877, 2877), (2908, 2909), (2911, 2913), (2918, 2927), (2929, 2935),
      (2947, 2947), (2949, 2954), (2958, 2960), (2962, 2965), (2969, 2970), (2972, 2972),
      (2974, 2975), (2979, 2980), (2984, 2986), (2990, 3001), (3024, 3024), (3046, 3058),
      (3077, 3084), (3086, 3088), (3090, 3112), (3114, 3129), (3133, 3133), (3160, 3162),
      (3165, 3165), (3168, 3169), (3174, 3183), (3192, 3198), (3200, 3200), (3205, 3212),
      (3214, 3216), (3218, 3240), (3242, 3251), (3253, 3257), (3261, 3261), (3293, 3294),
      (3296, 3297), (3302, 3311), (3313, 3314), (3332, 3340), (3342, 3344), (3346, 3386),
      (3389, 3389), (3406, 3406), (3412, 3414), (3416, 3425), (3430, 3448), (3450, 3455),
      (3461, 3478), (3482, 3505), (3507, 3515), (3517, 3517), (3520, 3526), (3558, 3567),
      (3585, 3632), (3634, 3635), (3648, 3654), (3664, 3673), (3713, 3714), (3716, 3716),
      (3718, 3722), (3724, 3747), (3749, 3749), (3751, 3760), (3762, 3763), (3773, 3773),
      (3776, 3780), (3782, 3782), (3792, 3801), (3804, 3807), (3840, 3840), (3872, 3891),
      (3904, 3911), (3913, 3948), (3976, 3980), (4096, 4138), (4159, 4169), (4176, 4181),
      (4186, 4189), (4193, 4193), (4197, 4198), (4206, 4208), (4213, 4225), (4238, 4238),
      (4240, 4249), (4256, 4293), (4295, 4295), (4301, 4301), (4304, 4346), (4348, 4680),
      (4682, 4685), (4688, 4694), (4696, 4696), (4698, 4701), (4704, 4744), (4746, 4749),
      (4752, 4784), (4786, 4789), (4792, 4798), (4800, 4800), (4802, 4805), (4808, 4822),
      (4824, 4880), (4882, 4885), (4888, 4954), (4969, 4988), (4992, 5007), (5024, 5109),
      (5112, 5117), (5121, 5740), (5743, 5759), (5761, 5786), (5792, 5866), (5870, 5880),
      (5888, 5905), (5919, 5937), (5952, 5969), (5984, 5996), (5998, 6000), (6016, 6067),
      (6103, 6103), (6108, 6108), (6112, 6121), (6128, 6137), (6160, 6169), (6176, 6264),
      (6272, 6276), (6279, 6312), (6314, 6314), (6320, 6389), (6400, 6430), (6470, 6509),
      (6512, 6516), (6528, 6571), (6576, 6601), (6608, 6618), (6656, 6678), (6688, 6740),
      (6784, 6793), (6800, 6809), (6823, 6823), (6917, 6963), (6981, 6988), (6992, 7001),
      (7043, 7072), (7086, 7141), (7168, 7203), (7232, 7241), (7245, 7293), (7296, 7304),
      (7312, 7354), (7357, 7359), (7401, 7404), (7406, 7411), (7413, 7414), (7418, 7418),
      (7424, 7615), (7680, 7957), (7960, 7965), (7968, 8005), (8008, 8013), (8016, 8023),
      (8025, 8025), (8027, 8027), (8029, 8029), (8031, 8061), (8064, 8116), (8118, 8124),
      (8126, 8126), (8130, 8132), (8134, 8140), (8144, 8147), (8150, 8155), (8160, 8172),
      (8178, 8180), (8182, 8188), (8304, 8305), (8308, 8313), (8319, 8329), (8336, 8348),
      (8450, 8450), (8455, 8455), (8458, 8467), (8469, 8469), (8473, 8477), (8484, 8484),
      (8486, 8486), (8488, 8488), (8490, 8493), (8495, 8505), (8508, 8511), (8517, 8521),
      (8526, 8526), (8528, 8585), (9312, 9371), (9450, 9471), (10102, 10131), (11264, 11492),
      (11499, 11502), (11506, 11507), (11517, 11517), (11520, 11557), (11559, 11559), (11565, 11565),
      (11568, 11623), (11631, 11631), (11648, 11670), (11680, 11686), (11688, 11694), (11696, 11702),
      (11704, 11710), (11712, 11718), (11720, 11726), (11728, 11734), (11736, 11742), (11823, 11823),
      (12293, 12295), (12321, 12329), (12337, 12341), (12344, 12348), (12353, 12438), (12445, 12447),
      (12449, 12538), (12540, 12543), (12549, 12591), (12593, 12686), (12690, 12693), (12704, 12735),
      (12784, 12799), (12832, 12841), (12872, 12879), (12881, 12895), (12928, 12937), (12977, 12991),
      (13312, 19903), (19968, 42124), (42192, 42237), (42240, 42508), (42512, 42539), (42560, 42606),
      (42623, 42653), (42656, 42735), (42775, 42783), (42786, 42888), (42891, 42954), (42960, 42961),
      (42963, 42963), (42965, 42969), (42994, 43009), (43011, 43013), (43015, 43018), (43020, 43042),
      (43056, 43061), (43072, 43123), (43138, 43187), (43216, 43225), (43250, 43255), (43259, 43259),
      (43261, 43262), (43264, 43301), (43312, 43334), (43360, 43388), (43396, 43442), (43471, 43481),
      (43488, 43492), (43494, 43518), (43520, 43560), (43584, 43586), (43588, 43595), (43600, 43609),
      (43616, 43638), (43642, 43642), (43646, 43695), (43697, 43697), (43701, 43702), (43705, 43709),
      (43712, 43712), (43714, 43714), (43739, 43741), (43744, 43754), (43762, 43764), (43777, 43782),
      (43785, 43790), (43793, 43798), (43808, 43814), (43816, 43822), (43824, 43866), (43868, 43881),
      (43888, 44002), (44016, 44025), (44032, 55203), (55216, 55238), (55243, 55291), (63744, 64109),
      (64112, 64217), (64256, 64262), (64275, 64279), (64285, 64285), (64287, 64296), (64298, 64310),
      (64312, 64316), (64318, 64318), (64320, 64321), (64323, 64324), (64326, 64433), (64467, 64829),
      (64848, 64911), (64914, 64967), (65008, 65019), (65136, 65140), (65142, 65276), (65296, 65305),
      (65313, 65338), (65345, 65370), (65382, 65470), (65474, 65479), (65482, 65487), (65490, 65495),
      (65498, 65500), (65536, 65547), (65549, 65574), (65576, 65594), (65596, 65597), (65599, 65613),
      (65616, 65629), (65664, 65786), (65799, 65843), (65856, 65912), (65930, 65931), (66176, 66204),
      (66208, 66256), (66273, 66299), (66304, 66339), (66349, 66378), (66384, 66421), (66432, 66461),
      (66464, 66499), (66504, 66511), (66513, 66517), (66560, 66717), (66720, 66729), (66736, 66771),
      (66776, 66811), (66816, 66855), (66864, 66915), (66928, 66938), (66940, 66954), (66956, 66962),
      (66964, 66965), (66967, 66977), (66979, 66993), (66995, 67001), (67003, 67004), (67072, 67382),
      (67392, 67413), (67424, 67431), (67456, 67461), (67463, 67504), (67506, 67514), (67584, 67589),
      (67592, 67592), (67594, 67637), (67639, 67640), (67644, 67644), (67647, 67669), (67672, 67702),
      (67705, 67742), (67751, 67759), (67808, 67826), (67828, 67829), (67835, 67867), (67872, 67897),
      (67968, 68023), (68028, 68047), (68050, 68096), (68112, 68115), (68117, 68119), (68121, 68149),
      (68160, 68168), (68192, 68222), (68224, 68255), (68288, 68295), (68297, 68324), (68331, 68335),
      (68352, 68405), (68416, 68437), (68440, 68466), (68472, 68497), (68521, 68527), (68608, 68680),
      (68736, 68786), (68800, 68850), (68858, 68899), (68912, 68921), (69216, 69246), (69248, 69289),
      (69296, 69297), (69376, 69415), (69424, 69445), (69457, 69460), (69488, 69505), (69552, 69579),
      (69600, 69622), (69635, 69687), (69714, 69743), (69745, 69746), (69749, 69749), (69763, 69807),
      (69840, 69864), (69872, 69881), (69891, 69926), (69942, 69951), (69956, 69956), (69959, 69959),
      (69968, 70002), (70006, 70006), (70019, 70066), (70081, 70084), (70096, 70106), (70108, 70108),
      (70113, 70132), (70144, 70161), (70163, 70187), (70272, 70278), (70280, 70280), (70282, 70285),
      (70287, 70301), (70303, 70312), (70320, 70366), (70384, 70393), (70405, 70412), (70415, 70416),
      (70419, 70440), (70442, 70448), (70450, 70451), (70453, 70457), (70461, 70461), (70480, 70480),
      (70493, 70497), (70656, 70708), (70727, 70730), (70736, 70745), (70751, 70753), (70784, 70831),
      (70852, 70853), (70855, 70855), (70864, 70873), (71040, 71086), (71128, 71131), (71168, 71215),
      (71236, 71236), (71248, 71257), (71296, 71338), (71352, 71352), (71360, 71369), (71424, 71450),
      (71472, 71483), (71488, 71494), (71680, 71723), (71840, 71922), (71935, 71942), (71945, 71945),
      (71948, 71955), (71957, 71958), (71960, 71983), (71999, 71999), (72001, 72001), (72016, 72025),
      (72096, 72103), (72106, 72144), (72161, 72161), (72163, 72163), (72192, 72192), (72203, 72242),
      (72250, 72250), (72272, 72272), (72284, 72329), (72349, 72349), (72368, 72440), (72704, 72712),
      (72714, 72750), (72768, 72768), (72784, 72812), (72818, 72847), (72960, 72966), (72968, 72969),
      (72971, 73008), (73030, 73030), (73040, 73049), (73056, 73061), (73063, 73064), (73066, 73097),
      (73112, 73112), (73120, 73129), (73440, 73458), (73648, 73648), (73664, 73684), (73728, 74649),
      (74752, 74862), (74880, 75075), (77712, 77808), (77824, 78894), (82944, 83526), (92160, 92728),
      (92736, 92766), (92768, 92777), (92784, 92862), (92864, 92873), (92880, 92909), (92928, 92975),
      (92992, 92995), (93008, 93017), (93019, 93025), (93027, 93047), (93053, 93071), (93760, 93846),
      (93952, 94026), (94032, 94032), (94099, 94111), (94176, 94177), (94179, 94179), (94208, 100343),
      (100352, 101589), (101632, 101640), (110576, 110579), (110581, 110587), (110589, 110590), (110592, 110882),
      (110928, 110930), (110948, 110951), (110960, 111355), (113664, 113770), (113776, 113788), (113792, 113800),
      (113808, 113817), (119520, 119539), (119648, 119672), (119808, 119892), (119894, 119964), (119966, 119967),
      (119970, 119970), (119973, 119974), (119977, 119980), (119982, 119993), (119995, 119995), (119997, 120003),
      (120005, 120069), (120071, 120074), (120077, 120084), (120086, 120092), (120094, 120121), (120123, 120126),
      (120128, 120132), (120134, 120134), (120138, 120144), (120146, 120485), (120488, 120512), (120514, 120538),
      (120540, 120570), (120572, 120596), (120598, 120628), (120630, 120654), (120656, 120686), (120688, 120712),
      (120714, 120744), (120746, 120770), (120772, 120779), (120782, 120831), (122624, 122654), (123136, 123180),
      (123191, 123197), (123200, 123209), (123214, 123214), (123536, 123565), (123584, 123627), (123632, 123641),
      (124896, 124902), (124904, 124907), (124909, 124910), (124912, 124926), (124928, 125124), (125127, 125135),
      (125184, 125251), (125259, 125259), (125264, 125273), (126065, 126123), (126125, 126127), (126129, 126132),
      (126209, 126253), (126255, 126269), (126464, 126467), (126469, 126495), (126497, 126498), (126500, 126500),
      (126503, 126503), (126505, 126514), (126516, 126519), (126521, 126521), (126523, 126523), (126530, 126530),
      (126535, 126535), (126537, 126537), (126539, 126539), (126541, 126543), (126545, 126546), (126548, 126548),
      (126551, 126551), (126553, 126553), (126555, 126555), (126557, 126557), (126559, 126559), (126561, 126562),
      (126564, 126564), (126567, 126570), (126572, 126578), (126580, 126583), (126585, 126588), (126590, 126590),
      (126592, 126601), (126603, 126619), (126625, 126627), (126629, 126633), (126635, 126651), (127232, 127244),
      (130032, 130041), (131072, 173791), (173824, 177976), (177984, 178205), (178208, 183969), (183984, 191456),
      (194560, 195101), (196608, 201546)]"

text \<open>
  The decimal digits (\<^verbatim>\<open>str.isdecimal\<close>): the class \<^verbatim>\<open>\d\<close>.
\<close>

definition decimal_latin :: "(nat \<times> nat) list" where
  "decimal_latin =
     [(48, 57)]"

definition decimal_above :: "(nat \<times> nat) list" where
  "decimal_above =
     [(1632, 1641), (1776, 1785), (1984, 1993), (2406, 2415), (2534, 2543), (2662, 2671),
      (2790, 2799), (2918, 2927), (3046, 3055), (3174, 3183), (3302, 3311), (3430, 3439),
      (3558, 3567), (3664, 3673), (3792, 3801), (3872, 3881), (4160, 4169), (4240, 4249),
      (6112, 6121), (6160, 6169), (6470, 6479), (6608, 6617), (6784, 6793), (6800, 6809),
      (6992, 7001), (7088, 7097), (7232, 7241), (7248, 7257), (42528, 42537), (43216, 43225),
      (43264, 43273), (43472, 43481), (43504, 43513), (43600, 43609), (44016, 44025), (65296, 65305),
      (66720, 66729), (68912, 68921), (69734, 69743), (69872, 69881), (69942, 69951), (70096, 70105),
      (70384, 70393), (70736, 70745), (70864, 70873), (71248, 71257), (71360, 71369), (71472, 71481),
      (71904, 71913), (72016, 72025), (72784, 72793), (73040, 73049), (73120, 73129), (92768, 92777),
      (92864, 92873), (93008, 93017), (120782, 120831), (123200, 123209), (123632, 123641), (125264, 125273),
      (130032, 130041)]"

text \<open>
  The code points that \<^verbatim>\<open>re\<close> takes as cased: those that differ from their lower or their upper
  case.
\<close>

definition cased_latin :: "(nat \<times> nat) list" where
  "cased_latin =
     [(65, 90), (97, 122), (181, 181), (192, 214), (216, 246), (248, 311),
      (313, 396)]"

definition cased_above :: "(nat \<times> nat) list" where
  "cased_above =
     [(398, 410), (412, 425), (428, 441), (444, 445), (447, 447), (452, 544),
      (546, 563), (570, 596), (598, 599), (601, 601), (603, 604), (608, 609),
      (611, 611), (613, 614), (616, 620), (623, 623), (625, 626), (629, 629),
      (637, 637), (640, 640), (642, 643), (647, 652), (658, 658), (669, 670),
      (837, 837), (880, 883), (886, 887), (891, 893), (895, 895), (902, 902),
      (904, 906), (908, 908), (910, 929), (931, 977), (981, 1013), (1015, 1019),
      (1021, 1153), (1162, 1327), (1329, 1366), (1377, 1415), (4256, 4293), (4295, 4295),
      (4301, 4301), (4304, 4346), (4349, 4351), (5024, 5109), (5112, 5117), (7296, 7304),
      (7312, 7354), (7357, 7359), (7545, 7545), (7549, 7549), (7566, 7566), (7680, 7835),
      (7838, 7838), (7840, 7957), (7960, 7965), (7968, 8005), (8008, 8013), (8016, 8023),
      (8025, 8025), (8027, 8027), (8029, 8029), (8031, 8061), (8064, 8116), (8118, 8124),
      (8126, 8126), (8130, 8132), (8134, 8140), (8144, 8147), (8150, 8155), (8160, 8172),
      (8178, 8180), (8182, 8188), (8486, 8486), (8490, 8491), (8498, 8498), (8526, 8526),
      (8544, 8575), (8579, 8580), (9398, 9449), (11264, 11376), (11378, 11379), (11381, 11382),
      (11390, 11491), (11499, 11502), (11506, 11507), (11520, 11557), (11559, 11559), (11565, 11565),
      (42560, 42605), (42624, 42651), (42786, 42799), (42802, 42863), (42873, 42887), (42891, 42893),
      (42896, 42900), (42902, 42926), (42928, 42954), (42960, 42961), (42966, 42969), (42997, 42998),
      (43859, 43859), (43888, 43967), (64256, 64262), (64275, 64279), (65313, 65338), (65345, 65370),
      (66560, 66639), (66736, 66771), (66776, 66811), (66928, 66938), (66940, 66954), (66956, 66962),
      (66964, 66965), (66967, 66977), (66979, 66993), (66995, 67001), (67003, 67004), (68736, 68786),
      (68800, 68850), (71840, 71903), (93760, 93823), (125184, 125251)]"

text \<open>
  The case-ignorable code points, which the rule for the final sigma skips.
\<close>

definition case_ignorable_latin :: "(nat \<times> nat) list" where
  "case_ignorable_latin =
     [(39, 39), (46, 46), (58, 58), (94, 94), (96, 96), (168, 168),
      (173, 173), (175, 175), (180, 180), (183, 184)]"

definition case_ignorable_above :: "(nat \<times> nat) list" where
  "case_ignorable_above =
     [(688, 879), (884, 885), (890, 890), (900, 901), (903, 903), (1155, 1161),
      (1369, 1369), (1375, 1375), (1425, 1469), (1471, 1471), (1473, 1474), (1476, 1477),
      (1479, 1479), (1524, 1524), (1536, 1541), (1552, 1562), (1564, 1564), (1600, 1600),
      (1611, 1631), (1648, 1648), (1750, 1757), (1759, 1768), (1770, 1773), (1807, 1807),
      (1809, 1809), (1840, 1866), (1958, 1968), (2027, 2037), (2042, 2042), (2045, 2045),
      (2070, 2093), (2137, 2139), (2184, 2184), (2192, 2193), (2200, 2207), (2249, 2306),
      (2362, 2362), (2364, 2364), (2369, 2376), (2381, 2381), (2385, 2391), (2402, 2403),
      (2417, 2417), (2433, 2433), (2492, 2492), (2497, 2500), (2509, 2509), (2530, 2531),
      (2558, 2558), (2561, 2562), (2620, 2620), (2625, 2626), (2631, 2632), (2635, 2637),
      (2641, 2641), (2672, 2673), (2677, 2677), (2689, 2690), (2748, 2748), (2753, 2757),
      (2759, 2760), (2765, 2765), (2786, 2787), (2810, 2815), (2817, 2817), (2876, 2876),
      (2879, 2879), (2881, 2884), (2893, 2893), (2901, 2902), (2914, 2915), (2946, 2946),
      (3008, 3008), (3021, 3021), (3072, 3072), (3076, 3076), (3132, 3132), (3134, 3136),
      (3142, 3144), (3146, 3149), (3157, 3158), (3170, 3171), (3201, 3201), (3260, 3260),
      (3263, 3263), (3270, 3270), (3276, 3277), (3298, 3299), (3328, 3329), (3387, 3388),
      (3393, 3396), (3405, 3405), (3426, 3427), (3457, 3457), (3530, 3530), (3538, 3540),
      (3542, 3542), (3633, 3633), (3636, 3642), (3654, 3662), (3761, 3761), (3764, 3772),
      (3782, 3782), (3784, 3789), (3864, 3865), (3893, 3893), (3895, 3895), (3897, 3897),
      (3953, 3966), (3968, 3972), (3974, 3975), (3981, 3991), (3993, 4028), (4038, 4038),
      (4141, 4144), (4146, 4151), (4153, 4154), (4157, 4158), (4184, 4185), (4190, 4192),
      (4209, 4212), (4226, 4226), (4229, 4230), (4237, 4237), (4253, 4253), (4348, 4348),
      (4957, 4959), (5906, 5908), (5938, 5939), (5970, 5971), (6002, 6003), (6068, 6069),
      (6071, 6077), (6086, 6086), (6089, 6099), (6103, 6103), (6109, 6109), (6155, 6159),
      (6211, 6211), (6277, 6278), (6313, 6313), (6432, 6434), (6439, 6440), (6450, 6450),
      (6457, 6459), (6679, 6680), (6683, 6683), (6742, 6742), (6744, 6750), (6752, 6752),
      (6754, 6754), (6757, 6764), (6771, 6780), (6783, 6783), (6823, 6823), (6832, 6862),
      (6912, 6915), (6964, 6964), (6966, 6970), (6972, 6972), (6978, 6978), (7019, 7027),
      (7040, 7041), (7074, 7077), (7080, 7081), (7083, 7085), (7142, 7142), (7144, 7145),
      (7149, 7149), (7151, 7153), (7212, 7219), (7222, 7223), (7288, 7293), (7376, 7378),
      (7380, 7392), (7394, 7400), (7405, 7405), (7412, 7412), (7416, 7417), (7468, 7530),
      (7544, 7544), (7579, 7679), (8125, 8125), (8127, 8129), (8141, 8143), (8157, 8159),
      (8173, 8175), (8189, 8190), (8203, 8207), (8216, 8217), (8228, 8228), (8231, 8231),
      (8234, 8238), (8288, 8292), (8294, 8303), (8305, 8305), (8319, 8319), (8336, 8348),
      (8400, 8432), (11388, 11389), (11503, 11505), (11631, 11631), (11647, 11647), (11744, 11775),
      (11823, 11823), (12293, 12293), (12330, 12333), (12337, 12341), (12347, 12347), (12441, 12446),
      (12540, 12542), (40981, 40981), (42232, 42237), (42508, 42508), (42607, 42610), (42612, 42621),
      (42623, 42623), (42652, 42655), (42736, 42737), (42752, 42785), (42864, 42864), (42888, 42890),
      (42994, 42996), (43000, 43001), (43010, 43010), (43014, 43014), (43019, 43019), (43045, 43046),
      (43052, 43052), (43204, 43205), (43232, 43249), (43263, 43263), (43302, 43309), (43335, 43345),
      (43392, 43394), (43443, 43443), (43446, 43449), (43452, 43453), (43471, 43471), (43493, 43494),
      (43561, 43566), (43569, 43570), (43573, 43574), (43587, 43587), (43596, 43596), (43632, 43632),
      (43644, 43644), (43696, 43696), (43698, 43700), (43703, 43704), (43710, 43711), (43713, 43713),
      (43741, 43741), (43756, 43757), (43763, 43764), (43766, 43766), (43867, 43871), (43881, 43883),
      (44005, 44005), (44008, 44008), (44013, 44013), (64286, 64286), (64434, 64450), (65024, 65039),
      (65043, 65043), (65056, 65071), (65106, 65106), (65109, 65109), (65279, 65279), (65287, 65287),
      (65294, 65294), (65306, 65306), (65342, 65342), (65344, 65344), (65392, 65392), (65438, 65439),
      (65507, 65507), (65529, 65531), (66045, 66045), (66272, 66272), (66422, 66426), (67456, 67461),
      (67463, 67504), (67506, 67514), (68097, 68099), (68101, 68102), (68108, 68111), (68152, 68154),
      (68159, 68159), (68325, 68326), (68900, 68903), (69291, 69292), (69446, 69456), (69506, 69509),
      (69633, 69633), (69688, 69702), (69744, 69744), (69747, 69748), (69759, 69761), (69811, 69814),
      (69817, 69818), (69821, 69821), (69826, 69826), (69837, 69837), (69888, 69890), (69927, 69931),
      (69933, 69940), (70003, 70003), (70016, 70017), (70070, 70078), (70089, 70092), (70095, 70095),
      (70191, 70193), (70196, 70196), (70198, 70199), (70206, 70206), (70367, 70367), (70371, 70378),
      (70400, 70401), (70459, 70460), (70464, 70464), (70502, 70508), (70512, 70516), (70712, 70719),
      (70722, 70724), (70726, 70726), (70750, 70750), (70835, 70840), (70842, 70842), (70847, 70848),
      (70850, 70851), (71090, 71093), (71100, 71101), (71103, 71104), (71132, 71133), (71219, 71226),
      (71229, 71229), (71231, 71232), (71339, 71339), (71341, 71341), (71344, 71349), (71351, 71351),
      (71453, 71455), (71458, 71461), (71463, 71467), (71727, 71735), (71737, 71738), (71995, 71996),
      (71998, 71998), (72003, 72003), (72148, 72151), (72154, 72155), (72160, 72160), (72193, 72202),
      (72243, 72248), (72251, 72254), (72263, 72263), (72273, 72278), (72281, 72283), (72330, 72342),
      (72344, 72345), (72752, 72758), (72760, 72765), (72767, 72767), (72850, 72871), (72874, 72880),
      (72882, 72883), (72885, 72886), (73009, 73014), (73018, 73018), (73020, 73021), (73023, 73029),
      (73031, 73031), (73104, 73105), (73109, 73109), (73111, 73111), (73459, 73460), (78896, 78904),
      (92912, 92916), (92976, 92982), (92992, 92995), (94031, 94031), (94095, 94111), (94176, 94177),
      (94179, 94180), (110576, 110579), (110581, 110587), (110589, 110590), (113821, 113822), (113824, 113827),
      (118528, 118573), (118576, 118598), (119143, 119145), (119155, 119170), (119173, 119179), (119210, 119213),
      (119362, 119364), (121344, 121398), (121403, 121452), (121461, 121461), (121476, 121476), (121499, 121503),
      (121505, 121519), (122880, 122886), (122888, 122904), (122907, 122913), (122915, 122916), (122918, 122922),
      (123184, 123197), (123566, 123566), (123628, 123631), (125136, 125142), (125252, 125259), (127995, 127999),
      (917505, 917505), (917536, 917631), (917760, 917999)]"

text \<open>
  The cased code points that are not case-ignorable.
\<close>

definition cased_letter_latin :: "(nat \<times> nat) list" where
  "cased_letter_latin =
     [(65, 90), (97, 122), (170, 170), (181, 181), (186, 186), (192, 214),
      (216, 246), (248, 442)]"

definition cased_letter_above :: "(nat \<times> nat) list" where
  "cased_letter_above =
     [(444, 447), (452, 659), (661, 687), (880, 883), (886, 887), (891, 893),
      (895, 895), (902, 902), (904, 906), (908, 908), (910, 929), (931, 1013),
      (1015, 1153), (1162, 1327), (1329, 1366), (1376, 1416), (4256, 4293), (4295, 4295),
      (4301, 4301), (4304, 4346), (4349, 4351), (5024, 5109), (5112, 5117), (7296, 7304),
      (7312, 7354), (7357, 7359), (7424, 7467), (7531, 7543), (7545, 7578), (7680, 7957),
      (7960, 7965), (7968, 8005), (8008, 8013), (8016, 8023), (8025, 8025), (8027, 8027),
      (8029, 8029), (8031, 8061), (8064, 8116), (8118, 8124), (8126, 8126), (8130, 8132),
      (8134, 8140), (8144, 8147), (8150, 8155), (8160, 8172), (8178, 8180), (8182, 8188),
      (8450, 8450), (8455, 8455), (8458, 8467), (8469, 8469), (8473, 8477), (8484, 8484),
      (8486, 8486), (8488, 8488), (8490, 8493), (8495, 8500), (8505, 8505), (8508, 8511),
      (8517, 8521), (8526, 8526), (8544, 8575), (8579, 8580), (9398, 9449), (11264, 11387),
      (11390, 11492), (11499, 11502), (11506, 11507), (11520, 11557), (11559, 11559), (11565, 11565),
      (42560, 42605), (42624, 42651), (42786, 42863), (42865, 42887), (42891, 42894), (42896, 42954),
      (42960, 42961), (42963, 42963), (42965, 42969), (42997, 42998), (43002, 43002), (43824, 43866),
      (43872, 43880), (43888, 43967), (64256, 64262), (64275, 64279), (65313, 65338), (65345, 65370),
      (66560, 66639), (66736, 66771), (66776, 66811), (66928, 66938), (66940, 66954), (66956, 66962),
      (66964, 66965), (66967, 66977), (66979, 66993), (66995, 67001), (67003, 67004), (68736, 68786),
      (68800, 68850), (71840, 71903), (93760, 93823), (119808, 119892), (119894, 119964), (119966, 119967),
      (119970, 119970), (119973, 119974), (119977, 119980), (119982, 119993), (119995, 119995), (119997, 120003),
      (120005, 120069), (120071, 120074), (120077, 120084), (120086, 120092), (120094, 120121), (120123, 120126),
      (120128, 120132), (120134, 120134), (120138, 120144), (120146, 120485), (120488, 120512), (120514, 120538),
      (120540, 120570), (120572, 120596), (120598, 120628), (120630, 120654), (120656, 120686), (120688, 120712),
      (120714, 120744), (120746, 120770), (120772, 120779), (122624, 122633), (122635, 122654), (125184, 125251),
      (127280, 127305), (127312, 127337), (127344, 127369)]"

text \<open>
  The simple lower-case mapping: a run \<open>(a, b, t, k)\<close> maps \<open>a\<close>, \<open>a + k\<close>, ..., \<open>b\<close> to \<open>t\<close>,
  \<open>t + k\<close>, ...; every other code point is its own lower case.
\<close>

definition lower_latin :: "(nat \<times> nat \<times> nat \<times> nat) list" where
  "lower_latin =
     [(65, 90, 97, 1), (192, 214, 224, 1), (216, 222, 248, 1), (256, 302, 257, 2),
      (304, 304, 105, 1), (306, 310, 307, 2), (313, 327, 314, 2), (330, 374, 331, 2),
      (376, 376, 255, 1), (377, 381, 378, 2)]"

definition lower_above :: "(nat \<times> nat \<times> nat \<times> nat) list" where
  "lower_above =
     [(385, 385, 595, 1), (386, 388, 387, 2), (390, 390, 596, 1), (391, 391, 392, 1),
      (393, 394, 598, 1), (395, 395, 396, 1), (398, 398, 477, 1), (399, 399, 601, 1),
      (400, 400, 603, 1), (401, 401, 402, 1), (403, 403, 608, 1), (404, 404, 611, 1),
      (406, 406, 617, 1), (407, 407, 616, 1), (408, 408, 409, 1), (412, 412, 623, 1),
      (413, 413, 626, 1), (415, 415, 629, 1), (416, 420, 417, 2), (422, 422, 640, 1),
      (423, 423, 424, 1), (425, 425, 643, 1), (428, 428, 429, 1), (430, 430, 648, 1),
      (431, 431, 432, 1), (433, 434, 650, 1), (435, 437, 436, 2), (439, 439, 658, 1),
      (440, 440, 441, 1), (444, 444, 445, 1), (452, 452, 454, 1), (453, 453, 454, 1),
      (455, 455, 457, 1), (456, 456, 457, 1), (458, 458, 460, 1), (459, 475, 460, 2),
      (478, 494, 479, 2), (497, 497, 499, 1), (498, 500, 499, 2), (502, 502, 405, 1),
      (503, 503, 447, 1), (504, 542, 505, 2), (544, 544, 414, 1), (546, 562, 547, 2),
      (570, 570, 11365, 1), (571, 571, 572, 1), (573, 573, 410, 1), (574, 574, 11366, 1),
      (577, 577, 578, 1), (579, 579, 384, 1), (580, 580, 649, 1), (581, 581, 652, 1),
      (582, 590, 583, 2), (880, 882, 881, 2), (886, 886, 887, 1), (895, 895, 1011, 1),
      (902, 902, 940, 1), (904, 906, 941, 1), (908, 908, 972, 1), (910, 911, 973, 1),
      (913, 929, 945, 1), (931, 939, 963, 1), (975, 975, 983, 1), (984, 1006, 985, 2),
      (1012, 1012, 952, 1), (1015, 1015, 1016, 1), (1017, 1017, 1010, 1), (1018, 1018, 1019, 1),
      (1021, 1023, 891, 1), (1024, 1039, 1104, 1), (1040, 1071, 1072, 1), (1120, 1152, 1121, 2),
      (1162, 1214, 1163, 2), (1216, 1216, 1231, 1), (1217, 1229, 1218, 2), (1232, 1326, 1233, 2),
      (1329, 1366, 1377, 1), (4256, 4293, 11520, 1), (4295, 4295, 11559, 1), (4301, 4301, 11565, 1),
      (5024, 5103, 43888, 1), (5104, 5109, 5112, 1), (7312, 7354, 4304, 1), (7357, 7359, 4349, 1),
      (7680, 7828, 7681, 2), (7838, 7838, 223, 1), (7840, 7934, 7841, 2), (7944, 7951, 7936, 1),
      (7960, 7965, 7952, 1), (7976, 7983, 7968, 1), (7992, 7999, 7984, 1), (8008, 8013, 8000, 1),
      (8025, 8031, 8017, 2), (8040, 8047, 8032, 1), (8072, 8079, 8064, 1), (8088, 8095, 8080, 1),
      (8104, 8111, 8096, 1), (8120, 8121, 8112, 1), (8122, 8123, 8048, 1), (8124, 8124, 8115, 1),
      (8136, 8139, 8050, 1), (8140, 8140, 8131, 1), (8152, 8153, 8144, 1), (8154, 8155, 8054, 1),
      (8168, 8169, 8160, 1), (8170, 8171, 8058, 1), (8172, 8172, 8165, 1), (8184, 8185, 8056, 1),
      (8186, 8187, 8060, 1), (8188, 8188, 8179, 1), (8486, 8486, 969, 1), (8490, 8490, 107, 1),
      (8491, 8491, 229, 1), (8498, 8498, 8526, 1), (8544, 8559, 8560, 1), (8579, 8579, 8580, 1),
      (9398, 9423, 9424, 1), (11264, 11311, 11312, 1), (11360, 11360, 11361, 1), (11362, 11362, 619, 1),
      (11363, 11363, 7549, 1), (11364, 11364, 637, 1), (11367, 11371, 11368, 2), (11373, 11373, 593, 1),
      (11374, 11374, 625, 1), (11375, 11375, 592, 1), (11376, 11376, 594, 1), (11378, 11378, 11379, 1),
      (11381, 11381, 11382, 1), (11390, 11391, 575, 1), (11392, 11490, 11393, 2), (11499, 11501, 11500, 2),
      (11506, 11506, 11507, 1), (42560, 42604, 42561, 2), (42624, 42650, 42625, 2), (42786, 42798, 42787, 2),
      (42802, 42862, 42803, 2), (42873, 42875, 42874, 2), (42877, 42877, 7545, 1), (42878, 42886, 42879, 2),
      (42891, 42891, 42892, 1), (42893, 42893, 613, 1), (42896, 42898, 42897, 2), (42902, 42920, 42903, 2),
      (42922, 42922, 614, 1), (42923, 42923, 604, 1), (42924, 42924, 609, 1), (42925, 42925, 620, 1),
      (42926, 42926, 618, 1), (42928, 42928, 670, 1), (42929, 42929, 647, 1), (42930, 42930, 669, 1),
      (42931, 42931, 43859, 1), (42932, 42946, 42933, 2), (42948, 42948, 42900, 1), (42949, 42949, 642, 1),
      (42950, 42950, 7566, 1), (42951, 42953, 42952, 2), (42960, 42960, 42961, 1), (42966, 42968, 42967, 2),
      (42997, 42997, 42998, 1), (65313, 65338, 65345, 1), (66560, 66599, 66600, 1), (66736, 66771, 66776, 1),
      (66928, 66938, 66967, 1), (66940, 66954, 66979, 1), (66956, 66962, 66995, 1), (66964, 66965, 67003, 1),
      (68736, 68786, 68800, 1), (71840, 71871, 71872, 1), (93760, 93791, 93792, 1), (125184, 125217, 125218, 1)]"

text \<open>
  The table \<^verbatim>\<open>_EXTRA_CASES\<close> of \<^verbatim>\<open>re\<close>: for a lower-case character, the other lower-case characters
  that match it under \<^verbatim>\<open>IGNORECASE\<close>.
\<close>

definition extra_cases :: "(nat \<times> nat list) list" where
  "extra_cases =
     [(105, [305]), (115, [383]), (181, [956]), (305, [105]), (383, [115]),
      (837, [953, 8126]), (912, [8147]), (944, [8163]), (946, [976]), (949, [1013]),
      (952, [977]), (953, [837, 8126]), (954, [1008]), (956, [181]), (960, [982]),
      (961, [1009]), (962, [963]), (963, [962]), (966, [981]), (976, [946]),
      (977, [952]), (981, [966]), (982, [960]), (1008, [954]), (1009, [961]),
      (1013, [949]), (1074, [7296]), (1076, [7297]), (1086, [7298]), (1089, [7299]),
      (1090, [7300, 7301]), (1098, [7302]), (1123, [7303]), (7296, [1074]), (7297, [1076]),
      (7298, [1086]), (7299, [1089]), (7300, [1090, 7301]), (7301, [1090, 7300]), (7302, [1098]),
      (7303, [1123]), (7304, [42571]), (7777, [7835]), (7835, [7777]), (8126, [837, 953]),
      (8147, [912]), (8163, [944]), (42571, [7304]), (64261, [64262]), (64262, [64261])]"

text \<open>\<^verbatim>\<open>str.isspace\<close>, which is also the class \<^verbatim>\<open>\s\<close>\<close>

definition is_space :: "nat \<Rightarrow> bool" where
  "is_space c \<longleftrightarrow>
     (9 \<le> c \<and> c \<le> 13) \<or> (28 \<le> c \<and> c \<le> 32) \<or> c = 133 \<or> c = 160 \<or> c = 5760 \<or>
     (8192 \<le> c \<and> c \<le> 8202) \<or> c = 8232 \<or> c = 8233 \<or> c = 8239 \<or> c = 8287 \<or> c = 12288"

text \<open>An ASCII digit\<close>

definition is_digit :: "nat \<Rightarrow> bool" where
  "is_digit c \<longleftrightarrow> 48 \<le> c \<and> c \<le> 57"

definition is_decimal :: "nat \<Rightarrow> bool" where
  "is_decimal c \<longleftrightarrow> in_ranges (decimal_latin @ decimal_above) c"

definition is_word :: "nat \<Rightarrow> bool" where
  "is_word c \<longleftrightarrow> in_ranges (word_latin @ word_above) c"

definition is_cased :: "nat \<Rightarrow> bool" where
  "is_cased c \<longleftrightarrow> in_ranges (cased_latin @ cased_above) c"

definition case_ignorable :: "nat \<Rightarrow> bool" where
  "case_ignorable c \<longleftrightarrow> in_ranges (case_ignorable_latin @ case_ignorable_above) c"

definition cased_letter :: "nat \<Rightarrow> bool" where
  "cased_letter c \<longleftrightarrow> in_ranges (cased_letter_latin @ cased_letter_above) c"

text \<open>The simple lower-case mapping of one code point.\<close>

definition lower_cp :: "nat \<Rightarrow> nat" where
  "lower_cp c = apply_runs (lower_latin @ lower_above) c"

text \<open>
  \<^verbatim>\<open>str.lower()\<close>. The full mapping differs from the simple one at 304 (dotted capital I
  becomes \<^verbatim>\<open>i\<close> and the combining dot 775) and at 931, the capital sigma: it becomes the
  final sigma 962 when a cased letter comes before it and none after it, case-ignorable
  characters skipped on both sides, and the sigma 963 otherwise. The flag \<open>b\<close> says that a
  cased letter comes before.
\<close>

definition cased_follows :: "pystr \<Rightarrow> bool" where
  "cased_follows s = (case dropWhile case_ignorable s of [] \<Rightarrow> False | c # _ \<Rightarrow> cased_letter c)"

fun lower_from :: "bool \<Rightarrow> pystr \<Rightarrow> pystr" where
  "lower_from b [] = []"
| "lower_from b (c # cs) =
     (if c = 931 then [if b \<and> \<not> cased_follows cs then 962 else 963]
      else if c = 304 then [105, 775]
      else [lower_cp c]) @
     lower_from (if case_ignorable c then b else cased_letter c) cs"

definition lower :: "pystr \<Rightarrow> pystr" where
  "lower s = lower_from False s"

text \<open>\<^verbatim>\<open>s.strip()\<close>\<close>

definition strip :: "pystr \<Rightarrow> pystr" where
  "strip s = rev (dropWhile is_space (rev (dropWhile is_space s)))"

text \<open>\<^verbatim>\<open>s.replace(old, new)\<close> for a one-character \<^verbatim>\<open>old\<close>\<close>

definition replace :: "nat \<Rightarrow> pystr \<Rightarrow> pystr \<Rightarrow> pystr" where
  "replace old new s = concat (map (\<lambda>c. if c = old then new else [c]) s)"

text \<open>\<^verbatim>\<open>s.split(sep)\<close> for a one-character separator: always at least one part.\<close>

fun split_str :: "nat \<Rightarrow> pystr \<Rightarrow> pystr list" where
  "split_str sep [] = [[]]"
| "split_str sep (c # cs) =
     (if c = sep then [] # split_str sep cs
      else (case split_str sep cs of p # ps \<Rightarrow> (c # p) # ps | [] \<Rightarrow> [[c]]))"

text \<open>\<^verbatim>\<open>sub in s\<close>\<close>

fun contains :: "pystr \<Rightarrow> pystr \<Rightarrow> bool" where
  "contains sub [] \<longleftrightarrow> sub = []"
| "contains sub (c # cs) \<longleftrightarrow> take (length sub) (c # cs) = sub \<or> contains sub cs"

text \<open>\<^verbatim>\<open>s.find(sub)\<close>, where \<^verbatim>\<open>None\<close> stands for \<^verbatim>\<open>-1\<close>\<close>

fun find_from :: "nat \<Rightarrow> pystr \<Rightarrow> pystr \<Rightarrow> nat option" where
  "find_from i sub [] = (if sub = [] then Some i else None)"
| "find_from i sub (c # cs) =
     (if take (length sub) (c # cs) = sub then Some i else find_from (Suc i) sub cs)"

definition find_str :: "pystr \<Rightarrow> pystr \<Rightarrow> nat option" where
  "find_str s sub = find_from 0 sub s"

text \<open>\<^verbatim>\<open>s[i:j]\<close> for \<^verbatim>\<open>0 \<le> i\<close> and \<^verbatim>\<open>0 \<le> j\<close>\<close>

definition slice :: "pystr \<Rightarrow> nat \<Rightarrow> nat \<Rightarrow> pystr" where
  "slice s i j = drop i (take j s)"

text \<open>\<^verbatim>\<open>str(n)\<close> for a non-negative integer\<close>

fun str_nat :: "nat \<Rightarrow> pystr" where
  "str_nat n = (if n < 10 then [48 + n] else str_nat (n div 10) @ [48 + n mod 10])"

declare str_nat.simps [simp del]

text \<open>
  \<^verbatim>\<open>int(s)\<close> on a string of ASCII digits, which is all that the group \<^verbatim>\<open>([0-9]+)\<close> can
  capture; any other string is the \<^verbatim>\<open>ValueError\<close> of the model. CPython (from 3.11) also
  raises \<^verbatim>\<open>ValueError\<close> on more than 4300 digits, leading zeros counted.
\<close>

definition digits_val :: "pystr \<Rightarrow> nat" where
  "digits_val s = foldl (\<lambda>a c. 10 * a + (c - 48)) 0 s"

definition py_int :: "pystr \<Rightarrow> nat option" where
  "py_int s =
     (if s \<noteq> [] \<and> list_all is_digit s \<and> length s \<le> 4300 then Some (digits_val s) else None)"

subsection \<open>\<^verbatim>\<open>float(s)\<close>\<close>

text \<open>
  \<^verbatim>\<open>float\<close> is only ever applied to text captured by groups over digits, white space,
  dots and commas, with the commas already turned into dots. On such text it succeeds
  exactly on \<^verbatim>\<open>D+\<close>, \<^verbatim>\<open>D+.D*\<close> and \<^verbatim>\<open>D*.D+\<close> (white space around it stripped), and the
  result is the decimal value rounded to the nearest IEEE double, ties to even. The model
  keeps the double as the rational number it denotes. Rounding is to 53 significant bits
  with no bound on the exponent: where Python overflows to infinity or underflows, the
  model's value is on the same side of every bound the program compares against.
\<close>

fun bit_length :: "nat \<Rightarrow> nat" where
  "bit_length n = (if n = 0 then 0 else Suc (bit_length (n div 2)))"

declare bit_length.simps [simp del]

definition round_double :: "nat \<Rightarrow> nat \<Rightarrow> rat" where
  "round_double n d =
     (if n = 0 then 0
      else
        let e0 = int (bit_length n) - int (bit_length d);
            e = (if (if 0 \<le> e0 then d * 2 ^ nat e0 \<le> n else d \<le> n * 2 ^ nat (- e0))
                 then e0 else e0 - 1);
            sh = 52 - e;
            N = (if 0 \<le> sh then n * 2 ^ nat sh else n);
            D = (if 0 \<le> sh then d else d * 2 ^ nat (- sh));
            q = N div D;
            r = N mod D;
            m = (if D < 2 * r \<or> (2 * r = D \<and> odd q) then q + 1 else q)
        in if 0 \<le> sh then of_nat m / 2 ^ nat sh else of_nat m * 2 ^ nat (- sh))"

definition py_float :: "pystr \<Rightarrow> rat option" where
  "py_float s =
     (case split_str 46 (strip s) of
        [a] \<Rightarrow>
          if a \<noteq> [] \<and> list_all is_digit a then Some (round_double (digits_val a) 1) else None
      | [a, b] \<Rightarrow>
          if list_all is_digit a \<and> list_all is_digit b \<and> (a \<noteq> [] \<or> b \<noteq> [])
          then Some (round_double (digits_val (a @ b)) (10 ^ length b))
          else None
      | _ \<Rightarrow> None)"

section \<open>Regular expressions\<close>

text \<open>
  The fragment of Python's \<^verbatim>\<open>re\<close> syntax that the patterns of the program are written in:
  literals, character sets, the classes \<^verbatim>\<open>\s\<close>, \<^verbatim>\<open>\d\<close> and \<^verbatim>\<open>\w\<close>, greedy repetition of one
  character or set, an optional subexpression, concatenation, alternation and numbered
  groups. The matcher is the backtracking search of \<^verbatim>\<open>re\<close>: \<open>rm\<close> lists every way the
  expression matches a prefix of the input, in the order in which backtracking tries
  them, so the head of the list is the match Python reports at that position.
\<close>

datatype cls = CChr nat | CRng nat nat | CSpace | CDigit | CWord

datatype atom = Chr nat | In "cls list" | NotIn "cls list"

datatype regex =
    Emp
  | Atom atom
  | Rep atom nat "nat option"
  | Opt regex
  | Seq regex regex
  | Alt regex regex
  | Grp nat regex

text \<open>
  A character and a pattern character, as the compiled pattern compares them. The first
  argument is the \<^verbatim>\<open>IGNORECASE\<close> flag. Without it, or for a pattern character that is not
  cased, the two must be equal. Otherwise the lower case of the character of the text must
  be the lower case of the pattern character or one of its extra cases.
\<close>

definition folds_to :: "nat \<Rightarrow> nat \<Rightarrow> bool" where
  "folds_to x y \<longleftrightarrow> y = lower_cp x \<or> y \<in> set (lookup_sorted extra_cases (lower_cp x))"

definition chr_ok :: "bool \<Rightarrow> nat \<Rightarrow> nat \<Rightarrow> bool" where
  "chr_ok ic x c \<longleftrightarrow> (if ic \<and> is_cased x then folds_to x (lower_cp c) else c = x)"

text \<open>
  A set is compared without regard to case only if one of its characters is cased; then
  it is the lower case of the character of the text that is looked up, in the set of the
  lower cases and their extra cases. The classes are looked up as they are.
\<close>

fun cls_cased :: "cls \<Rightarrow> bool" where
  "cls_cased (CChr x) \<longleftrightarrow> is_cased x"
| "cls_cased (CRng a b) \<longleftrightarrow> list_ex is_cased [a..<Suc b]"
| "cls_cased CSpace \<longleftrightarrow> False"
| "cls_cased CDigit \<longleftrightarrow> False"
| "cls_cased CWord \<longleftrightarrow> False"

definition set_cased :: "cls list \<Rightarrow> bool" where
  "set_cased ks \<longleftrightarrow> list_ex cls_cased ks"

fun cls_in :: "cls \<Rightarrow> nat \<Rightarrow> bool" where
  "cls_in (CChr x) c \<longleftrightarrow> c = x"
| "cls_in (CRng a b) c \<longleftrightarrow> a \<le> c \<and> c \<le> b"
| "cls_in CSpace c \<longleftrightarrow> is_space c"
| "cls_in CDigit c \<longleftrightarrow> is_decimal c"
| "cls_in CWord c \<longleftrightarrow> is_word c"

fun cls_folded :: "cls \<Rightarrow> nat \<Rightarrow> bool" where
  "cls_folded (CChr x) y \<longleftrightarrow> folds_to x y"
| "cls_folded (CRng a b) y \<longleftrightarrow> list_ex (\<lambda>x. folds_to x y) [a..<Suc b]"
| "cls_folded k y \<longleftrightarrow> cls_in k y"

definition set_ok :: "bool \<Rightarrow> cls list \<Rightarrow> nat \<Rightarrow> bool" where
  "set_ok ic ks c \<longleftrightarrow>
     (if ic \<and> set_cased ks then list_ex (\<lambda>k. cls_folded k (lower_cp c)) ks
      else list_ex (\<lambda>k. cls_in k c) ks)"

fun atom_ok :: "bool \<Rightarrow> atom \<Rightarrow> nat \<Rightarrow> bool" where
  "atom_ok ic (Chr x) c \<longleftrightarrow> chr_ok ic x c"
| "atom_ok ic (In ks) c \<longleftrightarrow> set_ok ic ks c"
| "atom_ok ic (NotIn ks) c \<longleftrightarrow> \<not> set_ok ic ks c"

text \<open>One way of matching: the text matched, the input left, and the groups set.\<close>

type_synonym mres = "pystr \<times> pystr \<times> (nat \<times> pystr) list"

text \<open>Greedy repetition of a one-character test, between \<open>lo\<close> and \<open>hi\<close> times: longest first.\<close>

fun rep :: "(nat \<Rightarrow> bool) \<Rightarrow> nat \<Rightarrow> nat option \<Rightarrow> pystr \<Rightarrow> mres list" where
  "rep p lo hi [] = (if lo = 0 then [([], [], [])] else [])"
| "rep p lo hi (c # cs) =
     (if p c \<and> hi \<noteq> Some 0
      then map (\<lambda>(m, r, g). (c # m, r, g)) (rep p (lo - 1) (map_option (\<lambda>h. h - 1) hi) cs)
      else []) @ (if lo = 0 then [([], c # cs, [])] else [])"

fun then_each :: "(pystr \<Rightarrow> mres list) \<Rightarrow> mres list \<Rightarrow> mres list" where
  "then_each f [] = []"
| "then_each f ((m1, s1, g1) # xs) =
     map (\<lambda>(m2, s2, g2). (m1 @ m2, s2, g1 @ g2)) (f s1) @ then_each f xs"

fun rm :: "bool \<Rightarrow> regex \<Rightarrow> pystr \<Rightarrow> mres list" where
  "rm ic Emp s = [([], s, [])]"
| "rm ic (Atom a) s =
     (case s of [] \<Rightarrow> [] | c # cs \<Rightarrow> if atom_ok ic a c then [([c], cs, [])] else [])"
| "rm ic (Rep a lo hi) s = rep (atom_ok ic a) lo hi s"
| "rm ic (Opt r) s = rm ic r s @ [([], s, [])]"
| "rm ic (Seq r1 r2) s = then_each (rm ic r2) (rm ic r1 s)"
| "rm ic (Alt r1 r2) s = rm ic r1 s @ rm ic r2 s"
| "rm ic (Grp i r) s = map (\<lambda>(m, s', g). (m, s', (i, m) # g)) (rm ic r s)"

text \<open>A match object: \<^verbatim>\<open>m.start()\<close>, \<^verbatim>\<open>m.group(0)\<close> and the numbered groups.\<close>

record rmatch =
  mstart :: nat
  group0 :: pystr
  groups :: "(nat \<times> pystr) list"

text \<open>
  \<^verbatim>\<open>m.group(i)\<close>. Every group of the program's patterns takes part in every match, so the
  \<^verbatim>\<open>None\<close> of a group that did not take part never arises; it is the empty string here.
\<close>

definition mgroup :: "nat \<Rightarrow> rmatch \<Rightarrow> pystr" where
  "mgroup i m = (case map_of (groups m) i of None \<Rightarrow> [] | Some g \<Rightarrow> g)"

definition mend :: "rmatch \<Rightarrow> nat" where
  "mend m = mstart m + length (group0 m)"

definition match_at :: "bool \<Rightarrow> regex \<Rightarrow> nat \<Rightarrow> pystr \<Rightarrow> rmatch option" where
  "match_at ic r pos s =
     (case rm ic r s of
        [] \<Rightarrow> None
      | (m, s', g) # _ \<Rightarrow> Some \<lparr>mstart = pos, group0 = m, groups = g\<rparr>)"

text \<open>\<^verbatim>\<open>re.search\<close>: the match at the leftmost position that has one.\<close>

fun search_from :: "bool \<Rightarrow> regex \<Rightarrow> nat \<Rightarrow> pystr \<Rightarrow> rmatch option" where
  "search_from ic r pos [] = match_at ic r pos []"
| "search_from ic r pos (c # cs) =
     (case match_at ic r pos (c # cs) of
        Some m \<Rightarrow> Some m
      | None \<Rightarrow> search_from ic r (Suc pos) cs)"

definition search :: "bool \<Rightarrow> regex \<Rightarrow> pystr \<Rightarrow> rmatch option" where
  "search ic r s = search_from ic r 0 s"

text \<open>
  \<^verbatim>\<open>re.finditer\<close>: the non-overlapping matches from left to right. The counter \<open>k\<close> is the
  number of characters still covered by the match found last.
\<close>

fun finditer_from :: "bool \<Rightarrow> regex \<Rightarrow> nat \<Rightarrow> nat \<Rightarrow> pystr \<Rightarrow> rmatch list" where
  "finditer_from ic r k pos [] =
     (if k = 0 then (case match_at ic r pos [] of Some m \<Rightarrow> [m] | None \<Rightarrow> []) else [])"
| "finditer_from ic r (Suc k) pos (c # cs) = finditer_from ic r k (Suc pos) cs"
| "finditer_from ic r 0 pos (c # cs) =
     (case match_at ic r pos (c # cs) of
        None \<Rightarrow> finditer_from ic r 0 (Suc pos) cs
      | Some m \<Rightarrow> m # finditer_from ic r (length (group0 m) - 1) (Suc pos) cs)"

definition finditer :: "bool \<Rightarrow> regex \<Rightarrow> pystr \<Rightarrow> rmatch list" where
  "finditer ic r s = finditer_from ic r 0 0 s"

text \<open>\<^verbatim>\<open>re.sub(r, '', s)\<close>: the text with every match of \<open>r\<close> taken out.\<close>

fun sub_from :: "bool \<Rightarrow> regex \<Rightarrow> nat \<Rightarrow> pystr \<Rightarrow> pystr" where
  "sub_from ic r k [] = []"
| "sub_from ic r (Suc k) (c # cs) = sub_from ic r k cs"
| "sub_from ic r 0 (c # cs) =
     (case match_at ic r 0 (c # cs) of
        None \<Rightarrow> c # sub_from ic r 0 cs
      | Some m \<Rightarrow>
          if group0 m = [] then c # sub_from ic r 0 cs
          else sub_from ic r (length (group0 m) - 1) cs)"

definition sub_empty :: "bool \<Rightarrow> regex \<Rightarrow> pystr \<Rightarrow> pystr" where
  "sub_empty ic r s = sub_from ic r 0 s"

subsection \<open>Writing patterns\<close>

definition lits :: "pystr \<Rightarrow> regex" where
  "lits s = foldr (\<lambda>c. Seq (Atom (Chr c))) s Emp"

definition lit :: "string \<Rightarrow> regex" where
  "lit s = lits (ascii s)"

definition seq :: "regex list \<Rightarrow> regex" where
  "seq rs = foldr Seq rs Emp"

fun alts :: "regex list \<Rightarrow> regex" where
  "alts [] = Emp"
| "alts [r] = r"
| "alts (r # rs) = Alt r (alts rs)"

definition star :: "atom \<Rightarrow> regex" where
  "star a = Rep a 0 None"

definition plus1 :: "atom \<Rightarrow> regex" where
  "plus1 a = Rep a 1 None"

definition opt :: "atom \<Rightarrow> regex" where
  "opt a = Rep a 0 (Some 1)"

text \<open>\<^verbatim>\<open>\s\<close>, \<^verbatim>\<open>\d\<close>, \<^verbatim>\<open>[0-9]\<close>, \<^verbatim>\<open>:\<close>, \<^verbatim>\<open>[^\n]\<close>\<close>

definition ws :: atom where
  "ws = In [CSpace]"

definition dd :: atom where
  "dd = In [CDigit]"

definition d09 :: atom where
  "d09 = In [CRng 48 57]"

definition colon :: atom where
  "colon = Chr 58"

definition not_nl :: atom where
  "not_nl = NotIn [CChr 10]"

section \<open>\<^verbatim>\<open>ml_service.py\<close>: \<^verbatim>\<open>extract_with_patterns\<close>\<close>

text \<open>The dictionary \<^verbatim>\<open>extracted\<close>: ten fixed keys, all strings.\<close>

record extracted =
  projectName :: pystr
  invoicedTotal :: pystr
  currency :: pystr
  exchangeRate :: pystr
  invoiceDate :: pystr
  invoiceDueDate :: pystr
  invoiceNumber :: pystr
  numberOfMDs :: pystr
  mdRate :: pystr
  client :: pystr

definition defaults :: extracted where
  "defaults =
     \<lparr>projectName = [], invoicedTotal = [], currency = ascii ''CZK'', exchangeRate = [],
      invoiceDate = [], invoiceDueDate = [], invoiceNumber = [], numberOfMDs = [],
      mdRate = [], client = []\<rparr>"

subsection \<open>Invoice number\<close>

text \<open>
  \<^verbatim>\<open>\u010d\u00edslo\s*:?\s*([0-9]+)\<close>,
  \<^verbatim>\<open>invoice\s*(?:number|no|#)?\s*:?\s*([a-z0-9\-]+)\<close>,
  \<^verbatim>\<open>inv\s*(?:number|no|#)?\s*:?\s*([a-z0-9\-]+)\<close>,
  \<^verbatim>\<open>#\s*([a-z0-9\-]+)\<close>
\<close>

definition number_word :: regex where
  "number_word = Opt (alts [lit ''number'', lit ''no'', lit ''#''])"

definition id_group :: regex where
  "id_group = Grp 1 (plus1 (In [CRng 97 122, CRng 48 57, CChr 45]))"

definition invoice_num_patterns :: "regex list" where
  "invoice_num_patterns =
     [seq [lits ([269, 237] @ ascii ''slo''), star ws, opt colon, star ws, Grp 1 (plus1 d09)],
      seq [lit ''invoice'', star ws, number_word, star ws, opt colon, star ws, id_group],
      seq [lit ''inv'', star ws, number_word, star ws, opt colon, star ws, id_group],
      seq [lit ''#'', star ws, id_group]]"

fun invoice_number_loop :: "regex list \<Rightarrow> pystr \<Rightarrow> extracted \<Rightarrow> extracted" where
  "invoice_number_loop [] text e = e"
| "invoice_number_loop (p # ps) text e =
     (case search True p text of
        Some m \<Rightarrow> e\<lparr>invoiceNumber := strip (mgroup 1 m)\<rparr>
      | None \<Rightarrow> invoice_number_loop ps text e)"

subsection \<open>Project name\<close>

text \<open>
  \<^verbatim>\<open>(?:project|description|service|item|p\u0159edm\u011bt|n\u00e1zev)\s*:?\s*([^\n]{5,100})\<close>,
  \<^verbatim>\<open>\u00fa\u010del\s*:?\s*([^\n]{5,100})\<close>
\<close>

definition line_group :: regex where
  "line_group = Grp 1 (Rep not_nl 5 (Some 100))"

definition project_patterns :: "regex list" where
  "project_patterns =
     [seq [alts [lit ''project'', lit ''description'', lit ''service'', lit ''item'',
                 lits (ascii ''p'' @ [345] @ ascii ''edm'' @ [283] @ ascii ''t''),
                 lits (ascii ''n'' @ [225] @ ascii ''zev'')],
           star ws, opt colon, star ws, line_group],
      seq [lits ([250, 269] @ ascii ''el''), star ws, opt colon, star ws, line_group]]"

fun project_loop :: "regex list \<Rightarrow> pystr \<Rightarrow> extracted \<Rightarrow> extracted" where
  "project_loop [] text e = e"
| "project_loop (p # ps) text e =
     (case search True p text of
        Some m \<Rightarrow>
          (let candidate = strip (mgroup 1 m) in
           if 5 < length candidate \<and> length candidate < 100 then e\<lparr>projectName := candidate\<rparr>
           else project_loop ps text e)
      | None \<Rightarrow> project_loop ps text e)"

subsection \<open>Total amount and currency\<close>

text \<open>
  \<^verbatim>\<open>bez\s+dph\s*[:\s]*([0-9\s]+[.,][0-9]+)\<close>,
  \<^verbatim>\<open>sou\u010det\s*[:\s]*([0-9\s]+[.,][0-9]+)\<close>,
  \<^verbatim>\<open>z\u00e1klad\s+dph\s*[:\s]*([0-9\s]+[.,][0-9]+)\<close>,
  \<^verbatim>\<open>celkem\s+k\s+\u00fahrad\u011b\s*\([^)]*\)\s*([0-9\s]+[.,][0-9]+)\<close>,
  \<^verbatim>\<open>celkem\s+k\s+\u00fahrad\u011b\s*:?\s*([0-9\s,]+[.,]?[0-9]+)\<close>,
  \<^verbatim>\<open>(?:celkem|celkov\u00e1\s+\u010d\u00e1stka|suma|\u010d\u00e1stka)\s*:?\s*([0-9\s,]+[.,]?[0-9]+)\s*(?:k\u010d|czk)\<close>,
  \<^verbatim>\<open>(?:total|amount|sum|subtotal|due|invoice\s+total)\s*:?\s*([0-9\s,]+[.,]?[0-9]+)\s*(?:k\u010d|czk|eur|\u20ac)\<close>
\<close>

definition dot_or_comma :: atom where
  "dot_or_comma = In [CChr 46, CChr 44]"

definition amount_group :: regex where
  "amount_group = Grp 1 (seq [plus1 (In [CRng 48 57, CSpace]), Atom dot_or_comma, plus1 d09])"

definition loose_amount_group :: regex where
  "loose_amount_group =
     Grp 1 (seq [plus1 (In [CRng 48 57, CSpace, CChr 44]), opt dot_or_comma, plus1 d09])"

definition colon_or_space :: atom where
  "colon_or_space = In [CChr 58, CSpace]"

definition uhrade :: pystr where
  "uhrade = [250] @ ascii ''hrad'' @ [283]"

definition castka :: pystr where
  "castka = [269, 225] @ ascii ''stka''"

definition kc :: pystr where
  "kc = [107, 269]"

definition amount_patterns :: "regex list" where
  "amount_patterns =
     [seq [lit ''bez'', plus1 ws, lit ''dph'', star ws, star colon_or_space, amount_group],
      seq [lits (ascii ''sou'' @ [269] @ ascii ''et''), star ws, star colon_or_space, amount_group],
      seq [lits (ascii ''z'' @ [225] @ ascii ''klad''), plus1 ws, lit ''dph'', star ws,
           star colon_or_space, amount_group],
      seq [lit ''celkem'', plus1 ws, lit ''k'', plus1 ws, lits uhrade, star ws,
           Atom (Chr 40), star (NotIn [CChr 41]), Atom (Chr 41), star ws, amount_group],
      seq [lit ''celkem'', plus1 ws, lit ''k'', plus1 ws, lits uhrade, star ws, opt colon, star ws,
           loose_amount_group],
      seq [alts [lit ''celkem'', seq [lits (ascii ''celkov'' @ [225]), plus1 ws, lits castka],
                 lit ''suma'', lits castka],
           star ws, opt colon, star ws, loose_amount_group, star ws, alts [lits kc, lit ''czk'']],
      seq [alts [lit ''total'', lit ''amount'', lit ''sum'', lit ''subtotal'', lit ''due'',
                 seq [lit ''invoice'', plus1 ws, lit ''total'']],
           star ws, opt colon, star ws, loose_amount_group, star ws,
           alts [lits kc, lit ''czk'', lit ''eur'', lits [8364]]]]"

text \<open>
  The treatment of a captured amount: \<^verbatim>\<open>strip\<close>, spaces removed, commas turned into dots,
  and of several dots only the last kept.
\<close>

definition normalize_amount :: "pystr \<Rightarrow> pystr" where
  "normalize_amount g =
     (let amount_str = replace 44 [46] (replace 32 [] (strip g));
          parts = split_str 46 amount_str
      in if 2 < length parts then concat (butlast parts) @ [46] @ last parts else amount_str)"

text \<open>An element of \<^verbatim>\<open>all_amounts\<close>\<close>

record candidate =
  cand_amount :: pystr
  cand_value :: rat
  cand_currency :: pystr
  cand_matched_text :: pystr

definition is_eur :: "pystr \<Rightarrow> bool" where
  "is_eur g0 \<longleftrightarrow> contains (ascii ''eur'') (lower g0)"

definition has_bez_dph :: "pystr \<Rightarrow> bool" where
  "has_bez_dph g0 \<longleftrightarrow> contains (ascii ''bez'') (lower g0) \<and> contains (ascii ''dph'') (lower g0)"

definition has_soucet_zaklad :: "pystr \<Rightarrow> bool" where
  "has_soucet_zaklad g0 \<longleftrightarrow>
     contains (ascii ''sou'' @ [269] @ ascii ''et'') (lower g0) \<or>
     contains (ascii ''z'' @ [225] @ ascii ''klad'') (lower g0)"

definition currency_of :: "bool \<Rightarrow> pystr" where
  "currency_of eur = (if eur then ascii ''EUR'' else ascii ''CZK'')"

definition plausible_amount :: "rat \<Rightarrow> bool" where
  "plausible_amount v \<longleftrightarrow> 100 < v \<and> v < 100000000"

definition mk_candidate :: "rmatch \<Rightarrow> pystr \<Rightarrow> rat \<Rightarrow> candidate" where
  "mk_candidate m amount_str v =
     \<lparr>cand_amount = amount_str, cand_value = v,
      cand_currency = currency_of (is_eur (group0 m) \<or> contains [8364] (group0 m)),
      cand_matched_text = group0 m\<rparr>"

text \<open>
  The inner loop, over the matches of one pattern. The state is \<^verbatim>\<open>all_amounts\<close> and
  \<^verbatim>\<open>extracted\<close>. Returning without a recursive call is the \<^verbatim>\<open>break\<close>; it leaves this loop only.
\<close>

fun scan_matches :: "rmatch list \<Rightarrow> candidate list \<times> extracted \<Rightarrow> candidate list \<times> extracted" where
  "scan_matches [] st = st"
| "scan_matches (m # ms) (all_amounts, e) =
     (let amount_str = normalize_amount (mgroup 1 m) in
      case py_float amount_str of
        None \<Rightarrow> scan_matches ms (all_amounts, e)
      | Some v \<Rightarrow>
          if plausible_amount v then
            (let all_amounts' = all_amounts @ [mk_candidate m amount_str v] in
             if has_bez_dph (group0 m) then
               (all_amounts',
                e\<lparr>invoicedTotal := amount_str, currency := currency_of (is_eur (group0 m))\<rparr>)
             else if has_soucet_zaklad (group0 m) then
               (all_amounts',
                e\<lparr>invoicedTotal := amount_str, currency := currency_of (is_eur (group0 m))\<rparr>)
             else scan_matches ms (all_amounts', e))
          else scan_matches ms (all_amounts, e))"

text \<open>The outer loop, over the patterns.\<close>

fun amount_loop :: "regex list \<Rightarrow> pystr \<Rightarrow> candidate list \<times> extracted \<Rightarrow> candidate list \<times> extracted" where
  "amount_loop [] text st = st"
| "amount_loop (p # ps) text st = amount_loop ps text (scan_matches (finditer True p text) st)"

text \<open>
  \<^verbatim>\<open>all_amounts.sort(key=lambda x: x['value'], reverse=True)\<close>: Python's sort is stable, also
  with \<^verbatim>\<open>reverse=True\<close>, so candidates of equal value keep their order.
\<close>

definition sort_desc :: "candidate list \<Rightarrow> candidate list" where
  "sort_desc cs = sort_key (\<lambda>c. - cand_value c) cs"

definition use_largest :: "candidate list \<times> extracted \<Rightarrow> extracted" where
  "use_largest st =
     (case st of (all_amounts, e) \<Rightarrow>
        if invoicedTotal e = [] \<and> all_amounts \<noteq> [] then
          (case sort_desc all_amounts of
             largest # _ \<Rightarrow> e\<lparr>invoicedTotal := cand_amount largest, currency := cand_currency largest\<rparr>
           | [] \<Rightarrow> e)
        else e)"

definition amount_step :: "pystr \<Rightarrow> extracted \<Rightarrow> extracted" where
  "amount_step text e = use_largest (amount_loop amount_patterns text ([], e))"

subsection \<open>Dates\<close>

text \<open>
  \<^verbatim>\<open>datum\s+vystaven\u00ed\s*:?\s*(\d{1,2}\.\d{1,2}\.\d{2,4})\<close>,
  \<^verbatim>\<open>(?:invoice\s*date|date\s*of\s*invoice|issued)\s*:?\s*(\d{1,2}[\/\-\.]\d{1,2}[\/\-\.]\d{2,4})\<close>,
  \<^verbatim>\<open>datum\s*:?\s*(\d{1,2}[\/\-\.]\d{1,2}[\/\-\.]\d{2,4})\<close>;
  \<^verbatim>\<open>datum\s+splatnosti\s*:?\s*(\d{1,2}\.\d{1,2}\.\d{2,4})\<close>,
  \<^verbatim>\<open>(?:due\s*date|payment\s*due|pay\s*by|splatnost)\s*:?\s*(\d{1,2}[\/\-\.]\d{1,2}[\/\-\.]\d{2,4})\<close>
\<close>

definition dotted_date :: regex where
  "dotted_date =
     Grp 1 (seq [Rep dd 1 (Some 2), Atom (Chr 46), Rep dd 1 (Some 2), Atom (Chr 46),
                 Rep dd 2 (Some 4)])"

definition date_sep :: atom where
  "date_sep = In [CChr 47, CChr 45, CChr 46]"

definition any_date :: regex where
  "any_date =
     Grp 1 (seq [Rep dd 1 (Some 2), Atom date_sep, Rep dd 1 (Some 2), Atom date_sep,
                 Rep dd 2 (Some 4)])"

definition invoice_date_patterns :: "regex list" where
  "invoice_date_patterns =
     [seq [lit ''datum'', plus1 ws, lits (ascii ''vystaven'' @ [237]), star ws, opt colon, star ws,
           dotted_date],
      seq [alts [seq [lit ''invoice'', star ws, lit ''date''],
                 seq [lit ''date'', star ws, lit ''of'', star ws, lit ''invoice''],
                 lit ''issued''],
           star ws, opt colon, star ws, any_date],
      seq [lit ''datum'', star ws, opt colon, star ws, any_date]]"

definition due_date_patterns :: "regex list" where
  "due_date_patterns =
     [seq [lit ''datum'', plus1 ws, lit ''splatnosti'', star ws, opt colon, star ws, dotted_date],
      seq [alts [seq [lit ''due'', star ws, lit ''date''],
                 seq [lit ''payment'', star ws, lit ''due''],
                 seq [lit ''pay'', star ws, lit ''by''],
                 lit ''splatnost''],
           star ws, opt colon, star ws, any_date]]"

fun invoice_date_loop :: "regex list \<Rightarrow> pystr \<Rightarrow> extracted \<Rightarrow> extracted" where
  "invoice_date_loop [] text e = e"
| "invoice_date_loop (p # ps) text e =
     (case search True p text of
        Some m \<Rightarrow> e\<lparr>invoiceDate := mgroup 1 m\<rparr>
      | None \<Rightarrow> invoice_date_loop ps text e)"

fun due_date_loop :: "regex list \<Rightarrow> pystr \<Rightarrow> extracted \<Rightarrow> extracted" where
  "due_date_loop [] text e = e"
| "due_date_loop (p # ps) text e =
     (case search True p text of
        Some m \<Rightarrow> e\<lparr>invoiceDueDate := mgroup 1 m\<rparr>
      | None \<Rightarrow> due_date_loop ps text e)"

subsection \<open>Man-days: count and rate\<close>

text \<open>\<^verbatim>\<open>MD\s+([0-9]+)\s+([0-9\s,]+[.,][0-9]+)\<close>\<close>

definition rate_group :: "nat \<Rightarrow> regex" where
  "rate_group i =
     Grp i (seq [plus1 (In [CRng 48 57, CSpace, CChr 44]), Atom dot_or_comma, plus1 d09])"

definition md_line_pattern :: regex where
  "md_line_pattern = seq [lit ''MD'', plus1 ws, Grp 1 (plus1 d09), plus1 ws, rate_group 2]"

text \<open>The treatment of a captured rate: as for an amount, but several dots are left alone.\<close>

definition normalize_rate :: "pystr \<Rightarrow> pystr" where
  "normalize_rate g = replace 44 [46] (replace 32 [] (strip g))"

definition plausible_count :: "nat \<Rightarrow> bool" where
  "plausible_count n \<longleftrightarrow> 0 < n \<and> n < 1000"

definition plausible_rate :: "rat \<Rightarrow> bool" where
  "plausible_rate v \<longleftrightarrow> 100 < v \<and> v < 100000"

text \<open>
  The loop over the line items; the state is \<^verbatim>\<open>md_values\<close> and \<^verbatim>\<open>md_rates\<close>. A
  \<^verbatim>\<open>ValueError\<close> of \<^verbatim>\<open>int\<close> or \<^verbatim>\<open>float\<close> goes on with the next match, the count of this
  match being appended already when it is \<^verbatim>\<open>float\<close> that fails.
\<close>

fun md_scan :: "rmatch list \<Rightarrow> nat list \<times> pystr list \<Rightarrow> nat list \<times> pystr list" where
  "md_scan [] st = st"
| "md_scan (m # ms) (md_values, md_rates) =
     (case py_int (mgroup 1 m) of
        None \<Rightarrow> md_scan ms (md_values, md_rates)
      | Some md_count \<Rightarrow>
          (let md_values' = (if plausible_count md_count then md_values @ [md_count] else md_values);
               rate_str = normalize_rate (mgroup 2 m)
           in case py_float rate_str of
                None \<Rightarrow> md_scan ms (md_values', md_rates)
              | Some rate \<Rightarrow>
                  md_scan ms
                    (md_values', if plausible_rate rate then md_rates @ [rate_str] else md_rates)))"

definition md_step :: "pystr \<Rightarrow> extracted \<Rightarrow> extracted" where
  "md_step text e =
     (case md_scan (finditer True md_line_pattern text) ([], []) of (md_values, md_rates) \<Rightarrow>
        (let e1 = (if md_values \<noteq> [] then e\<lparr>numberOfMDs := str_nat (sum_list md_values)\<rparr> else e)
         in case md_rates of [] \<Rightarrow> e1 | r # _ \<Rightarrow> e1\<lparr>mdRate := r\<rparr>))"

text \<open>
  The labels used when the line items gave nothing:
  \<^verbatim>\<open>po\u010det\s+mj\s*:?\s*([0-9]+)\<close> and \<^verbatim>\<open>cena\s+mj\s*:?\s*([0-9\s,]+[.,][0-9]+)\<close>
\<close>

definition pocet_pattern :: regex where
  "pocet_pattern =
     seq [lits (ascii ''po'' @ [269] @ ascii ''et''), plus1 ws, lit ''mj'', star ws, opt colon, star ws,
          Grp 1 (plus1 d09)]"

definition cena_pattern :: regex where
  "cena_pattern = seq [lit ''cena'', plus1 ws, lit ''mj'', star ws, opt colon, star ws, rate_group 1]"

definition pocet_step :: "pystr \<Rightarrow> extracted \<Rightarrow> extracted" where
  "pocet_step text e =
     (if numberOfMDs e = [] then
        (case search True pocet_pattern text of
           Some m \<Rightarrow> e\<lparr>numberOfMDs := mgroup 1 m\<rparr>
         | None \<Rightarrow> e)
      else e)"

definition cena_step :: "pystr \<Rightarrow> extracted \<Rightarrow> extracted" where
  "cena_step text e =
     (if mdRate e = [] then
        (case search True cena_pattern text of
           Some m \<Rightarrow>
             (let rate_str = normalize_rate (mgroup 1 m) in
              case py_float rate_str of
                Some rate \<Rightarrow> if plausible_rate rate then e\<lparr>mdRate := rate_str\<rparr> else e
              | None \<Rightarrow> e)
         | None \<Rightarrow> e)
      else e)"

subsection \<open>Client\<close>

text \<open>
  With \<^verbatim>\<open>L\<close> for \<^verbatim>\<open>[^\n]*\n\<close>, \<^verbatim>\<open>C\<close> for \<^verbatim>\<open>s\.r\.o\.|s\.r\.o|a\.s\.|spol\.\<close> and \<^verbatim>\<open>E\<close> for
  \<^verbatim>\<open>Ltd\.|Inc\.|LLC|GmbH|Corp\.\<close>, the patterns are, in this order,
  \<^verbatim>\<open>odb\u011bratel\s*:?\s*LLL([^\n]+(?:C|spol|E))\<close>,
  \<^verbatim>\<open>odb\u011bratel\s*:?\s*LL([^\n]+(?:C))\<close>,
  \<^verbatim>\<open>odb\u011bratel\s*:?\s*L([^\n]+(?:C))\<close>,
  \<^verbatim>\<open>odb\u011bratel\s*:?\s*([^\n]+(?:C))\<close>,
  \<^verbatim>\<open>buyer\s*:?\s*([^\n]+(?:E))\<close>,
  \<^verbatim>\<open>client\s*:?\s*([^\n]+)\<close>.
  They are searched with \<^verbatim>\<open>IGNORECASE | MULTILINE\<close>; none has an anchor, so
  \<^verbatim>\<open>MULTILINE\<close> changes nothing.
\<close>

definition odberatel :: regex where
  "odberatel = seq [lits (ascii ''odb'' @ [283] @ ascii ''ratel''), star ws, opt colon, star ws]"

definition rest_of_line :: regex where
  "rest_of_line = seq [star not_nl, Atom (Chr 10)]"

definition czech_suffixes :: "regex list" where
  "czech_suffixes = [lit ''s.r.o.'', lit ''s.r.o'', lit ''a.s.'', lit ''spol.'']"

definition english_suffixes :: "regex list" where
  "english_suffixes = [lit ''Ltd.'', lit ''Inc.'', lit ''LLC'', lit ''GmbH'', lit ''Corp.'']"

definition name_ending :: "regex list \<Rightarrow> regex" where
  "name_ending sfx = Grp 1 (seq [plus1 not_nl, alts sfx])"

definition client_patterns :: "regex list" where
  "client_patterns =
     [seq [odberatel, rest_of_line, rest_of_line, rest_of_line,
           name_ending (czech_suffixes @ [lit ''spol''] @ english_suffixes)],
      seq [odberatel, rest_of_line, rest_of_line, name_ending czech_suffixes],
      seq [odberatel, rest_of_line, name_ending czech_suffixes],
      seq [odberatel, name_ending czech_suffixes],
      seq [lit ''buyer'', star ws, opt colon, star ws, name_ending english_suffixes],
      seq [lit ''client'', star ws, opt colon, star ws, Grp 1 (plus1 not_nl)]]"

text \<open>
  \<^verbatim>\<open>re.sub(r'\s+I\u010cO:\s*\d+', '', client_name).strip()\<close>, case-sensitive, and then
  \<^verbatim>\<open>re.sub(r'^\s*[^\w]*', '', client_name).strip()\<close>: the anchored pattern matches at the
  start of the string only, so this drops the leading white space and then the leading
  non-word characters.
\<close>

definition ico_pattern :: regex where
  "ico_pattern = seq [plus1 ws, lits [73, 268, 79], lit '':'', star ws, plus1 dd]"

definition clean_client :: "pystr \<Rightarrow> pystr" where
  "clean_client g =
     (let client_name = strip g;
          client_name = strip (sub_empty False ico_pattern client_name)
      in strip (dropWhile (\<lambda>c. \<not> is_word c) (dropWhile is_space client_name)))"

fun client_loop :: "regex list \<Rightarrow> pystr \<Rightarrow> extracted \<Rightarrow> extracted" where
  "client_loop [] text e = e"
| "client_loop (p # ps) text e =
     (case search True p text of
        Some m \<Rightarrow>
          (let client_name = clean_client (mgroup 1 m) in
           if 3 < length client_name \<and> length client_name < 200 then e\<lparr>client := client_name\<rparr>
           else client_loop ps text e)
      | None \<Rightarrow> client_loop ps text e)"

subsection \<open>The whole extraction\<close>

definition default_project :: "extracted \<Rightarrow> extracted" where
  "default_project e =
     (if projectName e = [] then
        e\<lparr>projectName :=
            (if invoiceNumber e \<noteq> [] then invoiceNumber e else ascii ''Imported Invoice'')\<rparr>
      else e)"

definition extract_with_patterns :: "pystr \<Rightarrow> extracted" where
  "extract_with_patterns text =
     (let e = defaults;
          e = invoice_number_loop invoice_num_patterns text e;
          e = project_loop project_patterns text e;
          e = amount_step text e;
          e = invoice_date_loop invoice_date_patterns text e;
          e = due_date_loop due_date_patterns text e;
          e = md_step text e;
          e = pocet_step text e;
          e = cena_step text e;
          e = client_loop client_patterns text e
      in default_project e)"

section \<open>\<^verbatim>\<open>train_model.py\<close>: \<^verbatim>\<open>analyze_corrections\<close>\<close>

text \<open>
  A feedback entry, as read from the JSON file: a dictionary whose values are looked up
  with \<^verbatim>\<open>get\<close> and a default, so any key may be missing.
\<close>

record feedback_entry =
  rawText :: "pystr option"
  correctedData :: "string \<rightharpoonup> pystr"
  extractedData :: "string \<rightharpoonup> pystr"
  corrections :: "string \<rightharpoonup> bool"

text \<open>
  The dictionaries \<^verbatim>\<open>patterns\<close> and \<^verbatim>\<open>corrections_count\<close> have the same four keys from
  start to end. Each value of \<^verbatim>\<open>patterns\<close> is a \<^verbatim>\<open>defaultdict(int)\<close>: an association list
  in insertion order, a missing key reading as 0.
\<close>

datatype field = ProjectName | InvoicedTotal | Currency | InvoiceNumber

fun field_key :: "field \<Rightarrow> string" where
  "field_key ProjectName = ''projectName''"
| "field_key InvoicedTotal = ''invoicedTotal''"
| "field_key Currency = ''currency''"
| "field_key InvoiceNumber = ''invoiceNumber''"

type_synonym freq = "(pystr \<times> nat) list"

type_synonym learn_state = "(field \<Rightarrow> freq) \<times> (field \<Rightarrow> nat)"

record analysis =
  patterns :: "field \<Rightarrow> freq"
  corrections_count :: "field \<Rightarrow> nat"
  total_feedback :: nat

definition dget :: "freq \<Rightarrow> pystr \<Rightarrow> nat" where
  "dget d k = (case map_of d k of None \<Rightarrow> 0 | Some n \<Rightarrow> n)"

text \<open>\<^verbatim>\<open>patterns[f][k] += 1\<close> and \<^verbatim>\<open>corrections_count[f] += 1\<close>\<close>

definition bump :: "field \<Rightarrow> pystr \<Rightarrow> learn_state \<Rightarrow> learn_state" where
  "bump f k st =
     (case st of (pats, cnt) \<Rightarrow> (pats(f := AList.update k (dget (pats f) k + 1) (pats f)), cnt))"

definition count_correction :: "field \<Rightarrow> learn_state \<Rightarrow> learn_state" where
  "count_correction f st = (case st of (pats, cnt) \<Rightarrow> (pats, cnt(f := cnt f + 1)))"

text \<open>\<^verbatim>\<open>for kw in kws: if kw in context: patterns[f][kw] += 1\<close>\<close>

definition bump_present :: "field \<Rightarrow> pystr list \<Rightarrow> pystr \<Rightarrow> learn_state \<Rightarrow> learn_state" where
  "bump_present f kws ctx st = fold (\<lambda>kw s. if contains kw ctx then bump f kw s else s) kws st"

definition flagged :: "feedback_entry \<Rightarrow> field \<Rightarrow> bool" where
  "flagged e f \<longleftrightarrow> corrections e (field_key f) = Some True"

definition corrected_value :: "feedback_entry \<Rightarrow> field \<Rightarrow> pystr" where
  "corrected_value e f = (case correctedData e (field_key f) of None \<Rightarrow> [] | Some v \<Rightarrow> v)"

definition raw_text_of :: "feedback_entry \<Rightarrow> pystr" where
  "raw_text_of e = lower (case rawText e of None \<Rightarrow> [] | Some t \<Rightarrow> t)"

definition project_prefixes :: "pystr list" where
  "project_prefixes =
     [ascii ''project'', ascii ''description'', ascii ''service'', ascii ''item'',
      ascii ''p'' @ [345] @ ascii ''edm'' @ [283] @ ascii ''t'', ascii ''n'' @ [225] @ ascii ''zev'',
      [250, 269] @ ascii ''el'']"

definition total_keywords :: "pystr list" where
  "total_keywords =
     [ascii ''celkem'', ascii ''total'', ascii ''amount'', ascii ''suma'', castka,
      ascii ''k '' @ uhrade]"

definition learn_project :: "feedback_entry \<Rightarrow> learn_state \<Rightarrow> learn_state" where
  "learn_project e st =
     (if flagged e ProjectName then
        (let st = count_correction ProjectName st;
             raw_text = raw_text_of e;
             project_name = lower (corrected_value e ProjectName)
         in if contains project_name raw_text then
              (case find_str raw_text project_name of
                 Some idx \<Rightarrow>
                   bump_present ProjectName project_prefixes
                     (slice raw_text (idx - 50) (min (length raw_text) (idx + length project_name + 50)))
                     st
               | None \<Rightarrow> st)
            else st)
      else st)"

text \<open>
  The pattern searched for a corrected total is built from the total itself:
  \<^verbatim>\<open>'(' + str(total).replace('.', '\.').replace(',', ',') + ')'\<close>. The total comes from
  the feedback file, so the pattern can be any text and \<^verbatim>\<open>re.finditer\<close> may raise
  \<^verbatim>\<open>re.error\<close>, which nothing catches. Compiling a pattern given as text is a parameter
  of the model, \<open>compile\<close>; the search itself is the one above, case-sensitive.
\<close>

datatype re_error = ReError pystr

type_synonym compiler = "pystr \<Rightarrow> re_error + regex"

definition total_pattern :: "pystr \<Rightarrow> pystr" where
  "total_pattern total' = [40] @ replace 44 [44] (replace 46 [92, 46] total') @ [41]"

definition learn_total :: "compiler \<Rightarrow> feedback_entry \<Rightarrow> learn_state \<Rightarrow> re_error + learn_state" where
  "learn_total compile e st =
     (if flagged e InvoicedTotal then
        (let st = count_correction InvoicedTotal st;
             raw_text = raw_text_of e;
             total' = corrected_value e InvoicedTotal
         in if total' \<noteq> [] then
              (case compile (total_pattern total') of
                 Inl err \<Rightarrow> Inl err
               | Inr r \<Rightarrow>
                   Inr (fold (\<lambda>m s. bump_present InvoicedTotal total_keywords
                                      (slice raw_text (mstart m - 30) (min (length raw_text) (mend m + 30))) s)
                          (finditer False r raw_text) st))
            else Inr st)
      else Inr st)"

definition learn_currency :: "feedback_entry \<Rightarrow> learn_state \<Rightarrow> learn_state" where
  "learn_currency e st =
     (if flagged e Currency then
        bump Currency (corrected_value e Currency) (count_correction Currency st)
      else st)"

definition process_entry :: "compiler \<Rightarrow> feedback_entry \<Rightarrow> learn_state \<Rightarrow> re_error + learn_state" where
  "process_entry compile e st =
     (case learn_total compile e (learn_project e st) of
        Inl err \<Rightarrow> Inl err
      | Inr st' \<Rightarrow> Inr (learn_currency e st'))"

fun analyze_loop :: "compiler \<Rightarrow> feedback_entry list \<Rightarrow> learn_state \<Rightarrow> re_error + learn_state" where
  "analyze_loop compile [] st = Inr st"
| "analyze_loop compile (e # es) st =
     (case process_entry compile e st of
        Inl err \<Rightarrow> Inl err
      | Inr st' \<Rightarrow> analyze_loop compile es st')"

definition analyze_corrections :: "compiler \<Rightarrow> feedback_entry list \<Rightarrow> re_error + analysis" where
  "analyze_corrections compile feedback =
     (case analyze_loop compile feedback (\<lambda>f. [], \<lambda>f. 0) of
        Inl err \<Rightarrow> Inl err
      | Inr (pats, cnt) \<Rightarrow>
          Inr \<lparr>patterns = pats, corrections_count = cnt, total_feedback = length feedback\<rparr>)"

text \<open>
  Python's compiler on the patterns that a total written with letters, digits, spaces,
  commas and dots gives: a group around literal text, an escaped dot being a dot. On any
  other pattern the compiler is \<open>rest\<close>, which stands for the remainder of Python's.
\<close>

definition metachars :: pystr where
  "metachars = ascii ''.^$*+?{}[]|()'' @ [92]"

fun literal_body :: "pystr \<Rightarrow> pystr option" where
  "literal_body [] = Some []"
| "literal_body [c] = (if c \<in> set metachars then None else Some [c])"
| "literal_body (c # d # cs) =
     (if c = 92 then (if d = 46 then map_option ((#) 46) (literal_body cs) else None)
      else if c \<in> set metachars then None
      else map_option ((#) c) (literal_body (d # cs)))"

definition compile_literal :: "compiler \<Rightarrow> compiler" where
  "compile_literal rest p =
     (case p of
        [] \<Rightarrow> rest p
      | c # cs \<Rightarrow>
          if c = 40 \<and> cs \<noteq> [] \<and> last cs = 41 then
            (case literal_body (butlast cs) of
               Some l \<Rightarrow> Inr (Grp 1 (lits l))
             | None \<Rightarrow> rest p)
          else rest p)"

section \<open>Notions used to state the results\<close>

subsection \<open>Candidates of the amount scan\<close>

text \<open>
  What the inner loop makes of one match: the candidate it appends, if the captured amount
  parses and its value is in range; and whether the matched text carries one of the labels
  that end the loop.
\<close>

definition candidate_of :: "rmatch \<Rightarrow> candidate option" where
  "candidate_of m =
     (case py_float (normalize_amount (mgroup 1 m)) of
        None \<Rightarrow> None
      | Some v \<Rightarrow>
          if plausible_amount v then Some (mk_candidate m (normalize_amount (mgroup 1 m)) v)
          else None)"

definition vat_labelled :: "pystr \<Rightarrow> bool" where
  "vat_labelled g0 \<longleftrightarrow> has_bez_dph g0 \<or> has_soucet_zaklad g0"

text \<open>The candidates of all matches of all patterns, in the order of the scan.\<close>

definition candidates :: "regex list \<Rightarrow> pystr \<Rightarrow> candidate list" where
  "candidates ps text = concat (map (\<lambda>p. List.map_filter candidate_of (finditer True p text)) ps)"

subsection \<open>Input texts\<close>

text \<open>\<^verbatim>\<open>Invoice: 2025-01\<close>\<close>

definition text_invoice_only :: pystr where
  "text_invoice_only = ascii ''Invoice: 2025-01''"

subsection \<open>The normalization rule in the words of the specification\<close>

text \<open>
  The rule of the specification for an amount token, written as it reads: remove white
  space, replace the comma by a decimal point, and of several dots keep the last only. It
  is compared with \<open>normalize_amount\<close>, which is the code.
\<close>

definition spec_normalize :: "pystr \<Rightarrow> pystr" where
  "spec_normalize g =
     (let s = replace 44 [46] (filter (\<lambda>c. \<not> is_space c) g);
          parts = split_str 46 s
      in if 2 < length parts then concat (butlast parts) @ [46] @ last parts else s)"

text \<open>
  The Czech format \<^verbatim>\<open>d{1,3}( d{3})*,dd\<close>: one to three digits, groups of a space and three
  digits, a comma and two digits.
\<close>

fun czech_tail :: "pystr \<Rightarrow> bool" where
  "czech_tail [c, a, b] \<longleftrightarrow> c = 44 \<and> is_digit a \<and> is_digit b"
| "czech_tail (s # a # b # c # rest) \<longleftrightarrow>
     s = 32 \<and> is_digit a \<and> is_digit b \<and> is_digit c \<and> czech_tail rest"
| "czech_tail _ \<longleftrightarrow> False"

definition czech_amount :: "pystr \<Rightarrow> bool" where
  "czech_amount g \<longleftrightarrow>
     list_ex (\<lambda>k. k \<le> length g \<and> list_all is_digit (take k g) \<and> czech_tail (drop k g)) [1, 2, 3]"

text \<open>The number of dots in a token once its spaces are removed and its commas are dots.\<close>

definition dots :: "pystr \<Rightarrow> nat" where
  "dots s =
     length (filter (\<lambda>c. c = 46)
       (map (\<lambda>c. if c = 44 then 46 else c) (filter (\<lambda>c. c \<noteq> 32) s)))"

text \<open>
  \<^verbatim>\<open>bez DPH: 495 000,00\<close> and \<^verbatim>\<open>Celkem k \u00fahrad\u011b (CZK) 598 950,00\<close>, the two lines of the
  specification's scenario; the text made of them; and the text with the line
  \<^verbatim>\<open>Sou\u010det: 300,00\<close> between them.
\<close>

definition line_bez_dph :: pystr where
  "line_bez_dph = ascii ''bez DPH: 495 000,00''"

definition line_celkem :: pystr where
  "line_celkem = ascii ''Celkem k '' @ uhrade @ ascii '' (CZK) 598 950,00''"

definition text_vat :: pystr where
  "text_vat = line_bez_dph @ [10] @ line_celkem"

definition text_soucet_after :: pystr where
  "text_soucet_after =
     line_bez_dph @ [10] @ ascii ''Sou'' @ [269] @ ascii ''et: 300,00'' @ [10] @ line_celkem"

text \<open>
  The unlabelled amount \<^verbatim>\<open>123 456,00\<close>; the same amount under a label; and a text with two
  labelled amounts, \<^verbatim>\<open>Celkem k \u00fahrad\u011b: 200,00\<close> and \<^verbatim>\<open>Total: 123 456,00 EUR\<close>.
\<close>

definition text_unlabelled :: pystr where
  "text_unlabelled = ascii ''123 456,00''"

definition text_labelled :: pystr where
  "text_labelled = ascii ''Celkem k '' @ uhrade @ ascii '': 123 456,00''"

definition text_two_amounts :: pystr where
  "text_two_amounts =
     ascii ''Celkem k '' @ uhrade @ ascii '': 200,00'' @ [10] @ ascii ''Total: 123 456,00 EUR''"

subsection \<open>Line items\<close>

text \<open>
  What the loop over the line items takes from one match: its count, if in range, and its
  normalized rate, if it parses to a value in range.
\<close>

definition accepted_count :: "rmatch \<Rightarrow> nat option" where
  "accepted_count m =
     (case py_int (mgroup 1 m) of
        None \<Rightarrow> None
      | Some n \<Rightarrow> if plausible_count n then Some n else None)"

definition accepted_rate :: "rmatch \<Rightarrow> pystr option" where
  "accepted_rate m =
     (case py_int (mgroup 1 m) of
        None \<Rightarrow> None
      | Some n \<Rightarrow>
          (case py_float (normalize_rate (mgroup 2 m)) of
             None \<Rightarrow> None
           | Some v \<Rightarrow> if plausible_rate v then Some (normalize_rate (mgroup 2 m)) else None))"

definition md_counts :: "pystr \<Rightarrow> nat list" where
  "md_counts text = List.map_filter accepted_count (finditer True md_line_pattern text)"

definition md_rates :: "pystr \<Rightarrow> pystr list" where
  "md_rates text = List.map_filter accepted_rate (finditer True md_line_pattern text)"

text \<open>
  The two fields in the words of the specification: the sum of the counts of all matched
  line items, and the normalized rate of the first matched line item.
\<close>

definition spec_numberOfMDs :: "pystr \<Rightarrow> pystr" where
  "spec_numberOfMDs text =
     str_nat (sum_list (map (\<lambda>m. digits_val (mgroup 1 m)) (finditer True md_line_pattern text)))"

definition spec_mdRate :: "pystr \<Rightarrow> pystr" where
  "spec_mdRate text =
     (case finditer True md_line_pattern text of
        [] \<Rightarrow> []
      | m # _ \<Rightarrow> normalize_rate (mgroup 2 m))"

text \<open>
  The line items \<^verbatim>\<open>MD 10 15 000,00\<close> and \<^verbatim>\<open>MD 8 15 000,00\<close>; the line items
  \<^verbatim>\<open>MD 1000 50,00\<close> and \<^verbatim>\<open>MD 8 15 000,00\<close>; the label \<^verbatim>\<open>Po\u010det MJ: 5000\<close>.
\<close>

definition text_md_two :: pystr where
  "text_md_two = ascii ''MD 10 15 000,00'' @ [10] @ ascii ''MD 8 15 000,00''"

definition text_md_out_of_range :: pystr where
  "text_md_out_of_range = ascii ''MD 1000 50,00'' @ [10] @ ascii ''MD 8 15 000,00''"

definition text_pocet :: pystr where
  "text_pocet = ascii ''Po'' @ [269] @ ascii ''et MJ: 5000''"

subsection \<open>Client\<close>

text \<open>
  A label, \<open>k\<close> lines skipped after it, and the capture of a line that ends in one of the
  suffixes \<open>sfx\<close>.
\<close>

definition label_skip :: "pystr \<Rightarrow> nat \<Rightarrow> regex list \<Rightarrow> regex" where
  "label_skip l k sfx =
     seq ([seq [lits l, star ws, opt colon, star ws]] @ replicate k rest_of_line @ [name_ending sfx])"

definition odb_label :: pystr where
  "odb_label = ascii ''odb'' @ [283] @ ascii ''ratel''"

text \<open>
  The client patterns in the words of the specification: with 0, 1, 2 and 3 lines skipped,
  in this order, each of the three labels, the line captured ending in one of the eight
  suffixes.
\<close>

definition spec_suffixes :: "regex list" where
  "spec_suffixes =
     [lit ''s.r.o.'', lit ''a.s.'', lit ''spol.'', lit ''Ltd.'', lit ''Inc.'', lit ''LLC'',
      lit ''GmbH'', lit ''Corp.'']"

definition spec_client_patterns :: "regex list" where
  "spec_client_patterns =
     concat (map (\<lambda>k. map (\<lambda>l. label_skip l k spec_suffixes)
                           [odb_label, ascii ''buyer'', ascii ''client''])
               [0, 1, 2, 3])"

text \<open>
  The patterns of the code, in its order: \<^verbatim>\<open>Odb\u011bratel\<close> with 3, 2, 1 and 0 lines skipped,
  then \<^verbatim>\<open>Buyer\<close>, then \<^verbatim>\<open>Client\<close>.
\<close>

definition buyer_pattern :: regex where
  "buyer_pattern = seq [lit ''buyer'', star ws, opt colon, star ws, name_ending english_suffixes]"

definition client_pattern :: regex where
  "client_pattern = seq [lit ''client'', star ws, opt colon, star ws, Grp 1 (plus1 not_nl)]"

definition code_client_patterns :: "regex list" where
  "code_client_patterns =
     [label_skip odb_label 3 (czech_suffixes @ [lit ''spol''] @ english_suffixes),
      label_skip odb_label 2 czech_suffixes,
      label_skip odb_label 1 czech_suffixes,
      label_skip odb_label 0 czech_suffixes,
      buyer_pattern,
      client_pattern]"

text \<open>
  What a pattern gives on a text: the capture of its first match, cleaned, when the length
  of that is strictly between 3 and 200. The first of the patterns of a list to give a
  name gives the client.
\<close>

definition accepted_client :: "regex \<Rightarrow> pystr \<Rightarrow> pystr option" where
  "accepted_client p text =
     (case search True p text of
        None \<Rightarrow> None
      | Some m \<Rightarrow>
          if 3 < length (clean_client (mgroup 1 m)) \<and> length (clean_client (mgroup 1 m)) < 200
          then Some (clean_client (mgroup 1 m)) else None)"

definition first_accepted :: "regex list \<Rightarrow> pystr \<Rightarrow> pystr" where
  "first_accepted ps text =
     (case List.map_filter (\<lambda>p. accepted_client p text) ps of [] \<Rightarrow> [] | n # _ \<Rightarrow> n)"

text \<open>
  The scenario of the specification, \<^verbatim>\<open>Odb\u011bratel:\nFoo\nBar\nAcme s.r.o.\<close>; a text with a
  company on the line of the label and another three lines below,
  \<^verbatim>\<open>Odb\u011bratel: Foo s.r.o.\nX\nY\nBar s.r.o.\<close>; \<^verbatim>\<open>Odb\u011bratel: Acme Ltd.\<close>;
  \<^verbatim>\<open>Buyer:\nFoo\nAcme Ltd.\<close>; \<^verbatim>\<open>Client: John Smith\<close>; \<^verbatim>\<open>Client: Acme s.r.o. I\u010cO: 12345678\<close>;
  and the name \<^verbatim>\<open>- \u0416\u0443\u043a s.r.o.\<close>, after a dash.
\<close>

definition label_odberatel :: pystr where
  "label_odberatel = ascii ''Odb'' @ [283] @ ascii ''ratel:''"

definition text_client_scenario :: pystr where
  "text_client_scenario =
     label_odberatel @ [10] @ ascii ''Foo'' @ [10] @ ascii ''Bar'' @ [10] @ ascii ''Acme s.r.o.''"

definition text_client_two :: pystr where
  "text_client_two =
     label_odberatel @ ascii '' Foo s.r.o.'' @ [10] @ ascii ''X'' @ [10] @ ascii ''Y'' @ [10] @
     ascii ''Bar s.r.o.''"

definition text_client_ltd :: pystr where
  "text_client_ltd = label_odberatel @ ascii '' Acme Ltd.''"

definition text_buyer_below :: pystr where
  "text_buyer_below = ascii ''Buyer:'' @ [10] @ ascii ''Foo'' @ [10] @ ascii ''Acme Ltd.''"

definition text_client_plain :: pystr where
  "text_client_plain = ascii ''Client: John Smith''"

definition text_client_ico :: pystr where
  "text_client_ico = ascii ''Client: Acme s.r.o. I'' @ [268] @ ascii ''O: 12345678''"

definition name_cyrillic :: pystr where
  "name_cyrillic = [1046, 1091, 1082] @ ascii '' s.r.o.''"

subsection \<open>The effect of one feedback entry\<close>

text \<open>
  An entry makes the analysis fail when its total is flagged and not empty and the pattern
  built from it does not compile. Otherwise it adds one to the count of each field it
  flags, the invoice number apart, and one to the frequency of each of the keys below,
  in this order.
\<close>

definition entry_fails :: "compiler \<Rightarrow> feedback_entry \<Rightarrow> bool" where
  "entry_fails compile e \<longleftrightarrow>
     flagged e InvoicedTotal \<and> corrected_value e InvoicedTotal \<noteq> [] \<and>
     isl (compile (total_pattern (corrected_value e InvoicedTotal)))"

definition present :: "pystr list \<Rightarrow> pystr \<Rightarrow> pystr list" where
  "present kws ctx = filter (\<lambda>kw. contains kw ctx) kws"

definition project_keys :: "feedback_entry \<Rightarrow> pystr list" where
  "project_keys e =
     (if flagged e ProjectName \<and> contains (lower (corrected_value e ProjectName)) (raw_text_of e)
      then
        (case find_str (raw_text_of e) (lower (corrected_value e ProjectName)) of
           Some idx \<Rightarrow>
             present project_prefixes
               (slice (raw_text_of e) (idx - 50)
                  (min (length (raw_text_of e))
                     (idx + length (lower (corrected_value e ProjectName)) + 50)))
         | None \<Rightarrow> [])
      else [])"

definition total_keys :: "compiler \<Rightarrow> feedback_entry \<Rightarrow> pystr list" where
  "total_keys compile e =
     (if flagged e InvoicedTotal \<and> corrected_value e InvoicedTotal \<noteq> [] then
        (case compile (total_pattern (corrected_value e InvoicedTotal)) of
           Inl err \<Rightarrow> []
         | Inr r \<Rightarrow>
             concat (map (\<lambda>m. present total_keywords
                                 (slice (raw_text_of e) (mstart m - 30)
                                    (min (length (raw_text_of e)) (mend m + 30))))
                       (finditer False r (raw_text_of e))))
      else [])"

fun entry_keys :: "compiler \<Rightarrow> feedback_entry \<Rightarrow> field \<Rightarrow> pystr list" where
  "entry_keys compile e ProjectName = project_keys e"
| "entry_keys compile e InvoicedTotal = total_keys compile e"
| "entry_keys compile e Currency = (if flagged e Currency then [corrected_value e Currency] else [])"
| "entry_keys compile e InvoiceNumber = []"

definition counted :: "feedback_entry \<Rightarrow> field \<Rightarrow> bool" where
  "counted e f \<longleftrightarrow> f \<noteq> InvoiceNumber \<and> flagged e f"

text \<open>
  Adding one to the frequency of a key; and a frequency table all of whose entries are
  positive, as the tables of the analysis are.
\<close>

definition bump_key :: "pystr \<Rightarrow> freq \<Rightarrow> freq" where
  "bump_key k d = AList.update k (dget d k + 1) d"

definition positive :: "freq \<Rightarrow> bool" where
  "positive d \<longleftrightarrow> (\<forall>k v. map_of d k = Some v \<longrightarrow> 0 < v)"

text \<open>Two results are the same when their dictionaries are equal, as Python compares them.\<close>

definition same_tables :: "analysis \<Rightarrow> analysis \<Rightarrow> bool" where
  "same_tables a b \<longleftrightarrow>
     (\<forall>f. map_of (patterns a f) = map_of (patterns b f)) \<and>
     (\<forall>f. corrections_count a f = corrections_count b f) \<and>
     total_feedback a = total_feedback b"

subsection \<open>Feedback entries\<close>

text \<open>
  An entry whose invoice number alone was corrected; an entry whose total was corrected
  to \<^verbatim>\<open>1 000,00\<close>; and an entry whose total and currency were corrected to \<^verbatim>\<open>500.00\<close> and
  \<^verbatim>\<open>EUR\<close>.
\<close>

definition entry_number :: feedback_entry where
  "entry_number =
     \<lparr>rawText = Some (ascii ''Faktura 2025001''),
      correctedData = [''invoiceNumber'' \<mapsto> ascii ''2025001''],
      extractedData = [''invoiceNumber'' \<mapsto> ascii ''2025''],
      corrections = [''invoiceNumber'' \<mapsto> True]\<rparr>"

definition entry_czk :: feedback_entry where
  "entry_czk =
     \<lparr>rawText = Some (ascii ''Celkem k '' @ uhrade @ ascii '': 1 000,00 K'' @ [269]),
      correctedData = [''invoicedTotal'' \<mapsto> ascii ''1 000,00''],
      extractedData = Map.empty,
      corrections = [''invoicedTotal'' \<mapsto> True]\<rparr>"

definition entry_eur :: feedback_entry where
  "entry_eur =
     \<lparr>rawText = Some (ascii ''Total amount: 500.00 EUR''),
      correctedData = [''invoicedTotal'' \<mapsto> ascii ''500.00'', ''currency'' \<mapsto> ascii ''EUR''],
      extractedData = Map.empty,
      corrections = [''invoicedTotal'' \<mapsto> True, ''currency'' \<mapsto> True]\<rparr>"

section \<open>Which fields each step writes\<close>

lemma invoice_number_loop_frame [simp]:
  "projectName (invoice_number_loop ps t e) = projectName e"
  "invoicedTotal (invoice_number_loop ps t e) = invoicedTotal e"
  "currency (invoice_number_loop ps t e) = currency e"
  "exchangeRate (invoice_number_loop ps t e) = exchangeRate e"
  "invoiceDate (invoice_number_loop ps t e) = invoiceDate e"
  "invoiceDueDate (invoice_number_loop ps t e) = invoiceDueDate e"
  "numberOfMDs (invoice_number_loop ps t e) = numberOfMDs e"
  "mdRate (invoice_number_loop ps t e) = mdRate e"
  "client (invoice_number_loop ps t e) = client e"
  by (induction ps) (simp_all split: option.splits)

lemma project_loop_frame [simp]:
  "invoicedTotal (project_loop ps t e) = invoicedTotal e"
  "currency (project_loop ps t e) = currency e"
  "exchangeRate (project_loop ps t e) = exchangeRate e"
  "invoiceDate (project_loop ps t e) = invoiceDate e"
  "invoiceDueDate (project_loop ps t e) = invoiceDueDate e"
  "invoiceNumber (project_loop ps t e) = invoiceNumber e"
  "numberOfMDs (project_loop ps t e) = numberOfMDs e"
  "mdRate (project_loop ps t e) = mdRate e"
  "client (project_loop ps t e) = client e"
  by (induction ps) (simp_all split: option.splits add: Let_def)

lemma scan_matches_frame [simp]:
  "projectName (snd (scan_matches ms st)) = projectName (snd st)"
  "exchangeRate (snd (scan_matches ms st)) = exchangeRate (snd st)"
  "invoiceDate (snd (scan_matches ms st)) = invoiceDate (snd st)"
  "invoiceDueDate (snd (scan_matches ms st)) = invoiceDueDate (snd st)"
  "invoiceNumber (snd (scan_matches ms st)) = invoiceNumber (snd st)"
  "numberOfMDs (snd (scan_matches ms st)) = numberOfMDs (snd st)"
  "mdRate (snd (scan_matches ms st)) = mdRate (snd st)"
  "client (snd (scan_matches ms st)) = client (snd st)"
  by (induction ms st rule: scan_matches.induct; simp split: option.splits add: Let_def)+

lemma amount_loop_frame [simp]:
  "projectName (snd (amount_loop ps t st)) = projectName (snd st)"
  "exchangeRate (snd (amount_loop ps t st)) = exchangeRate (snd st)"
  "invoiceDate (snd (amount_loop ps t st)) = invoiceDate (snd st)"
  "invoiceDueDate (snd (amount_loop ps t st)) = invoiceDueDate (snd st)"
  "invoiceNumber (snd (amount_loop ps t st)) = invoiceNumber (snd st)"
  "numberOfMDs (snd (amount_loop ps t st)) = numberOfMDs (snd st)"
  "mdRate (snd (amount_loop ps t st)) = mdRate (snd st)"
  "client (snd (amount_loop ps t st)) = client (snd st)"
  by (induction ps arbitrary: st; simp)+

lemma use_largest_frame [simp]:
  "projectName (use_largest st) = projectName (snd st)"
  "exchangeRate (use_largest st) = exchangeRate (snd st)"
  "invoiceDate (use_largest st) = invoiceDate (snd st)"
  "invoiceDueDate (use_largest st) = invoiceDueDate (snd st)"
  "invoiceNumber (use_largest st) = invoiceNumber (snd st)"
  "numberOfMDs (use_largest st) = numberOfMDs (snd st)"
  "mdRate (use_largest st) = mdRate (snd st)"
  "client (use_largest st) = client (snd st)"
  by (simp_all add: use_largest_def split: prod.splits list.splits)

lemma amount_step_frame [simp]:
  "projectName (amount_step t e) = projectName e"
  "exchangeRate (amount_step t e) = exchangeRate e"
  "invoiceDate (amount_step t e) = invoiceDate e"
  "invoiceDueDate (amount_step t e) = invoiceDueDate e"
  "invoiceNumber (amount_step t e) = invoiceNumber e"
  "numberOfMDs (amount_step t e) = numberOfMDs e"
  "mdRate (amount_step t e) = mdRate e"
  "client (amount_step t e) = client e"
  by (simp_all add: amount_step_def)

lemma invoice_date_loop_frame [simp]:
  "projectName (invoice_date_loop ps t e) = projectName e"
  "invoicedTotal (invoice_date_loop ps t e) = invoicedTotal e"
  "currency (invoice_date_loop ps t e) = currency e"
  "exchangeRate (invoice_date_loop ps t e) = exchangeRate e"
  "invoiceDueDate (invoice_date_loop ps t e) = invoiceDueDate e"
  "invoiceNumber (invoice_date_loop ps t e) = invoiceNumber e"
  "numberOfMDs (invoice_date_loop ps t e) = numberOfMDs e"
  "mdRate (invoice_date_loop ps t e) = mdRate e"
  "client (invoice_date_loop ps t e) = client e"
  by (induction ps) (simp_all split: option.splits)

lemma due_date_loop_frame [simp]:
  "projectName (due_date_loop ps t e) = projectName e"
  "invoicedTotal (due_date_loop ps t e) = invoicedTotal e"
  "currency (due_date_loop ps t e) = currency e"
  "exchangeRate (due_date_loop ps t e) = exchangeRate e"
  "invoiceDate (due_date_loop ps t e) = invoiceDate e"
  "invoiceNumber (due_date_loop ps t e) = invoiceNumber e"
  "numberOfMDs (due_date_loop ps t e) = numberOfMDs e"
  "mdRate (due_date_loop ps t e) = mdRate e"
  "client (due_date_loop ps t e) = client e"
  by (induction ps) (simp_all split: option.splits)

lemma md_step_frame [simp]:
  "projectName (md_step t e) = projectName e"
  "invoicedTotal (md_step t e) = invoicedTotal e"
  "currency (md_step t e) = currency e"
  "exchangeRate (md_step t e) = exchangeRate e"
  "invoiceDate (md_step t e) = invoiceDate e"
  "invoiceDueDate (md_step t e) = invoiceDueDate e"
  "invoiceNumber (md_step t e) = invoiceNumber e"
  "client (md_step t e) = client e"
  by (simp_all add: md_step_def Let_def split: prod.splits list.splits)

lemma pocet_step_frame [simp]:
  "projectName (pocet_step t e) = projectName e"
  "invoicedTotal (pocet_step t e) = invoicedTotal e"
  "currency (pocet_step t e) = currency e"
  "exchangeRate (pocet_step t e) = exchangeRate e"
  "invoiceDate (pocet_step t e) = invoiceDate e"
  "invoiceDueDate (pocet_step t e) = invoiceDueDate e"
  "invoiceNumber (pocet_step t e) = invoiceNumber e"
  "mdRate (pocet_step t e) = mdRate e"
  "client (pocet_step t e) = client e"
  by (simp_all add: pocet_step_def split: option.splits)

lemma cena_step_frame [simp]:
  "projectName (cena_step t e) = projectName e"
  "invoicedTotal (cena_step t e) = invoicedTotal e"
  "currency (cena_step t e) = currency e"
  "exchangeRate (cena_step t e) = exchangeRate e"
  "invoiceDate (cena_step t e) = invoiceDate e"
  "invoiceDueDate (cena_step t e) = invoiceDueDate e"
  "invoiceNumber (cena_step t e) = invoiceNumber e"
  "numberOfMDs (cena_step t e) = numberOfMDs e"
  "client (cena_step t e) = client e"
  by (simp_all add: cena_step_def Let_def split: option.splits)

lemma client_loop_frame [simp]:
  "projectName (client_loop ps t e) = projectName e"
  "invoicedTotal (client_loop ps t e) = invoicedTotal e"
  "currency (client_loop ps t e) = currency e"
  "exchangeRate (client_loop ps t e) = exchangeRate e"
  "invoiceDate (client_loop ps t e) = invoiceDate e"
  "invoiceDueDate (client_loop ps t e) = invoiceDueDate e"
  "invoiceNumber (client_loop ps t e) = invoiceNumber e"
  "numberOfMDs (client_loop ps t e) = numberOfMDs e"
  "mdRate (client_loop ps t e) = mdRate e"
  by (induction ps) (simp_all split: option.splits add: Let_def)

lemma default_project_frame [simp]:
  "invoicedTotal (default_project e) = invoicedTotal e"
  "currency (default_project e) = currency e"
  "exchangeRate (default_project e) = exchangeRate e"
  "invoiceDate (default_project e) = invoiceDate e"
  "invoiceDueDate (default_project e) = invoiceDueDate e"
  "invoiceNumber (default_project e) = invoiceNumber e"
  "numberOfMDs (default_project e) = numberOfMDs e"
  "mdRate (default_project e) = mdRate e"
  "client (default_project e) = client e"
  by (simp_all add: default_project_def)


section \<open>Which fields each step reads\<close>

lemma scan_matches_dep:
  "invoicedTotal e = invoicedTotal e' \<Longrightarrow> currency e = currency e' \<Longrightarrow>
   fst (scan_matches ms (as, e)) = fst (scan_matches ms (as, e')) \<and>
   invoicedTotal (snd (scan_matches ms (as, e))) = invoicedTotal (snd (scan_matches ms (as, e'))) \<and>
   currency (snd (scan_matches ms (as, e))) = currency (snd (scan_matches ms (as, e')))"
  by (induction ms arbitrary: as) (simp_all add: Let_def split: option.splits)

lemma amount_loop_dep:
  "fst st = fst st' \<Longrightarrow> invoicedTotal (snd st) = invoicedTotal (snd st') \<Longrightarrow>
   currency (snd st) = currency (snd st') \<Longrightarrow>
   fst (amount_loop ps t st) = fst (amount_loop ps t st') \<and>
   invoicedTotal (snd (amount_loop ps t st)) = invoicedTotal (snd (amount_loop ps t st')) \<and>
   currency (snd (amount_loop ps t st)) = currency (snd (amount_loop ps t st'))"
proof (induction ps arbitrary: st st')
  case Nil
  then show ?case by simp
next
  case (Cons p ps)
  obtain as e where st: "st = (as, e)" by (cases st)
  obtain as' e' where st': "st' = (as', e')" by (cases st')
  from Cons.prems st st' have eq: "as' = as" "invoicedTotal e = invoicedTotal e'" "currency e = currency e'"
    by simp_all
  note step = scan_matches_dep [OF eq(2) eq(3), of "finditer True p t" as]
  show ?case
    unfolding amount_loop.simps st st' eq(1)
    by (rule Cons.IH) (use step in simp_all)
qed

lemma use_largest_dep:
  "fst st = fst st' \<Longrightarrow> invoicedTotal (snd st) = invoicedTotal (snd st') \<Longrightarrow>
   currency (snd st) = currency (snd st') \<Longrightarrow>
   invoicedTotal (use_largest st) = invoicedTotal (use_largest st') \<and>
   currency (use_largest st) = currency (use_largest st')"
  by (cases st; cases st') (simp add: use_largest_def split: list.splits)

lemma amount_step_dep:
  assumes "invoicedTotal e = invoicedTotal e'" and "currency e = currency e'"
  shows "invoicedTotal (amount_step t e) = invoicedTotal (amount_step t e')"
    and "currency (amount_step t e) = currency (amount_step t e')"
proof -
  have "fst (amount_loop amount_patterns t ([], e)) = fst (amount_loop amount_patterns t ([], e')) \<and>
    invoicedTotal (snd (amount_loop amount_patterns t ([], e))) =
      invoicedTotal (snd (amount_loop amount_patterns t ([], e'))) \<and>
    currency (snd (amount_loop amount_patterns t ([], e))) =
      currency (snd (amount_loop amount_patterns t ([], e')))"
    by (rule amount_loop_dep) (use assms in simp_all)
  then have "invoicedTotal (amount_step t e) = invoicedTotal (amount_step t e') \<and>
    currency (amount_step t e) = currency (amount_step t e')"
    unfolding amount_step_def by (intro use_largest_dep) simp_all
  then show "invoicedTotal (amount_step t e) = invoicedTotal (amount_step t e')"
    and "currency (amount_step t e) = currency (amount_step t e')" by simp_all
qed

lemma md_step_dep:
  "numberOfMDs e = numberOfMDs e' \<Longrightarrow> numberOfMDs (md_step t e) = numberOfMDs (md_step t e')"
  "mdRate e = mdRate e' \<Longrightarrow> mdRate (md_step t e) = mdRate (md_step t e')"
  by (simp_all add: md_step_def Let_def split: prod.splits list.splits)

lemma pocet_step_dep:
  "numberOfMDs e = numberOfMDs e' \<Longrightarrow> numberOfMDs (pocet_step t e) = numberOfMDs (pocet_step t e')"
  by (simp add: pocet_step_def split: option.splits)

lemma cena_step_dep:
  "mdRate e = mdRate e' \<Longrightarrow> mdRate (cena_step t e) = mdRate (cena_step t e')"
  by (simp add: cena_step_def Let_def split: option.splits)

lemma client_loop_dep:
  "client e = client e' \<Longrightarrow> client (client_loop ps t e) = client (client_loop ps t e')"
  by (induction ps) (simp_all add: Let_def split: option.splits)

lemma invoice_date_loop_dep:
  "invoiceDate e = invoiceDate e' \<Longrightarrow>
   invoiceDate (invoice_date_loop ps t e) = invoiceDate (invoice_date_loop ps t e')"
  by (induction ps) (simp_all split: option.splits)

lemma due_date_loop_dep:
  "invoiceDueDate e = invoiceDueDate e' \<Longrightarrow>
   invoiceDueDate (due_date_loop ps t e) = invoiceDueDate (due_date_loop ps t e')"
  by (induction ps) (simp_all split: option.splits)

section \<open>The fields of the result, one at a time\<close>

lemma extract_invoicedTotal:
  "invoicedTotal (extract_with_patterns t) = invoicedTotal (amount_step t defaults)"
proof -
  let ?e = "project_loop project_patterns t (invoice_number_loop invoice_num_patterns t defaults)"
  have "invoicedTotal (extract_with_patterns t) = invoicedTotal (amount_step t ?e)"
    unfolding extract_with_patterns_def Let_def by simp
  also have "\<dots> = invoicedTotal (amount_step t defaults)"
    by (rule amount_step_dep(1)) simp_all
  finally show ?thesis .
qed

lemma extract_currency:
  "currency (extract_with_patterns t) = currency (amount_step t defaults)"
proof -
  let ?e = "project_loop project_patterns t (invoice_number_loop invoice_num_patterns t defaults)"
  have "currency (extract_with_patterns t) = currency (amount_step t ?e)"
    unfolding extract_with_patterns_def Let_def by simp
  also have "\<dots> = currency (amount_step t defaults)"
    by (rule amount_step_dep(2)) simp_all
  finally show ?thesis .
qed

lemma extract_numberOfMDs:
  "numberOfMDs (extract_with_patterns t) = numberOfMDs (pocet_step t (md_step t defaults))"
proof -
  let ?e = "due_date_loop due_date_patterns t (invoice_date_loop invoice_date_patterns t
    (amount_step t (project_loop project_patterns t
      (invoice_number_loop invoice_num_patterns t defaults))))"
  have "numberOfMDs (extract_with_patterns t) = numberOfMDs (pocet_step t (md_step t ?e))"
    unfolding extract_with_patterns_def Let_def by simp
  also have "\<dots> = numberOfMDs (pocet_step t (md_step t defaults))"
    by (rule pocet_step_dep, rule md_step_dep(1)) simp
  finally show ?thesis .
qed

lemma extract_mdRate:
  "mdRate (extract_with_patterns t) = mdRate (cena_step t (md_step t defaults))"
proof -
  let ?e = "due_date_loop due_date_patterns t (invoice_date_loop invoice_date_patterns t
    (amount_step t (project_loop project_patterns t
      (invoice_number_loop invoice_num_patterns t defaults))))"
  have "mdRate (extract_with_patterns t) = mdRate (cena_step t (pocet_step t (md_step t ?e)))"
    unfolding extract_with_patterns_def Let_def by simp
  also have "\<dots> = mdRate (cena_step t (md_step t defaults))"
    by (rule cena_step_dep) (simp, rule md_step_dep(2), simp)
  finally show ?thesis .
qed

lemma extract_client:
  "client (extract_with_patterns t) = client (client_loop client_patterns t defaults)"
proof -
  have "client (extract_with_patterns t) =
    client (client_loop client_patterns t (cena_step t (pocet_step t (md_step t
      (due_date_loop due_date_patterns t (invoice_date_loop invoice_date_patterns t
        (amount_step t (project_loop project_patterns t
          (invoice_number_loop invoice_num_patterns t defaults)))))))))"
    unfolding extract_with_patterns_def Let_def by simp
  also have "\<dots> = client (client_loop client_patterns t defaults)"
    by (rule client_loop_dep) simp
  finally show ?thesis .
qed

lemma extract_invoiceNumber:
  "invoiceNumber (extract_with_patterns t) =
   invoiceNumber (invoice_number_loop invoice_num_patterns t defaults)"
  unfolding extract_with_patterns_def Let_def by simp

lemma extract_exchangeRate:
  "exchangeRate (extract_with_patterns t) = []"
  unfolding extract_with_patterns_def Let_def by (simp add: defaults_def)

lemma extract_invoiceDate:
  "invoiceDate (extract_with_patterns t) =
   invoiceDate (invoice_date_loop invoice_date_patterns t defaults)"
proof -
  have "invoiceDate (extract_with_patterns t) =
    invoiceDate (invoice_date_loop invoice_date_patterns t
      (amount_step t (project_loop project_patterns t
        (invoice_number_loop invoice_num_patterns t defaults))))"
    unfolding extract_with_patterns_def Let_def by simp
  also have "\<dots> = invoiceDate (invoice_date_loop invoice_date_patterns t defaults)"
    by (rule invoice_date_loop_dep) simp
  finally show ?thesis .
qed

lemma extract_invoiceDueDate:
  "invoiceDueDate (extract_with_patterns t) =
   invoiceDueDate (due_date_loop due_date_patterns t defaults)"
proof -
  have "invoiceDueDate (extract_with_patterns t) =
    invoiceDueDate (due_date_loop due_date_patterns t
      (invoice_date_loop invoice_date_patterns t
        (amount_step t (project_loop project_patterns t
          (invoice_number_loop invoice_num_patterns t defaults)))))"
    unfolding extract_with_patterns_def Let_def by simp
  also have "\<dots> = invoiceDueDate (due_date_loop due_date_patterns t defaults)"
    by (rule due_date_loop_dep) simp
  finally show ?thesis .
qed

lemma extract_projectName:
  "projectName (extract_with_patterns t) =
   projectName (default_project
     (project_loop project_patterns t (invoice_number_loop invoice_num_patterns t defaults)))"
  unfolding extract_with_patterns_def Let_def by (simp add: default_project_def)

section \<open>The tables below code point 384\<close>

lemma in_ranges_prefix: "c < a \<Longrightarrow> in_ranges (xs @ (a, b) # ys) c = in_ranges xs c"
proof (induction xs)
  case Nil
  then show ?case by simp
next
  case (Cons x xs)
  then show ?case by (cases x) simp
qed

lemma apply_runs_prefix: "c < a \<Longrightarrow> apply_runs (xs @ (a, b, t, k) # ys) c = apply_runs xs c"
proof (induction xs)
  case Nil
  then show ?case by simp
next
  case (Cons x xs)
  obtain a' b' t' k' where "x = (a', b', t', k')"
    by (cases x) auto
  with Cons show ?case by simp
qed

lemma is_word_latin: "c < 384 \<Longrightarrow> is_word c = in_ranges word_latin c"
  unfolding is_word_def word_above_def by (rule in_ranges_prefix) simp

lemma is_decimal_latin: "c < 384 \<Longrightarrow> is_decimal c = in_ranges decimal_latin c"
  unfolding is_decimal_def decimal_above_def by (rule in_ranges_prefix) simp

lemma is_cased_latin: "c < 384 \<Longrightarrow> is_cased c = in_ranges cased_latin c"
  unfolding is_cased_def cased_above_def by (rule in_ranges_prefix) simp

lemma case_ignorable_latin: "c < 384 \<Longrightarrow> case_ignorable c = in_ranges case_ignorable_latin c"
  unfolding case_ignorable_def case_ignorable_above_def by (rule in_ranges_prefix) simp

lemma cased_letter_latin: "c < 384 \<Longrightarrow> cased_letter c = in_ranges cased_letter_latin c"
  unfolding cased_letter_def cased_letter_above_def by (rule in_ranges_prefix) simp

lemma lower_cp_latin: "c < 384 \<Longrightarrow> lower_cp c = apply_runs lower_latin c"
  unfolding lower_cp_def lower_above_def by (rule apply_runs_prefix) simp

text \<open>The euro sign, the one pattern character above: it is not cased.\<close>

lemma euro_not_cased: "is_cased 8364 = False"
  by (simp add: is_cased_def cased_latin_def cased_above_def)

text \<open>Which of the sets of the patterns have a cased character: the identifier set only.\<close>

lemma set_cased_values:
  "set_cased [CSpace] = False"
  "set_cased [CDigit] = False"
  "set_cased [CWord] = False"
  "set_cased [CRng 48 57] = False"
  "set_cased [CChr 10] = False"
  "set_cased [CChr 41] = False"
  "set_cased [CChr 46, CChr 44] = False"
  "set_cased [CChr 58, CSpace] = False"
  "set_cased [CChr 47, CChr 45, CChr 46] = False"
  "set_cased [CRng 48 57, CSpace] = False"
  "set_cased [CRng 48 57, CSpace, CChr 44] = False"
  "set_cased [CRng 97 122, CRng 48 57, CChr 45] = True"
  by (simp_all add: set_cased_def is_cased_latin cased_latin_def)

section \<open>Evaluation\<close>

text \<open>The equations by which the simplifier runs the model on a given text.\<close>

lemmas table_ev =
  is_word_latin is_decimal_latin is_cased_latin case_ignorable_latin cased_letter_latin
  lower_cp_latin word_latin_def decimal_latin_def cased_latin_def case_ignorable_latin_def
  cased_letter_latin_def lower_latin_def extra_cases_def euro_not_cased

lemmas str_ev =
  ascii_def is_space_def is_digit_def lower_def cased_follows_def strip_def replace_def
  find_str_def slice_def py_int_def digits_val_def str_nat.simps table_ev

lemmas float_ev = py_float_def round_double_def bit_length.simps Let_def

lemmas re_ev =
  chr_ok_def folds_to_def set_ok_def set_cased_values mgroup_def mend_def match_at_def search_def finditer_def sub_empty_def lits_def lit_def seq_def
  star_def plus1_def opt_def ws_def dd_def d09_def colon_def not_nl_def

lemmas amount_ev =
  amount_step_def amount_patterns_def dot_or_comma_def amount_group_def loose_amount_group_def
  colon_or_space_def uhrade_def castka_def kc_def normalize_amount_def is_eur_def has_bez_dph_def
  has_soucet_zaklad_def currency_of_def plausible_amount_def mk_candidate_def sort_desc_def
  use_largest_def defaults_def

lemmas md_ev =
  md_step_def pocet_step_def cena_step_def md_line_pattern_def rate_group_def dot_or_comma_def
  normalize_rate_def plausible_count_def plausible_rate_def pocet_pattern_def cena_pattern_def
  defaults_def

lemmas client_ev =
  client_patterns_def odberatel_def rest_of_line_def czech_suffixes_def english_suffixes_def
  name_ending_def ico_pattern_def clean_client_def defaults_def

lemmas head_ev =
  invoice_num_patterns_def number_word_def id_group_def project_patterns_def line_group_def
  default_project_def defaults_def

lemmas date_ev =
  invoice_date_patterns_def due_date_patterns_def dotted_date_def date_sep_def any_date_def
  defaults_def

section \<open>The empty text and the default project name\<close>

lemma extract_empty:
  "extract_with_patterns [] = defaults\<lparr>projectName := ascii ''Imported Invoice''\<rparr>"
  unfolding extract_with_patterns_def
  by (simp add: str_ev re_ev amount_ev md_ev client_ev head_ev date_ev)

text \<open>
  Claim C5, as stated: for the empty text every field of the result is at its default.
  It fails: the project name of the result is not the default, the empty string.
\<close>

theorem empty_text_not_all_defaults:
  "extract_with_patterns [] \<noteq> defaults"
  by (simp add: extract_empty defaults_def ascii_def)

text \<open>
  Claim C5, amended: for the empty text the extraction returns (the model has no failing
  path) the record with every field at its default, the empty string and \<^verbatim>\<open>CZK\<close> for the
  currency, except for the project name, which is \<^verbatim>\<open>Imported Invoice\<close>.
\<close>

theorem empty_text_result:
  "extract_with_patterns [] =
     \<lparr>projectName = ascii ''Imported Invoice'', invoicedTotal = [], currency = ascii ''CZK'',
      exchangeRate = [], invoiceDate = [], invoiceDueDate = [], invoiceNumber = [],
      numberOfMDs = [], mdRate = [], client = []\<rparr>"
  by (simp add: extract_empty defaults_def)

subsection \<open>The currency is never empty\<close>

lemma currency_of_nonempty: "currency_of b \<noteq> []"
  by (simp add: currency_of_def ascii_def)

lemma scan_matches_currency:
  "currency (snd st) \<noteq> [] \<Longrightarrow> \<forall>c\<in>set (fst st). cand_currency c \<noteq> [] \<Longrightarrow>
   currency (snd (scan_matches ms st)) \<noteq> [] \<and>
   (\<forall>c\<in>set (fst (scan_matches ms st)). cand_currency c \<noteq> [])"
  by (induction ms st rule: scan_matches.induct)
    (simp_all add: Let_def mk_candidate_def currency_of_nonempty split: option.splits)

lemma amount_loop_currency:
  "currency (snd st) \<noteq> [] \<Longrightarrow> \<forall>c\<in>set (fst st). cand_currency c \<noteq> [] \<Longrightarrow>
   currency (snd (amount_loop ps t st)) \<noteq> [] \<and>
   (\<forall>c\<in>set (fst (amount_loop ps t st)). cand_currency c \<noteq> [])"
proof (induction ps arbitrary: st)
  case Nil
  then show ?case by simp
next
  case (Cons p ps)
  have step: "currency (snd (scan_matches (finditer True p t) st)) \<noteq> [] \<and>
    (\<forall>c\<in>set (fst (scan_matches (finditer True p t) st)). cand_currency c \<noteq> [])"
    by (rule scan_matches_currency [OF Cons.prems])
  show ?case
    unfolding amount_loop.simps by (rule Cons.IH) (use step in simp_all)
qed

lemma use_largest_currency:
  assumes "currency (snd st) \<noteq> []" and "\<forall>c\<in>set (fst st). cand_currency c \<noteq> []"
  shows "currency (use_largest st) \<noteq> []"
proof (cases st)
  case (Pair all_amounts e)
  show ?thesis
  proof (cases "sort_desc all_amounts")
    case Nil
    with Pair assms show ?thesis by (simp add: use_largest_def)
  next
    case (Cons largest rest)
    then have "largest \<in> set (sort_desc all_amounts)" by simp
    then have "largest \<in> set all_amounts" by (simp add: sort_desc_def)
    with Pair assms have "cand_currency largest \<noteq> []" by simp
    with Pair Cons assms show ?thesis by (simp add: use_largest_def)
  qed
qed

lemma extract_currency_nonempty: "currency (extract_with_patterns t) \<noteq> []"
proof -
  have "currency (snd ([], defaults)) \<noteq> []"
    by (simp add: defaults_def ascii_def)
  moreover have "\<forall>c\<in>set (fst (([], defaults) :: candidate list \<times> extracted)). cand_currency c \<noteq> []"
    by simp
  ultimately have "currency (snd (amount_loop amount_patterns t ([], defaults))) \<noteq> [] \<and>
    (\<forall>c\<in>set (fst (amount_loop amount_patterns t ([], defaults))). cand_currency c \<noteq> [])"
    by (rule amount_loop_currency)
  then have "currency (amount_step t defaults) \<noteq> []"
    unfolding amount_step_def by (intro use_largest_currency) simp_all
  then show ?thesis by (simp add: extract_currency)
qed

subsection \<open>The project name is never empty\<close>

lemma project_loop_dep:
  "projectName e = projectName e' \<Longrightarrow>
   projectName (project_loop ps t e) = projectName (project_loop ps t e')"
  by (induction ps) (simp_all add: Let_def split: option.splits)

lemma project_loop_nonempty:
  "projectName e = [] \<Longrightarrow> projectName (project_loop ps t e) \<noteq> [] \<Longrightarrow>
   5 < length (projectName (project_loop ps t e))"
  by (induction ps) (auto simp: Let_def split: option.splits if_splits)

lemma extract_projectName_cases:
  "projectName (extract_with_patterns t) =
     (if projectName (project_loop project_patterns t defaults) \<noteq> []
      then projectName (project_loop project_patterns t defaults)
      else if invoiceNumber (extract_with_patterns t) \<noteq> [] then invoiceNumber (extract_with_patterns t)
      else ascii ''Imported Invoice'')"
proof -
  let ?e = "invoice_number_loop invoice_num_patterns t defaults"
  have "projectName (project_loop project_patterns t ?e) =
      projectName (project_loop project_patterns t defaults)"
    by (rule project_loop_dep) simp
  then show ?thesis
    by (simp add: extract_projectName extract_invoiceNumber default_project_def)
qed

lemma extract_invoice_only:
  "projectName (project_loop project_patterns text_invoice_only defaults) = []"
  "invoiceNumber (invoice_number_loop invoice_num_patterns text_invoice_only defaults) = ascii ''2025-01''"
  by (simp_all add: text_invoice_only_def str_ev re_ev head_ev)

text \<open>
  Claim C10, as stated, has the project name never empty, unlike every other field. It
  fails for the currency, which no text makes empty either.
\<close>

theorem not_every_other_field_can_be_empty:
  "\<not> (\<forall>field \<in> set [invoicedTotal, currency, exchangeRate, invoiceDate, invoiceDueDate,
        invoiceNumber, numberOfMDs, mdRate, client].
        \<exists>t. field (extract_with_patterns t) = [])"
  by (simp add: extract_currency_nonempty)

text \<open>
  Claim C10, amended: for every text the project name of the result is not empty: it is
  the name a label pattern produced, else the extracted invoice number when that is not
  empty, else \<^verbatim>\<open>Imported Invoice\<close>. The currency is never empty either; each of the other
  eight fields is empty for the empty text.
\<close>

theorem projectName_never_empty:
  "projectName (extract_with_patterns t) \<noteq> [] \<and>
   (projectName (project_loop project_patterns t defaults) \<noteq> [] \<longrightarrow>
      projectName (extract_with_patterns t) = projectName (project_loop project_patterns t defaults)) \<and>
   (projectName (project_loop project_patterns t defaults) = [] \<longrightarrow>
      projectName (extract_with_patterns t) =
        (if invoiceNumber (extract_with_patterns t) \<noteq> [] then invoiceNumber (extract_with_patterns t)
         else ascii ''Imported Invoice'')) \<and>
   currency (extract_with_patterns t) \<noteq> [] \<and>
   invoicedTotal (extract_with_patterns []) = [] \<and> exchangeRate (extract_with_patterns []) = [] \<and>
   invoiceDate (extract_with_patterns []) = [] \<and> invoiceDueDate (extract_with_patterns []) = [] \<and>
   invoiceNumber (extract_with_patterns []) = [] \<and> numberOfMDs (extract_with_patterns []) = [] \<and>
   mdRate (extract_with_patterns []) = [] \<and> client (extract_with_patterns []) = []"
proof -
  have "projectName (extract_with_patterns t) \<noteq> []"
    by (simp add: extract_projectName_cases ascii_def)
  moreover have "invoicedTotal (extract_with_patterns []) = [] \<and>
      exchangeRate (extract_with_patterns []) = [] \<and>
      invoiceDate (extract_with_patterns []) = [] \<and> invoiceDueDate (extract_with_patterns []) = [] \<and>
      invoiceNumber (extract_with_patterns []) = [] \<and> numberOfMDs (extract_with_patterns []) = [] \<and>
      mdRate (extract_with_patterns []) = [] \<and> client (extract_with_patterns []) = []"
    by (simp add: extract_empty defaults_def)
  ultimately show ?thesis
    using extract_projectName_cases [of t] extract_currency_nonempty [of t] by simp
qed

theorem projectName_never_empty_witness:
  "projectName (project_loop project_patterns text_invoice_only defaults) = [] \<and>
   projectName (extract_with_patterns text_invoice_only) = ascii ''2025-01''"
  using projectName_never_empty [of text_invoice_only]
  by (simp add: extract_invoice_only extract_invoiceNumber ascii_def)

section \<open>Normalization of amounts\<close>

lemma replace_empty: "replace x [] s = filter (\<lambda>c. c \<noteq> x) s"
  by (induction s) (simp_all add: replace_def)

lemma replace_single: "replace x [y] s = map (\<lambda>c. if c = x then y else c) s"
  by (induction s) (simp_all add: replace_def)

lemma split_str_nonempty: "split_str sep s \<noteq> []"
  by (induction s) (simp_all split: list.splits)

lemma length_split_str: "length (split_str sep s) = Suc (length (filter (\<lambda>c. c = sep) s))"
  by (induction s) (use split_str_nonempty in \<open>auto split: list.splits\<close>)

lemma filter_dropWhile_not: "filter (\<lambda>c. \<not> P c) (dropWhile P xs) = filter (\<lambda>c. \<not> P c) xs"
  by (induction xs) simp_all

lemma filter_strip: "filter (\<lambda>c. \<not> is_space c) (strip g) = filter (\<lambda>c. \<not> is_space c) g"
proof -
  have "filter (\<lambda>c. \<not> is_space c) (strip g) =
      rev (filter (\<lambda>c. \<not> is_space c) (dropWhile is_space (rev (dropWhile is_space g))))"
    by (simp add: strip_def rev_filter)
  also have "\<dots> = rev (filter (\<lambda>c. \<not> is_space c) (rev (dropWhile is_space g)))"
    by (simp only: filter_dropWhile_not)
  also have "\<dots> = filter (\<lambda>c. \<not> is_space c) (dropWhile is_space g)"
    by (simp add: rev_filter)
  also have "\<dots> = filter (\<lambda>c. \<not> is_space c) g"
    by (rule filter_dropWhile_not)
  finally show ?thesis .
qed

lemma normalize_agrees_with_rule:
  assumes "\<forall>c\<in>set (strip g). is_space c \<longrightarrow> c = 32"
  shows "normalize_amount g = spec_normalize g"
proof -
  have "is_space 32" by (simp add: is_space_def)
  with assms have "filter (\<lambda>c. c \<noteq> 32) (strip g) = filter (\<lambda>c. \<not> is_space c) (strip g)"
    by (intro filter_cong) auto
  then have "replace 32 [] (strip g) = filter (\<lambda>c. \<not> is_space c) g"
    by (simp add: replace_empty filter_strip)
  then show ?thesis
    by (simp add: normalize_amount_def spec_normalize_def)
qed

lemma dropWhile_id: "xs \<noteq> [] \<Longrightarrow> \<not> P (hd xs) \<Longrightarrow> dropWhile P xs = xs"
  by (cases xs) simp_all

lemma strip_id:
  assumes "g \<noteq> []" and "\<not> is_space (hd g)" and "\<not> is_space (last g)"
  shows "strip g = g"
proof -
  have "dropWhile is_space g = g" using assms by (simp add: dropWhile_id)
  moreover have "dropWhile is_space (rev g) = rev g"
    using assms by (intro dropWhile_id) (simp_all add: hd_rev)
  ultimately show ?thesis by (simp add: strip_def)
qed

lemma digit_plain: "is_digit c \<Longrightarrow> \<not> is_space c \<and> c \<noteq> 32 \<and> c \<noteq> 44 \<and> c \<noteq> 46"
  by (auto simp: is_digit_def is_space_def)

lemma czech_tail_props:
  "czech_tail r \<Longrightarrow> r \<noteq> [] \<and> is_digit (last r) \<and> dots r = 1"
  by (induction r rule: czech_tail.induct) (auto simp: dots_def dest: digit_plain)

lemma digits_no_dots: "list_all is_digit ds \<Longrightarrow> dots ds = 0"
  by (induction ds) (auto simp: dots_def dest: digit_plain)

lemma dots_append: "dots (xs @ ys) = dots xs + dots ys"
  by (simp add: dots_def)

lemma czech_amount_props:
  assumes "czech_amount g"
  shows "g \<noteq> []" and "is_digit (hd g)" and "is_digit (last g)" and "dots g = 1"
proof -
  from assms obtain k where k: "k \<in> {1, 2, 3}" "k \<le> length g" "list_all is_digit (take k g)"
    "czech_tail (drop k g)"
    by (auto simp: czech_amount_def)
  from czech_tail_props [OF k(4)] have t: "drop k g \<noteq> []" "is_digit (last (drop k g))" "dots (drop k g) = 1"
    by blast+
  from t(1) show ne: "g \<noteq> []" by auto
  from k(1) k(3) ne show "is_digit (hd g)"
    by (cases g) auto
  from t(1) have "k < length g" by simp
  then have "last (drop k g) = last g" by (rule last_drop)
  with t(2) show "is_digit (last g)" by simp
  have "dots g = dots (take k g @ drop k g)" by simp
  also have "\<dots> = 1" unfolding dots_append using t(3) digits_no_dots [OF k(3)] by simp
  finally show "dots g = 1" .
qed

lemma normalize_czech:
  assumes "czech_amount g"
  shows "normalize_amount g = map (\<lambda>c. if c = 44 then 46 else c) (filter (\<lambda>c. c \<noteq> 32) g)"
proof -
  note p = czech_amount_props [OF assms]
  have "strip g = g"
    using p(1-3) by (intro strip_id) (auto dest: digit_plain)
  moreover have "length (split_str 46 (map (\<lambda>c. if c = 44 then 46 else c) (filter (\<lambda>c. c \<noteq> 32) g))) = 2"
    using p(4) by (simp add: length_split_str dots_def)
  ultimately show ?thesis
    by (simp add: normalize_amount_def replace_empty replace_single Let_def)
qed

lemma normalize_examples:
  "normalize_amount (ascii ''598 950,00'') = ascii ''598950.00''"
  "py_float (ascii ''598950.00'') = Some 598950"
  "normalize_amount (ascii ''1.234.567,89'') = ascii ''1234567.89''"
  by (simp_all add: normalize_amount_def str_ev float_ev)

lemma tab_example:
  "normalize_amount (ascii ''1'' @ [9] @ ascii ''234,00'') = ascii ''1'' @ [9] @ ascii ''234.00''"
  "spec_normalize (ascii ''1'' @ [9] @ ascii ''234,00'') = ascii ''1234.00''"
  "py_float (ascii ''1'' @ [9] @ ascii ''234.00'') = None"
  by (simp_all add: normalize_amount_def spec_normalize_def str_ev float_ev)

text \<open>
  Claim C3, as stated, has the normalization remove white space. It fails for white space
  other than the space character inside the token: a tab stays, and the result is not what
  the rule of the specification gives.
\<close>

theorem normalize_leaves_inner_tab:
  "list_ex is_space (normalize_amount (ascii ''1'' @ [9] @ ascii ''234,00'')) \<and>
   normalize_amount (ascii ''1'' @ [9] @ ascii ''234,00'') \<noteq>
     spec_normalize (ascii ''1'' @ [9] @ ascii ''234,00'')"
  by (simp add: normalize_amount_def spec_normalize_def str_ev)

text \<open>
  Claim C3, amended: the normalization strips the white space around the token, removes
  every space character, turns every comma into a dot and of several dots keeps the last
  only; this is the rule of the specification whenever the white space inside the token
  is space characters only. Hence for every Czech-formatted amount \<^verbatim>\<open>d{1,3}( d{3})*,dd\<close> the
  result is the token with the spaces removed and the comma replaced by a dot;
  \<^verbatim>\<open>598 950,00\<close> gives \<^verbatim>\<open>598950.00\<close>, of value 598950, and \<^verbatim>\<open>1.234.567,89\<close> gives
  \<^verbatim>\<open>1234567.89\<close>.
\<close>

theorem normalize_amount_rule:
  "((\<forall>c\<in>set (strip g). is_space c \<longrightarrow> c = 32) \<longrightarrow> normalize_amount g = spec_normalize g) \<and>
   (czech_amount g \<longrightarrow>
      normalize_amount g = map (\<lambda>c. if c = 44 then 46 else c) (filter (\<lambda>c. c \<noteq> 32) g)) \<and>
   normalize_amount (ascii ''598 950,00'') = ascii ''598950.00'' \<and>
   py_float (ascii ''598950.00'') = Some 598950 \<and>
   normalize_amount (ascii ''1.234.567,89'') = ascii ''1234567.89''"
  using normalize_agrees_with_rule [of g] normalize_czech [of g] by (simp add: normalize_examples)

theorem normalize_amount_rule_witness:
  "(\<forall>c\<in>set (strip (ascii ''12 598 950,00'')). is_space c \<longrightarrow> c = 32) \<and>
   czech_amount (ascii ''12 598 950,00'') \<and>
   normalize_amount (ascii ''12 598 950,00'') = ascii ''12598950.00'' \<and>
   spec_normalize (ascii ''12 598 950,00'') = ascii ''12598950.00''"
proof -
  have a: "\<forall>c\<in>set (strip (ascii ''12 598 950,00'')). is_space c \<longrightarrow> c = 32"
    by (simp add: str_ev)
  have b: "czech_amount (ascii ''12 598 950,00'')"
    by (simp add: czech_amount_def str_ev)
  from a b normalize_amount_rule [of "ascii ''12 598 950,00''"] show ?thesis
    by (simp add: spec_normalize_def str_ev)
qed

section \<open>The scan for the total amount\<close>

lemma scan_matches_skip:
  assumes "candidate_of m = None"
  shows "scan_matches (m # ms) (as, e) = scan_matches ms (as, e)"
proof (cases "py_float (normalize_amount (mgroup 1 m))")
  case None
  then show ?thesis by (simp add: Let_def)
next
  case (Some v)
  with assms have "\<not> plausible_amount v"
    by (simp add: candidate_of_def split: if_splits)
  with Some show ?thesis by (simp add: Let_def)
qed

lemma candidate_of_SomeD:
  assumes "candidate_of m = Some c"
  shows "\<exists>v. py_float (normalize_amount (mgroup 1 m)) = Some v \<and> plausible_amount v \<and>
    c = mk_candidate m (normalize_amount (mgroup 1 m)) v"
  using assms by (auto simp: candidate_of_def split: option.splits if_splits)

lemma scan_matches_keep:
  assumes "candidate_of m = Some c" and "\<not> vat_labelled (group0 m)"
  shows "scan_matches (m # ms) (as, e) = scan_matches ms (as @ [c], e)"
proof -
  from candidate_of_SomeD [OF assms(1)] obtain v where
    v: "py_float (normalize_amount (mgroup 1 m)) = Some v" "plausible_amount v"
      "c = mk_candidate m (normalize_amount (mgroup 1 m)) v"
    by blast
  from assms(2) have "\<not> has_bez_dph (group0 m)" "\<not> has_soucet_zaklad (group0 m)"
    by (simp_all add: vat_labelled_def)
  with v show ?thesis by (simp add: Let_def)
qed

lemma scan_matches_hit:
  assumes "candidate_of m = Some c" and "vat_labelled (group0 m)"
  shows "scan_matches (m # ms) (as, e) =
     (as @ [c], e\<lparr>invoicedTotal := cand_amount c, currency := currency_of (is_eur (group0 m))\<rparr>)"
proof -
  from candidate_of_SomeD [OF assms(1)] obtain v where
    v: "py_float (normalize_amount (mgroup 1 m)) = Some v" "plausible_amount v"
      "c = mk_candidate m (normalize_amount (mgroup 1 m)) v"
    by blast
  from v(3) have "cand_amount c = normalize_amount (mgroup 1 m)"
    by (simp add: mk_candidate_def)
  with v assms(2) show ?thesis
    by (auto simp: Let_def vat_labelled_def)
qed

lemma scan_matches_no_hit:
  "\<forall>p\<in>set pre. candidate_of p \<noteq> None \<longrightarrow> \<not> vat_labelled (group0 p) \<Longrightarrow>
   scan_matches (pre @ ms) (as, e) = scan_matches ms (as @ List.map_filter candidate_of pre, e)"
proof (induction pre arbitrary: as)
  case Nil
  then show ?case by (simp add: List.map_filter_simps)
next
  case (Cons p pre)
  show ?case
  proof (cases "candidate_of p")
    case None
    with Cons show ?thesis
      by (simp del: scan_matches.simps add: scan_matches_skip List.map_filter_simps)
  next
    case (Some c)
    with Cons.prems have "\<not> vat_labelled (group0 p)" by simp
    with Some Cons show ?thesis
      by (simp del: scan_matches.simps add: scan_matches_keep List.map_filter_simps)
  qed
qed

lemma extract_text_vat:
  "invoicedTotal (extract_with_patterns text_vat) = ascii ''495000.00''"
  "currency (extract_with_patterns text_vat) = ascii ''CZK''"
  unfolding extract_invoicedTotal extract_currency
  by (simp_all add: text_vat_def line_bez_dph_def line_celkem_def str_ev re_ev amount_ev float_ev)

lemma first_pattern_text_soucet_after:
  "scan_matches (finditer True (hd amount_patterns) text_soucet_after) ([], defaults) =
     ([\<lparr>cand_amount = ascii ''495000.00'', cand_value = 495000, cand_currency = ascii ''CZK'',
        cand_matched_text = line_bez_dph\<rparr>],
      defaults\<lparr>invoicedTotal := ascii ''495000.00'', currency := ascii ''CZK''\<rparr>)"
  by (simp add: text_soucet_after_def line_bez_dph_def line_celkem_def str_ev re_ev amount_ev float_ev)

lemma extract_text_soucet_after:
  "invoicedTotal (extract_with_patterns text_soucet_after) = ascii ''300.00''"
  unfolding extract_invoicedTotal
  by (simp add: text_soucet_after_def line_bez_dph_def line_celkem_def str_ev re_ev amount_ev float_ev)

lemma contains_text_soucet_after:
  "contains line_bez_dph text_soucet_after"
  "contains line_celkem text_soucet_after"
  by (simp_all add: text_soucet_after_def line_bez_dph_def line_celkem_def uhrade_def ascii_def)

text \<open>
  Claim C1 has the scan of the ordered amount patterns stop, with the total and the
  currency set, at the first candidate whose matched text has a VAT keyword, so that every
  text with the two lines \<^verbatim>\<open>bez DPH: 495 000,00\<close> and \<^verbatim>\<open>Celkem k \u00fahrad\u011b (CZK) 598 950,00\<close>
  yields \<^verbatim>\<open>495000.00\<close>. The code on the two lines with \<^verbatim>\<open>Sou\u010det: 300,00\<close> between them: the
  scan of the first pattern stops at the \<^verbatim>\<open>bez DPH\<close> candidate and sets the total to
  \<^verbatim>\<open>495000.00\<close>, but the \<^verbatim>\<open>break\<close> leaves the loop over the matches only, the second pattern
  is scanned as well, and the total returned is \<^verbatim>\<open>300.00\<close>. On the two lines alone the total
  is \<^verbatim>\<open>495000.00\<close>.
\<close>

theorem bez_dph_total_is_overwritten:
  "contains line_bez_dph text_soucet_after \<and> contains line_celkem text_soucet_after \<and>
   scan_matches (finditer True (hd amount_patterns) text_soucet_after) ([], defaults) =
     ([\<lparr>cand_amount = ascii ''495000.00'', cand_value = 495000, cand_currency = ascii ''CZK'',
        cand_matched_text = line_bez_dph\<rparr>],
      defaults\<lparr>invoicedTotal := ascii ''495000.00'', currency := ascii ''CZK''\<rparr>) \<and>
   invoicedTotal (extract_with_patterns text_soucet_after) = ascii ''300.00'' \<and>
   invoicedTotal (extract_with_patterns text_vat) = ascii ''495000.00''"
  by (simp add: contains_text_soucet_after first_pattern_text_soucet_after
      extract_text_soucet_after extract_text_vat)

section \<open>The largest candidate\<close>

lemma candidate_of_props:
  assumes "candidate_of m = Some c"
  shows "cand_matched_text c = group0 m" and "py_float (cand_amount c) = Some (cand_value c)"
    and "plausible_amount (cand_value c)"
  using candidate_of_SomeD [OF assms] by (auto simp: mk_candidate_def)

lemma set_map_filter: "set (List.map_filter f xs) = {y. \<exists>x\<in>set xs. f x = Some y}"
  by (induction xs) (auto simp: List.map_filter_simps split: option.splits)

lemma candidates_iff:
  "c \<in> set (candidates ps t) \<longleftrightarrow>
     (\<exists>p\<in>set ps. \<exists>m\<in>set (finditer True p t). candidate_of m = Some c)"
  by (auto simp: candidates_def set_map_filter)

lemma candidates_Cons:
  "candidates (p # ps) t = List.map_filter candidate_of (finditer True p t) @ candidates ps t"
  by (simp add: candidates_def)

lemma amount_loop_no_hit:
  "\<forall>p\<in>set ps. \<forall>m\<in>set (finditer True p t). candidate_of m \<noteq> None \<longrightarrow> \<not> vat_labelled (group0 m) \<Longrightarrow>
   amount_loop ps t (as, e) = (as @ candidates ps t, e)"
proof (induction ps arbitrary: as)
  case Nil
  then show ?case by (simp add: candidates_def)
next
  case (Cons p ps)
  from Cons.prems
  have "\<forall>m\<in>set (finditer True p t). candidate_of m \<noteq> None \<longrightarrow> \<not> vat_labelled (group0 m)"
    by simp
  from scan_matches_no_hit [OF this, of "[]" as e]
  have "scan_matches (finditer True p t) (as, e) =
      (as @ List.map_filter candidate_of (finditer True p t), e)"
    by simp
  moreover from Cons.prems
  have "\<forall>q\<in>set ps. \<forall>m\<in>set (finditer True q t). candidate_of m \<noteq> None \<longrightarrow> \<not> vat_labelled (group0 m)"
    by simp
  ultimately show ?case
    by (simp add: Cons.IH candidates_Cons)
qed

lemma hd_sort_key_first_least:
  fixes f :: "'a \<Rightarrow> 'k::linorder"
  assumes "sort_key f xs = y # ys"
  shows "\<exists>pre post. xs = pre @ y # post \<and> (\<forall>x\<in>set pre. f y < f x) \<and> (\<forall>x\<in>set post. f y \<le> f x)"
proof -
  have srt: "sorted (map f (y # ys))"
    using sorted_sort_key [of f xs] assms by simp
  have st: "set xs = set (y # ys)"
    using set_sort [of f xs] assms by simp
  have least: "\<forall>x\<in>set xs. f y \<le> f x"
    using srt st by auto
  have "filter (\<lambda>z. f z = f y) xs = filter (\<lambda>z. f z = f y) (sort_key f xs)"
    by (rule sort_key_stable [symmetric])
  also have "\<dots> = y # filter (\<lambda>z. f z = f y) ys"
    using assms by simp
  finally have "filter (\<lambda>z. f z = f y) xs = y # filter (\<lambda>z. f z = f y) ys" .
  then obtain pre post where pp: "xs = pre @ y # post" "\<forall>u\<in>set pre. f u \<noteq> f y"
    by (auto simp: filter_eq_Cons_iff)
  have "\<forall>x\<in>set pre. f y < f x"
  proof
    fix x
    assume "x \<in> set pre"
    with pp least have "f x \<noteq> f y" "f y \<le> f x" by auto
    then show "f y < f x" by simp
  qed
  moreover from pp least have "\<forall>x\<in>set post. f y \<le> f x" by simp
  ultimately show ?thesis using pp(1) by blast
qed

lemma use_largest_first_maximum:
  assumes "invoicedTotal e = []" and "cs \<noteq> []"
  shows "\<exists>pre c post. cs = pre @ c # post \<and> (\<forall>x\<in>set pre. cand_value x < cand_value c) \<and>
    (\<forall>x\<in>set post. cand_value x \<le> cand_value c) \<and>
    use_largest (cs, e) = e\<lparr>invoicedTotal := cand_amount c, currency := cand_currency c\<rparr>"
proof -
  have "length (sort_desc cs) = length cs"
    by (simp add: sort_desc_def)
  with assms(2) have "sort_desc cs \<noteq> []"
    by (metis length_0_conv)
  then obtain c rest where c: "sort_key (\<lambda>c. - cand_value c) cs = c # rest"
    by (cases "sort_desc cs") (auto simp: sort_desc_def)
  from hd_sort_key_first_least [OF c] obtain pre post where
    "cs = pre @ c # post" "\<forall>x\<in>set pre. cand_value x < cand_value c"
    "\<forall>x\<in>set post. cand_value x \<le> cand_value c"
    by auto
  moreover from assms c
  have "use_largest (cs, e) = e\<lparr>invoicedTotal := cand_amount c, currency := cand_currency c\<rparr>"
    by (simp add: use_largest_def sort_desc_def)
  ultimately show ?thesis by blast
qed

lemma amount_step_no_hit:
  assumes "\<forall>c\<in>set (candidates amount_patterns t). \<not> vat_labelled (cand_matched_text c)"
  shows "amount_step t defaults = use_largest (candidates amount_patterns t, defaults)"
proof -
  have "\<forall>p\<in>set amount_patterns. \<forall>m\<in>set (finditer True p t).
      candidate_of m \<noteq> None \<longrightarrow> \<not> vat_labelled (group0 m)"
  proof (intro ballI impI)
    fix p m
    assume pm: "p \<in> set amount_patterns" "m \<in> set (finditer True p t)" "candidate_of m \<noteq> None"
    then obtain c where c: "candidate_of m = Some c" by auto
    with pm have "c \<in> set (candidates amount_patterns t)"
      by (auto simp: candidates_iff)
    with assms have "\<not> vat_labelled (cand_matched_text c)" by simp
    with candidate_of_props(1) [OF c] show "\<not> vat_labelled (group0 m)" by simp
  qed
  from amount_loop_no_hit [OF this, of "[]" defaults] show ?thesis
    by (simp add: amount_step_def)
qed

lemma candidates_text_unlabelled: "candidates amount_patterns text_unlabelled = []"
  by (simp add: candidates_def text_unlabelled_def str_ev re_ev amount_ev)

lemma candidates_text_labelled:
  "candidates amount_patterns text_labelled =
     [\<lparr>cand_amount = ascii ''123456.00'', cand_value = 123456, cand_currency = ascii ''CZK'',
       cand_matched_text = text_labelled\<rparr>]"
  by (simp add: candidates_def candidate_of_def text_labelled_def
      str_ev re_ev amount_ev float_ev)

lemma candidates_text_two_amounts:
  "candidates amount_patterns text_two_amounts =
     [\<lparr>cand_amount = ascii ''200.00'', cand_value = 200, cand_currency = ascii ''CZK'',
       cand_matched_text = ascii ''Celkem k '' @ uhrade @ ascii '': 200,00''\<rparr>,
      \<lparr>cand_amount = ascii ''123456.00'', cand_value = 123456, cand_currency = ascii ''EUR'',
       cand_matched_text = ascii ''Total: 123 456,00 EUR''\<rparr>]"
  by (simp add: candidates_def candidate_of_def text_two_amounts_def
      str_ev re_ev amount_ev float_ev)


lemma extract_text_unlabelled: "invoicedTotal (extract_with_patterns text_unlabelled) = []"
proof -
  have "amount_step text_unlabelled defaults = use_largest (candidates amount_patterns text_unlabelled, defaults)"
    by (rule amount_step_no_hit) (simp add: candidates_text_unlabelled)
  then show ?thesis
    by (simp add: extract_invoicedTotal candidates_text_unlabelled use_largest_def defaults_def)
qed

lemma extract_text_labelled:
  "invoicedTotal (extract_with_patterns text_labelled) = ascii ''123456.00''"
proof -
  have "amount_step text_labelled defaults = use_largest (candidates amount_patterns text_labelled, defaults)"
    by (rule amount_step_no_hit, unfold candidates_text_labelled)
      (simp add: vat_labelled_def has_bez_dph_def has_soucet_zaklad_def text_labelled_def uhrade_def
        str_ev)
  then show ?thesis
    by (simp add: extract_invoicedTotal candidates_text_labelled use_largest_def sort_desc_def
        defaults_def)
qed

text \<open>
  Claim C2, as stated, has a text whose only amount is the unlabelled token
  \<^verbatim>\<open>123 456,00\<close> yield the total \<^verbatim>\<open>123456.00\<close>. It fails: every amount pattern starts
  with a label, so the token is no candidate and the total stays empty.
\<close>

theorem unlabelled_amount_is_not_found:
  "invoicedTotal (extract_with_patterns (ascii ''123 456,00'')) \<noteq> ascii ''123456.00''"
  using extract_text_unlabelled by (simp add: text_unlabelled_def) (simp add: ascii_def)

text \<open>
  Claim C2, amended: the candidates are the matches of the seven labelled amount patterns
  whose amount parses to a value strictly between 100 and 100000000. If no candidate's
  matched text contains a VAT-exclusive or VAT-breakdown keyword, the total and the
  currency are those of the candidate of largest value, the first in the order of the scan
  among equals, and the total is empty when there is no candidate. The text
  \<^verbatim>\<open>Celkem k \u00fahrad\u011b: 123 456,00\<close> yields \<^verbatim>\<open>123456.00\<close>; the unlabelled \<^verbatim>\<open>123 456,00\<close> yields
  the empty total.
\<close>

theorem largest_plausible_candidate:
  assumes "\<forall>c\<in>set (candidates amount_patterns t). \<not> vat_labelled (cand_matched_text c)"
  shows "(\<forall>c\<in>set (candidates amount_patterns t).
        py_float (cand_amount c) = Some (cand_value c) \<and>
        100 < cand_value c \<and> cand_value c < 100000000) \<and>
    (candidates amount_patterns t = [] \<longrightarrow> invoicedTotal (extract_with_patterns t) = []) \<and>
    (candidates amount_patterns t \<noteq> [] \<longrightarrow>
       (\<exists>pre c post. candidates amount_patterns t = pre @ c # post \<and>
          (\<forall>x\<in>set pre. cand_value x < cand_value c) \<and>
          (\<forall>x\<in>set post. cand_value x \<le> cand_value c) \<and>
          invoicedTotal (extract_with_patterns t) = cand_amount c \<and>
          currency (extract_with_patterns t) = cand_currency c)) \<and>
    invoicedTotal (extract_with_patterns text_labelled) = ascii ''123456.00'' \<and>
    invoicedTotal (extract_with_patterns text_unlabelled) = []"
proof -
  let ?cs = "candidates amount_patterns t"
  have step: "amount_step t defaults = use_largest (?cs, defaults)"
    by (rule amount_step_no_hit [OF assms])
  have a: "\<forall>c\<in>set ?cs. py_float (cand_amount c) = Some (cand_value c) \<and>
      100 < cand_value c \<and> cand_value c < 100000000"
    using candidate_of_props(2,3) by (auto simp: candidates_iff plausible_amount_def)
  have b: "?cs = [] \<longrightarrow> invoicedTotal (extract_with_patterns t) = []"
  proof
    assume "?cs = []"
    with step have "amount_step t defaults = defaults"
      by (simp add: use_largest_def)
    moreover have "invoicedTotal defaults = []"
      by (simp add: defaults_def)
    ultimately show "invoicedTotal (extract_with_patterns t) = []"
      by (simp add: extract_invoicedTotal)
  qed
  have c: "?cs \<noteq> [] \<longrightarrow>
       (\<exists>pre c post. ?cs = pre @ c # post \<and>
          (\<forall>x\<in>set pre. cand_value x < cand_value c) \<and>
          (\<forall>x\<in>set post. cand_value x \<le> cand_value c) \<and>
          invoicedTotal (extract_with_patterns t) = cand_amount c \<and>
          currency (extract_with_patterns t) = cand_currency c)"
  proof
    assume ne: "?cs \<noteq> []"
    have "invoicedTotal defaults = []" by (simp add: defaults_def)
    from use_largest_first_maximum [OF this ne] obtain pre c post where
      pcp: "?cs = pre @ c # post" "\<forall>x\<in>set pre. cand_value x < cand_value c"
        "\<forall>x\<in>set post. cand_value x \<le> cand_value c"
        "use_largest (?cs, defaults) =
           defaults\<lparr>invoicedTotal := cand_amount c, currency := cand_currency c\<rparr>"
      by blast
    from pcp(4) have "invoicedTotal (extract_with_patterns t) = cand_amount c"
      and "currency (extract_with_patterns t) = cand_currency c"
      by (simp_all add: extract_invoicedTotal extract_currency step)
    with pcp(1-3) show "\<exists>pre c post. ?cs = pre @ c # post \<and>
          (\<forall>x\<in>set pre. cand_value x < cand_value c) \<and>
          (\<forall>x\<in>set post. cand_value x \<le> cand_value c) \<and>
          invoicedTotal (extract_with_patterns t) = cand_amount c \<and>
          currency (extract_with_patterns t) = cand_currency c"
      by blast
  qed
  from a b c show ?thesis
    by (simp only: extract_text_labelled extract_text_unlabelled simp_thms)
qed

theorem largest_plausible_candidate_witness:
  "(\<forall>c\<in>set (candidates amount_patterns text_two_amounts). \<not> vat_labelled (cand_matched_text c)) \<and>
   map cand_value (candidates amount_patterns text_two_amounts) = [200, 123456] \<and>
   invoicedTotal (extract_with_patterns text_two_amounts) = ascii ''123456.00'' \<and>
   currency (extract_with_patterns text_two_amounts) = ascii ''EUR''"
proof -
  have h: "\<forall>c\<in>set (candidates amount_patterns text_two_amounts). \<not> vat_labelled (cand_matched_text c)"
    unfolding candidates_text_two_amounts
    by (simp add: vat_labelled_def has_bez_dph_def has_soucet_zaklad_def uhrade_def str_ev)
  from largest_plausible_candidate [OF h]
  obtain pre c post where
    pcp: "candidates amount_patterns text_two_amounts = pre @ c # post"
      "\<forall>x\<in>set pre. cand_value x < cand_value c" "\<forall>x\<in>set post. cand_value x \<le> cand_value c"
      "invoicedTotal (extract_with_patterns text_two_amounts) = cand_amount c"
      "currency (extract_with_patterns text_two_amounts) = cand_currency c"
    by (auto simp: candidates_text_two_amounts)
  from pcp(1) have "c \<in> set (candidates amount_patterns text_two_amounts)" by simp
  then have "cand_value c = 200 \<or> cand_value c = 123456"
    by (auto simp: candidates_text_two_amounts)
  moreover have "cand_value c \<noteq> 200"
  proof
    assume v: "cand_value c = 200"
    have "\<forall>x\<in>set (candidates amount_patterns text_two_amounts). cand_value x \<le> cand_value c"
      using pcp(1-3) by auto
    with v show False by (simp add: candidates_text_two_amounts)
  qed
  ultimately have "cand_value c = 123456" by simp
  with \<open>c \<in> set (candidates amount_patterns text_two_amounts)\<close>
  have "cand_amount c = ascii ''123456.00''" "cand_currency c = ascii ''EUR''"
    by (auto simp: candidates_text_two_amounts)
  with pcp(4,5) h show ?thesis
    by (simp add: candidates_text_two_amounts)
qed

section \<open>Line items and their fallback labels\<close>

lemma md_scan_eq:
  "md_scan ms (vs, rs) =
     (vs @ List.map_filter accepted_count ms, rs @ List.map_filter accepted_rate ms)"
  by (induction ms arbitrary: vs rs)
    (simp_all add: accepted_count_def accepted_rate_def Let_def List.map_filter_simps
      split: option.splits)

lemma str_nat_nonempty: "str_nat n \<noteq> []"
  by (subst str_nat.simps) simp

lemma py_float_nonempty: "py_float r = Some v \<Longrightarrow> r \<noteq> []"
  by (auto simp: py_float_def strip_def)

lemma accepted_rate_nonempty: "accepted_rate m = Some r \<Longrightarrow> r \<noteq> []"
  by (auto simp: accepted_rate_def dest: py_float_nonempty split: option.splits if_splits)

lemma md_rates_nonempty: "r \<in> set (md_rates t) \<Longrightarrow> r \<noteq> []"
  by (auto simp: md_rates_def set_map_filter dest: accepted_rate_nonempty)

lemma md_step_defaults:
  "numberOfMDs (md_step t defaults) = (if md_counts t \<noteq> [] then str_nat (sum_list (md_counts t)) else [])"
  "mdRate (md_step t defaults) = (case md_rates t of [] \<Rightarrow> [] | r # _ \<Rightarrow> r)"
  by (simp_all add: md_step_def md_scan_eq md_counts_def md_rates_def defaults_def Let_def
      split: list.splits)

lemma extract_md_text_two:
  "md_counts text_md_two = [10, 8]"
  "md_rates text_md_two = [ascii ''15000.00'', ascii ''15000.00'']"
  by (simp_all add: md_counts_def md_rates_def accepted_count_def accepted_rate_def text_md_two_def
      str_ev re_ev md_ev float_ev)

lemma finditer_text_md_out_of_range:
  "finditer True md_line_pattern text_md_out_of_range =
     [\<lparr>mstart = 0, group0 = ascii ''MD 1000 50,00'', groups = [(1, ascii ''1000''), (2, ascii ''50,00'')]\<rparr>,
      \<lparr>mstart = 14, group0 = ascii ''MD 8 15 000,00'', groups = [(1, ascii ''8''), (2, ascii ''15 000,00'')]\<rparr>]"
  by (simp add: text_md_out_of_range_def str_ev re_ev md_ev)


lemma md_values_text_md_out_of_range:
  "md_counts text_md_out_of_range = [8]"
  "md_rates text_md_out_of_range = [ascii ''15000.00'']"
  "spec_numberOfMDs text_md_out_of_range = ascii ''1008''"
  "spec_mdRate text_md_out_of_range = ascii ''50.00''"
  unfolding md_counts_def md_rates_def spec_numberOfMDs_def spec_mdRate_def
    finditer_text_md_out_of_range
  by (simp_all add: accepted_count_def accepted_rate_def mgroup_def normalize_rate_def
      plausible_count_def plausible_rate_def str_ev float_ev)

lemma extract_numberOfMDs_counts:
  assumes "md_counts t \<noteq> []"
  shows "numberOfMDs (extract_with_patterns t) = str_nat (sum_list (md_counts t))"
proof -
  from assms have "numberOfMDs (md_step t defaults) = str_nat (sum_list (md_counts t))"
    by (simp add: md_step_defaults)
  moreover from this have "numberOfMDs (md_step t defaults) \<noteq> []"
    by (simp add: str_nat_nonempty)
  ultimately show ?thesis
    by (simp add: extract_numberOfMDs pocet_step_def)
qed

lemma extract_mdRate_rates:
  assumes "md_rates t \<noteq> []"
  shows "mdRate (extract_with_patterns t) = hd (md_rates t)"
proof -
  from assms obtain r rs where r: "md_rates t = r # rs"
    by (cases "md_rates t") auto
  then have "mdRate (md_step t defaults) = r"
    by (simp add: md_step_defaults)
  moreover from r have "r \<noteq> []"
    by (intro md_rates_nonempty [of r t]) simp
  ultimately show ?thesis using r
    by (simp add: extract_mdRate cena_step_def)
qed

lemma count_too_long:
  assumes "4300 < length (mgroup 1 m)"
  shows "accepted_count m = None" and "accepted_rate m = None"
  using assms by (simp_all add: accepted_count_def accepted_rate_def py_int_def)

lemma digits_val_zeros: "digits_val (replicate n 48 @ s) = digits_val s"
  by (induction n) (simp_all add: digits_val_def)

lemma long_count_refused:
  "py_int (replicate 4300 48 @ [53]) = None"
  "digits_val (replicate 4300 48 @ [53]) = 5"
  "plausible_count 5"
  by (simp_all add: py_int_def digits_val_zeros plausible_count_def) (simp add: digits_val_def)

text \<open>
  Claim C4, as stated, sums the counts of all matched line items and takes the rate of the
  first. It fails when a line item is out of range: of \<^verbatim>\<open>MD 1000 50,00\<close> and
  \<^verbatim>\<open>MD 8 15 000,00\<close> the first has a count and a rate out of range and is skipped, so the
  code gives \<^verbatim>\<open>8\<close> and \<^verbatim>\<open>15000.00\<close>, not \<^verbatim>\<open>1008\<close> and \<^verbatim>\<open>50.00\<close>. Nor is every count in range
  kept: \<^verbatim>\<open>int\<close> refuses the count written as 4300 zeros and a 5.
\<close>

theorem out_of_range_line_item_is_skipped:
  "numberOfMDs (extract_with_patterns text_md_out_of_range) \<noteq> spec_numberOfMDs text_md_out_of_range \<and>
   mdRate (extract_with_patterns text_md_out_of_range) \<noteq> spec_mdRate text_md_out_of_range \<and>
   py_int (replicate 4300 48 @ [53]) = None \<and> digits_val (replicate 4300 48 @ [53]) = 5 \<and>
   plausible_count 5"
proof -
  have "numberOfMDs (extract_with_patterns text_md_out_of_range) = str_nat 8"
    using extract_numberOfMDs_counts [of text_md_out_of_range]
    by (simp add: md_values_text_md_out_of_range)
  moreover have "mdRate (extract_with_patterns text_md_out_of_range) = ascii ''15000.00''"
    using extract_mdRate_rates [of text_md_out_of_range]
    by (simp add: md_values_text_md_out_of_range)
  ultimately have
    "numberOfMDs (extract_with_patterns text_md_out_of_range) \<noteq> spec_numberOfMDs text_md_out_of_range \<and>
     mdRate (extract_with_patterns text_md_out_of_range) \<noteq> spec_mdRate text_md_out_of_range"
    by (simp add: md_values_text_md_out_of_range) (simp add: str_ev)
  then show ?thesis
    by (simp only: long_count_refused simp_thms)
qed

text \<open>
  Claim C4, amended: over the matched line items, the counts strictly between 0 and 1000
  and the normalized rates of value strictly between 100 and 100000 are kept; a line item
  whose count \<^verbatim>\<open>int\<close> refuses (more than 4300 digits, \<open>count_too_long\<close>) gives neither. When
  a count is kept, the number of man-days is the sum of the kept counts (not their number);
  when a rate is kept, the rate is the first kept rate. The line items \<^verbatim>\<open>MD 10 15 000,00\<close>
  and \<^verbatim>\<open>MD 8 15 000,00\<close> give \<^verbatim>\<open>18\<close> and \<^verbatim>\<open>15000.00\<close>.
\<close>

theorem line_items_sum_and_first_rate:
  "(md_counts t \<noteq> [] \<longrightarrow>
      numberOfMDs (extract_with_patterns t) = str_nat (sum_list (md_counts t))) \<and>
   (md_rates t \<noteq> [] \<longrightarrow> mdRate (extract_with_patterns t) = hd (md_rates t)) \<and>
   md_counts text_md_two = [10, 8] \<and>
   numberOfMDs (extract_with_patterns text_md_two) = ascii ''18'' \<and>
   mdRate (extract_with_patterns text_md_two) = ascii ''15000.00''"
proof -
  have "numberOfMDs (extract_with_patterns text_md_two) = str_nat 18"
    using extract_numberOfMDs_counts [of text_md_two] by (simp add: extract_md_text_two)
  then have "numberOfMDs (extract_with_patterns text_md_two) = ascii ''18''"
    by (simp add: str_ev)
  moreover have "mdRate (extract_with_patterns text_md_two) = ascii ''15000.00''"
    using extract_mdRate_rates [of text_md_two] by (simp add: extract_md_text_two)
  ultimately show ?thesis
    using extract_numberOfMDs_counts [of t] extract_mdRate_rates [of t]
    by (simp add: extract_md_text_two)
qed

theorem line_items_sum_and_first_rate_witness:
  "md_counts text_md_out_of_range \<noteq> [] \<and> md_rates text_md_out_of_range \<noteq> [] \<and>
   numberOfMDs (extract_with_patterns text_md_out_of_range) = ascii ''8'' \<and>
   mdRate (extract_with_patterns text_md_out_of_range) = ascii ''15000.00''"
  using line_items_sum_and_first_rate [of text_md_out_of_range]
  by (simp add: md_values_text_md_out_of_range) (simp add: str_ev)

subsection \<open>The fallback labels\<close>

lemma text_pocet_values:
  "finditer True md_line_pattern text_pocet = []"
  "search True pocet_pattern text_pocet =
     Some \<lparr>mstart = 0, group0 = text_pocet, groups = [(1, ascii ''5000'')]\<rparr>"
  by (simp_all add: text_pocet_def str_ev re_ev md_ev)

text \<open>
  Claim C9 has each fallback value accepted only when it is in range, the count strictly
  between 0 and 1000. The code at the text \<^verbatim>\<open>Po\u010det MJ: 5000\<close>: no line item matches, and the
  count 5000, out of range, is taken as it stands.
\<close>

theorem pocet_fallback_is_not_validated:
  "finditer True md_line_pattern text_pocet = [] \<and> \<not> plausible_count 5000 \<and>
   numberOfMDs (extract_with_patterns text_pocet) = ascii ''5000''"
proof -
  have "md_counts text_pocet = []"
    by (simp add: md_counts_def text_pocet_values)
  then have "numberOfMDs (md_step text_pocet defaults) = []"
    by (simp add: md_step_defaults)
  then have "numberOfMDs (extract_with_patterns text_pocet) = ascii ''5000''"
    by (simp add: extract_numberOfMDs pocet_step_def text_pocet_values mgroup_def)
  then show ?thesis
    by (simp add: text_pocet_values plausible_count_def)
qed

section \<open>The client\<close>

lemma client_loop_first_accepted:
  "client (client_loop ps t e) =
     (case List.map_filter (\<lambda>p. accepted_client p t) ps of [] \<Rightarrow> client e | n # _ \<Rightarrow> n)"
  by (induction ps)
    (simp_all add: accepted_client_def Let_def List.map_filter_simps split: option.splits)

lemma code_client_patterns: "client_patterns = code_client_patterns"
  by (simp add: client_patterns_def code_client_patterns_def label_skip_def odb_label_def
      odberatel_def buyer_pattern_def client_pattern_def seq_def numeral_3_eq_3 numeral_2_eq_2)

lemma extract_client_first_accepted:
  "client (extract_with_patterns t) = first_accepted code_client_patterns t"
proof -
  have d: "client defaults = []"
    by (simp add: defaults_def)
  show ?thesis
    unfolding extract_client client_loop_first_accepted first_accepted_def code_client_patterns d ..
qed

lemma accepted_client_length:
  "accepted_client p t = Some n \<Longrightarrow> 3 < length n \<and> length n < 200"
  by (auto simp: accepted_client_def split: option.splits if_splits)

lemma first_accepted_length:
  assumes "first_accepted ps t \<noteq> []"
  shows "3 < length (first_accepted ps t) \<and> length (first_accepted ps t) < 200"
proof (cases "List.map_filter (\<lambda>p. accepted_client p t) ps")
  case Nil
  with assms show ?thesis by (simp add: first_accepted_def)
next
  case (Cons n ns)
  then have "n \<in> set (List.map_filter (\<lambda>p. accepted_client p t) ps)" by simp
  then obtain p where "accepted_client p t = Some n"
    by (auto simp: set_map_filter)
  from accepted_client_length [OF this] Cons show ?thesis
    by (simp add: first_accepted_def)
qed

lemma extract_text_client_scenario:
  "client (extract_with_patterns text_client_scenario) = ascii ''Acme s.r.o.''"
  unfolding extract_client
  by (simp add: text_client_scenario_def label_odberatel_def str_ev re_ev client_ev)

lemma extract_text_client_two:
  "client (extract_with_patterns text_client_two) = ascii ''Bar s.r.o.''"
  unfolding extract_client
  by (simp add: text_client_two_def label_odberatel_def str_ev re_ev client_ev)

lemma extract_text_client_ltd:
  "client (extract_with_patterns text_client_ltd) = []"
  unfolding extract_client
  by (simp add: text_client_ltd_def label_odberatel_def str_ev re_ev client_ev)

lemma extract_text_buyer_below:
  "client (extract_with_patterns text_buyer_below) = []"
  unfolding extract_client
  by (simp add: text_buyer_below_def str_ev re_ev client_ev)

lemma extract_text_client_plain:
  "client (extract_with_patterns text_client_plain) = ascii ''John Smith''"
  unfolding extract_client
  by (simp add: text_client_plain_def str_ev re_ev client_ev)

lemma extract_text_client_ico:
  "client (extract_with_patterns text_client_ico) = ascii ''Acme s.r.o.''"
  unfolding extract_client
  by (simp add: text_client_ico_def str_ev re_ev client_ev)

lemmas spec_client_ev =
  spec_client_patterns_def label_skip_def odb_label_def spec_suffixes_def numeral_3_eq_3
  numeral_2_eq_2

lemma spec_order_text_client_two:
  "client (client_loop spec_client_patterns text_client_two defaults) = ascii ''Foo s.r.o.''"
  by (simp add: spec_client_ev text_client_two_def label_odberatel_def str_ev re_ev client_ev)

lemma spec_order_text_client_ltd:
  "client (client_loop spec_client_patterns text_client_ltd defaults) = ascii ''Acme Ltd.''"
  by (simp add: spec_client_ev text_client_ltd_def label_odberatel_def str_ev re_ev client_ev)

lemma spec_order_text_buyer_below:
  "client (client_loop spec_client_patterns text_buyer_below defaults) = ascii ''Acme Ltd.''"
  by (simp add: spec_client_ev text_buyer_below_def str_ev re_ev client_ev)

lemma spec_order_text_client_plain:
  "client (client_loop spec_client_patterns text_client_plain defaults) = []"
  by (simp add: spec_client_ev text_client_plain_def str_ev re_ev client_ev)

lemma cyrillic_letter_is_word: "is_word 1046"
  by (simp add: is_word_def word_latin_def word_above_def)

lemma clean_name_cyrillic: "clean_client (ascii ''- '' @ name_cyrillic) = name_cyrillic"
  by (simp add: name_cyrillic_def cyrillic_letter_is_word str_ev re_ev client_ev)

text \<open>
  Claim C8, as stated, tries after each of the three labels the patterns that skip 0, 1, 2
  and 3 lines, in this order, and takes the first line with one of the eight suffixes. It
  fails in four ways. With a company on the line of \<^verbatim>\<open>Odb\u011bratel:\<close> and another three lines
  below, the code takes the one below. After \<^verbatim>\<open>Odb\u011bratel:\<close> on the same line the code does
  not take a name in \<^verbatim>\<open>Ltd.\<close>. After \<^verbatim>\<open>Buyer:\<close> the code skips no line. After \<^verbatim>\<open>Client:\<close>
  the code takes the rest of the line, with a suffix or without.
\<close>

theorem client_patterns_are_not_as_specified:
  "client (extract_with_patterns text_client_two) = ascii ''Bar s.r.o.'' \<and>
   client (client_loop spec_client_patterns text_client_two defaults) = ascii ''Foo s.r.o.'' \<and>
   client (extract_with_patterns text_client_ltd) = [] \<and>
   client (client_loop spec_client_patterns text_client_ltd defaults) = ascii ''Acme Ltd.'' \<and>
   client (extract_with_patterns text_buyer_below) = [] \<and>
   client (client_loop spec_client_patterns text_buyer_below defaults) = ascii ''Acme Ltd.'' \<and>
   client (extract_with_patterns text_client_plain) = ascii ''John Smith'' \<and>
   client (client_loop spec_client_patterns text_client_plain defaults) = []"
  by (simp add: extract_text_client_two extract_text_client_ltd extract_text_buyer_below
      extract_text_client_plain spec_order_text_client_two spec_order_text_client_ltd
      spec_order_text_buyer_below spec_order_text_client_plain)

text \<open>
  Claim C8, amended: the client is what the first of these six patterns to give a name
  gives, in this order: \<^verbatim>\<open>Odb\u011bratel\<close> with 3 lines skipped and a line ending in
  \<^verbatim>\<open>s.r.o.\<close>, \<^verbatim>\<open>s.r.o\<close>, \<^verbatim>\<open>a.s.\<close>, \<^verbatim>\<open>spol.\<close>, \<^verbatim>\<open>spol\<close>, \<^verbatim>\<open>Ltd.\<close>, \<^verbatim>\<open>Inc.\<close>, \<^verbatim>\<open>LLC\<close>, \<^verbatim>\<open>GmbH\<close> or
  \<^verbatim>\<open>Corp.\<close>; \<^verbatim>\<open>Odb\u011bratel\<close> with 2, with 1 and with 0 lines skipped and a line ending in
  \<^verbatim>\<open>s.r.o.\<close>, \<^verbatim>\<open>s.r.o\<close>, \<^verbatim>\<open>a.s.\<close> or \<^verbatim>\<open>spol.\<close>; \<^verbatim>\<open>Buyer\<close> with no line skipped and one of the
  five English suffixes; \<^verbatim>\<open>Client\<close> with the rest of its line. A pattern gives a name when
  it matches and its capture, cleaned of an \<^verbatim>\<open>I\u010cO: <digits>\<close> fragment and of leading
  non-word characters, has a length strictly between 3 and 200; so a client that is set
  has such a length. The scenario \<^verbatim>\<open>Odb\u011bratel:\nFoo\nBar\nAcme s.r.o.\<close> yields
  \<^verbatim>\<open>Acme s.r.o.\<close>, and so does \<^verbatim>\<open>Client: Acme s.r.o. I\u010cO: 12345678\<close>; a letter of any script
  is a word character, so of \<^verbatim>\<open>- \u0416\u0443\u043a s.r.o.\<close> the dash alone is dropped.
\<close>

theorem client_is_first_accepted:
  "client (extract_with_patterns t) =
     first_accepted
       [label_skip odb_label 3 (czech_suffixes @ [lit ''spol''] @ english_suffixes),
        label_skip odb_label 2 czech_suffixes,
        label_skip odb_label 1 czech_suffixes,
        label_skip odb_label 0 czech_suffixes,
        buyer_pattern,
        client_pattern] t \<and>
   (client (extract_with_patterns t) \<noteq> [] \<longrightarrow>
      3 < length (client (extract_with_patterns t)) \<and> length (client (extract_with_patterns t)) < 200) \<and>
   client (extract_with_patterns text_client_scenario) = ascii ''Acme s.r.o.'' \<and>
   client (extract_with_patterns text_client_ico) = ascii ''Acme s.r.o.'' \<and>
   clean_client (ascii ''- '' @ name_cyrillic) = name_cyrillic"
proof -
  have "client (extract_with_patterns t) =
     first_accepted
       [label_skip odb_label 3 (czech_suffixes @ [lit ''spol''] @ english_suffixes),
        label_skip odb_label 2 czech_suffixes,
        label_skip odb_label 1 czech_suffixes,
        label_skip odb_label 0 czech_suffixes,
        buyer_pattern,
        client_pattern] t"
    unfolding extract_client_first_accepted code_client_patterns_def ..
  moreover have "client (extract_with_patterns t) \<noteq> [] \<longrightarrow>
      3 < length (client (extract_with_patterns t)) \<and> length (client (extract_with_patterns t)) < 200"
    unfolding extract_client_first_accepted using first_accepted_length by blast
  ultimately show ?thesis
    by (simp only: extract_text_client_scenario extract_text_client_ico clean_name_cyrillic simp_thms)
qed

theorem client_is_first_accepted_witness:
  "client (extract_with_patterns text_client_scenario) \<noteq> [] \<and>
   first_accepted code_client_patterns text_client_scenario = ascii ''Acme s.r.o.'' \<and>
   3 < length (client (extract_with_patterns text_client_scenario)) \<and>
   length (client (extract_with_patterns text_client_scenario)) < 200"
proof -
  have ne: "client (extract_with_patterns text_client_scenario) \<noteq> []"
    by (simp add: extract_text_client_scenario ascii_def)
  note t = client_is_first_accepted [of text_client_scenario]
  from t have "client (extract_with_patterns text_client_scenario) =
      first_accepted code_client_patterns text_client_scenario"
    unfolding code_client_patterns_def by (rule conjunct1)
  then have "first_accepted code_client_patterns text_client_scenario = ascii ''Acme s.r.o.''"
    by (simp add: extract_text_client_scenario)
  moreover from t ne have "3 < length (client (extract_with_patterns text_client_scenario)) \<and>
      length (client (extract_with_patterns text_client_scenario)) < 200"
    by blast
  ultimately show ?thesis using ne by blast
qed

section \<open>The correction analysis\<close>

subsection \<open>Frequencies\<close>

lemma dget_bump_key: "dget (bump_key k d) k' = (if k' = k then dget d k + 1 else dget d k')"
  by (simp add: bump_key_def dget_def update_conv')

lemma positive_bump_key: "positive d \<Longrightarrow> positive (bump_key k d)"
  by (simp add: positive_def bump_key_def update_conv')

lemma dget_fold_bump_key:
  "dget (fold bump_key ks d) k = dget d k + count_list ks k"
  by (induction ks arbitrary: d) (simp_all add: dget_bump_key)

lemma positive_fold_bump_key: "positive d \<Longrightarrow> positive (fold bump_key ks d)"
  by (induction ks arbitrary: d) (simp_all add: positive_bump_key)

lemma positive_map_of:
  assumes "positive d"
  shows "map_of d k = (if dget d k = 0 then None else Some (dget d k))"
proof (cases "map_of d k")
  case None
  then show ?thesis by (simp add: dget_def)
next
  case (Some v)
  with assms have "0 < v" by (simp add: positive_def)
  with Some show ?thesis by (simp add: dget_def)
qed

lemma positive_same:
  assumes "positive d" and "positive d'" and "\<And>k. dget d k = dget d' k"
  shows "map_of d = map_of d'"
  by (rule ext) (simp add: positive_map_of assms)

subsection \<open>One entry\<close>

lemma bump_fst: "fst (bump f k st) = (fst st)(f := bump_key k (fst st f))"
  and bump_snd: "snd (bump f k st) = snd st"
  by (simp_all add: bump_def bump_key_def split: prod.splits)

lemma count_correction_fst: "fst (count_correction f st) = fst st"
  and count_correction_snd: "snd (count_correction f st) = (snd st)(f := snd st f + 1)"
  by (simp_all add: count_correction_def split: prod.splits)

lemma bump_present_fst:
  "fst (bump_present f kws ctx st) = (fst st)(f := fold bump_key (present kws ctx) (fst st f))"
  unfolding bump_present_def present_def
  by (induction kws arbitrary: st) (simp_all add: bump_fst)

lemma bump_present_snd: "snd (bump_present f kws ctx st) = snd st"
  unfolding bump_present_def
  by (induction kws arbitrary: st) (simp_all add: bump_snd)

lemma learn_project_fst:
  "fst (learn_project e st) = (fst st)(ProjectName := fold bump_key (project_keys e) (fst st ProjectName))"
  by (simp add: learn_project_def project_keys_def Let_def bump_present_fst count_correction_fst
      split: option.splits)

lemma learn_project_snd:
  "snd (learn_project e st) = (snd st)(ProjectName := snd st ProjectName + (if flagged e ProjectName then 1 else 0))"
  by (simp add: learn_project_def Let_def bump_present_snd count_correction_snd split: option.splits)


lemma fold_bump_present_fst:
  "fst (fold (\<lambda>m s. bump_present f kws (ctx m) s) ms st) =
     (fst st)(f := fold bump_key (concat (map (\<lambda>m. present kws (ctx m)) ms)) (fst st f))"
  by (induction ms arbitrary: st) (simp_all add: bump_present_fst)

lemma fold_bump_present_snd:
  "snd (fold (\<lambda>m s. bump_present f kws (ctx m) s) ms st) = snd st"
  by (induction ms arbitrary: st) (simp_all add: bump_present_snd)

lemma learn_total_fails: "entry_fails c e \<Longrightarrow> isl (learn_total c e st)"
  by (auto simp: entry_fails_def learn_total_def Let_def isl_def)

lemma learn_total_returns:
  assumes "\<not> entry_fails c e"
  shows "\<exists>st'. learn_total c e st = Inr st' \<and>
    fst st' = (fst st)(InvoicedTotal := fold bump_key (total_keys c e) (fst st InvoicedTotal)) \<and>
    snd st' = (snd st)(InvoicedTotal := snd st InvoicedTotal + (if flagged e InvoicedTotal then 1 else 0))"
proof (cases "flagged e InvoicedTotal \<and> corrected_value e InvoicedTotal \<noteq> []")
  case True
  with assms obtain r where r: "c (total_pattern (corrected_value e InvoicedTotal)) = Inr r"
    by (cases "c (total_pattern (corrected_value e InvoicedTotal))") (auto simp: entry_fails_def)
  with True show ?thesis
    by (simp add: learn_total_def total_keys_def Let_def fold_bump_present_fst
        fold_bump_present_snd count_correction_fst count_correction_snd)
next
  case False
  then show ?thesis
    by (auto simp: learn_total_def total_keys_def Let_def count_correction_fst count_correction_snd
        prod_eq_iff)
qed

lemma learn_currency_fst:
  "fst (learn_currency e st) =
     (fst st)(Currency := fold bump_key (entry_keys c e Currency) (fst st Currency))"
  by (simp add: learn_currency_def bump_fst count_correction_fst)

lemma learn_currency_snd:
  "snd (learn_currency e st) = (snd st)(Currency := snd st Currency + (if flagged e Currency then 1 else 0))"
  by (simp add: learn_currency_def bump_snd count_correction_snd)

lemma process_entry_fails: "entry_fails c e \<Longrightarrow> isl (process_entry c e st)"
  using learn_total_fails [of c e "learn_project e st"]
  by (auto simp: process_entry_def isl_def)

lemma process_entry_returns:
  assumes "\<not> entry_fails c e"
  shows "\<exists>st'. process_entry c e st = Inr st' \<and>
    (\<forall>f. fst st' f = fold bump_key (entry_keys c e f) (fst st f)) \<and>
    (\<forall>f. snd st' f = snd st f + (if counted e f then 1 else 0))"
proof -
  from learn_total_returns [OF assms, of "learn_project e st"] obtain st1 where
    st1: "learn_total c e (learn_project e st) = Inr st1"
      "fst st1 = (fst (learn_project e st))
         (InvoicedTotal := fold bump_key (total_keys c e) (fst (learn_project e st) InvoicedTotal))"
      "snd st1 = (snd (learn_project e st))
         (InvoicedTotal := snd (learn_project e st) InvoicedTotal + (if flagged e InvoicedTotal then 1 else 0))"
    by blast
  have "process_entry c e st = Inr (learn_currency e st1)"
    by (simp add: process_entry_def st1(1))
  moreover have "fst (learn_currency e st1) f = fold bump_key (entry_keys c e f) (fst st f)" for f
    by (cases f) (simp_all add: learn_currency_fst [of e st1 c] st1(2) learn_project_fst)
  moreover have "snd (learn_currency e st1) f = snd st f + (if counted e f then 1 else 0)" for f
    by (cases f) (simp_all add: learn_currency_snd st1(3) learn_project_snd counted_def)
  ultimately show ?thesis by blast
qed

subsection \<open>The loop over the entries\<close>

lemma analyze_loop_fails:
  "isl (analyze_loop c es st) \<longleftrightarrow> (\<exists>e\<in>set es. entry_fails c e)"
proof (induction es arbitrary: st)
  case Nil
  then show ?case by simp
next
  case (Cons e es)
  show ?case
  proof (cases "entry_fails c e")
    case True
    from process_entry_fails [OF this, of st] obtain err where "process_entry c e st = Inl err"
      by (auto simp: isl_def)
    with True show ?thesis by simp
  next
    case False
    from process_entry_returns [OF this, of st] obtain st' where "process_entry c e st = Inr st'"
      by blast
    with False Cons.IH [of st'] show ?thesis by simp
  qed
qed

lemma analyze_loop_returns:
  "analyze_loop c es st = Inr st' \<Longrightarrow>
   (\<forall>f. fst st' f = fold bump_key (concat (map (\<lambda>e. entry_keys c e f) es)) (fst st f)) \<and>
   (\<forall>f. snd st' f = snd st f + length (filter (\<lambda>e. counted e f) es))"
proof (induction es arbitrary: st)
  case Nil
  then show ?case by simp
next
  case (Cons e es)
  have nf: "\<not> entry_fails c e"
  proof
    assume "entry_fails c e"
    from process_entry_fails [OF this, of st] Cons.prems show False
      by (auto simp: isl_def)
  qed
  from process_entry_returns [OF nf, of st] obtain st1 where
    st1: "process_entry c e st = Inr st1"
      "\<forall>f. fst st1 f = fold bump_key (entry_keys c e f) (fst st f)"
      "\<forall>f. snd st1 f = snd st f + (if counted e f then 1 else 0)"
    by blast
  with Cons.prems have "analyze_loop c es st1 = Inr st'" by simp
  from Cons.IH [OF this] st1(2,3) show ?case by simp
qed


subsection \<open>The result\<close>

lemma analyze_corrections_fails:
  "isl (analyze_corrections c fb) \<longleftrightarrow> (\<exists>e\<in>set fb. entry_fails c e)"
proof -
  have "isl (analyze_corrections c fb) \<longleftrightarrow> isl (analyze_loop c fb (\<lambda>f. [], \<lambda>f. 0))"
    by (simp add: analyze_corrections_def split: sum.splits prod.splits)
  then show ?thesis by (simp add: analyze_loop_fails)
qed

lemma analyze_corrections_returns:
  assumes "analyze_corrections c fb = Inr a"
  shows "patterns a f = fold bump_key (concat (map (\<lambda>e. entry_keys c e f) fb)) []"
    and "corrections_count a f = length (filter (\<lambda>e. counted e f) fb)"
    and "total_feedback a = length fb"
proof -
  from assms obtain pats cnt where
    loop: "analyze_loop c fb (\<lambda>f. [], \<lambda>f. 0) = Inr (pats, cnt)"
    and a: "a = \<lparr>patterns = pats, corrections_count = cnt, total_feedback = length fb\<rparr>"
    by (auto simp: analyze_corrections_def split: sum.splits prod.splits)
  from analyze_loop_returns [OF loop] a
  show "patterns a f = fold bump_key (concat (map (\<lambda>e. entry_keys c e f) fb)) []"
    and "corrections_count a f = length (filter (\<lambda>e. counted e f) fb)"
    and "total_feedback a = length fb"
    by simp_all
qed

lemma corrections_count_of_analysis:
  assumes "analyze_corrections c fb = Inr a"
  shows "corrections_count a InvoiceNumber = 0"
    and "f \<noteq> InvoiceNumber \<Longrightarrow> corrections_count a f = length (filter (\<lambda>e. flagged e f) fb)"
  using analyze_corrections_returns(2) [OF assms] by (simp_all add: counted_def)

lemma count_list_concat:
  "count_list (concat (map g xs)) k = sum_list (map (\<lambda>x. count_list (g x) k) xs)"
  by (induction xs) simp_all

lemma sum_list_map_mset:
  fixes h :: "'a \<Rightarrow> nat"
  assumes "mset xs = mset ys"
  shows "sum_list (map h xs) = sum_list (map h ys)"
proof -
  have "sum_list (map h xs) = sum_mset (image_mset h (mset xs))"
    by (simp add: sum_mset_sum_list [symmetric])
  also have "\<dots> = sum_mset (image_mset h (mset ys))"
    by (simp add: assms)
  also have "\<dots> = sum_list (map h ys)"
    by (simp add: sum_mset_sum_list [symmetric])
  finally show ?thesis .
qed

lemma length_filter_mset:
  assumes "mset xs = mset ys"
  shows "length (filter P xs) = length (filter P ys)"
proof -
  have "mset (filter P xs) = mset (filter P ys)"
    by (simp add: assms)
  then show ?thesis by (rule mset_eq_length)
qed

lemma tables_of_permutation:
  assumes "mset fb = mset fb'"
  shows "map_of (fold bump_key (concat (map (\<lambda>e. entry_keys c e f) fb)) []) =
    map_of (fold bump_key (concat (map (\<lambda>e. entry_keys c e f) fb')) [])"
proof (rule positive_same)
  have "positive []" by (simp add: positive_def)
  then show "positive (fold bump_key (concat (map (\<lambda>e. entry_keys c e f) fb)) [])"
    and "positive (fold bump_key (concat (map (\<lambda>e. entry_keys c e f) fb')) [])"
    by (rule positive_fold_bump_key)+
  fix k
  show "dget (fold bump_key (concat (map (\<lambda>e. entry_keys c e f) fb)) []) k =
      dget (fold bump_key (concat (map (\<lambda>e. entry_keys c e f) fb')) []) k"
    by (simp add: dget_fold_bump_key count_list_concat
        sum_list_map_mset [OF assms, of "\<lambda>e. count_list (entry_keys c e f) k"])
qed

lemma entry_number_does_not_fail: "\<not> entry_fails compile entry_number"
  by (simp add: entry_fails_def flagged_def entry_number_def)

lemma entries_do_not_fail:
  "\<not> entry_fails (compile_literal rest) entry_czk"
  "\<not> entry_fails (compile_literal rest) entry_eur"
  by (simp_all add: entry_fails_def flagged_def corrected_value_def entry_czk_def
      entry_eur_def total_pattern_def compile_literal_def metachars_def str_ev)

lemma entry_flags:
  "flagged entry_number InvoiceNumber"
  "\<not> flagged entry_number ProjectName"
  "\<not> flagged entry_number InvoicedTotal"
  "\<not> flagged entry_number Currency"
  by (simp_all add: flagged_def entry_number_def)

text \<open>
  Claim C6 has the counter of each of the four tracked fields, the invoice number
  included, equal to the number of entries that flag the field. The code on one entry
  that flags the invoice number: the analysis returns, and the counter of the invoice
  number is 0. (For the other three fields the counter is the number of flagged entries,
  by \<open>corrections_count_of_analysis\<close>.)
\<close>

theorem invoice_number_corrections_are_not_counted:
  "flagged entry_number InvoiceNumber \<and>
   (\<forall>compile. \<exists>a. analyze_corrections compile [entry_number] = Inr a \<and>
        corrections_count a InvoiceNumber = 0 \<and> total_feedback a = 1)"
proof -
  have "\<exists>a. analyze_corrections compile [entry_number] = Inr a \<and>
        corrections_count a InvoiceNumber = 0 \<and> total_feedback a = 1" for compile
  proof -
    have "\<not> isl (analyze_corrections compile [entry_number])"
      by (simp add: analyze_corrections_fails entry_number_does_not_fail)
    then obtain a where a: "analyze_corrections compile [entry_number] = Inr a"
      by (cases "analyze_corrections compile [entry_number]") simp_all
    from corrections_count_of_analysis(1) [OF a] analyze_corrections_returns(3) [OF a] a
    show ?thesis by simp
  qed
  with entry_flags(1) show ?thesis by blast
qed

subsection \<open>Two entries in either order\<close>

lemma total_keys_of_entries:
  "total_keys (compile_literal rest) entry_czk = [ascii ''celkem'', ascii ''k '' @ uhrade]"
  "total_keys (compile_literal rest) entry_eur = [ascii ''total'', ascii ''amount'']"
  by (simp_all add: total_keys_def present_def total_keywords_def flagged_def corrected_value_def
      raw_text_of_def entry_czk_def entry_eur_def total_pattern_def compile_literal_def
      metachars_def uhrade_def castka_def str_ev re_ev)

lemma analysis_czk_eur:
  "\<exists>a. analyze_corrections (compile_literal rest) [entry_czk, entry_eur] = Inr a \<and>
     patterns a InvoicedTotal =
       [(ascii ''celkem'', 1), (ascii ''k '' @ uhrade, 1), (ascii ''total'', 1), (ascii ''amount'', 1)]"
proof -
  have "\<not> isl (analyze_corrections (compile_literal rest) [entry_czk, entry_eur])"
    by (simp add: analyze_corrections_fails entries_do_not_fail)
  then obtain a where a: "analyze_corrections (compile_literal rest) [entry_czk, entry_eur] = Inr a"
    by (cases "analyze_corrections (compile_literal rest) [entry_czk, entry_eur]") simp_all
  have "patterns a InvoicedTotal =
      [(ascii ''celkem'', 1), (ascii ''k '' @ uhrade, 1), (ascii ''total'', 1), (ascii ''amount'', 1)]"
    unfolding analyze_corrections_returns(1) [OF a]
    by (simp add: total_keys_of_entries bump_key_def dget_def uhrade_def ascii_def)
  with a show ?thesis by blast
qed

lemma analysis_eur_czk:
  "\<exists>b. analyze_corrections (compile_literal rest) [entry_eur, entry_czk] = Inr b \<and>
     patterns b InvoicedTotal =
       [(ascii ''total'', 1), (ascii ''amount'', 1), (ascii ''celkem'', 1), (ascii ''k '' @ uhrade, 1)]"
proof -
  have "\<not> isl (analyze_corrections (compile_literal rest) [entry_eur, entry_czk])"
    by (simp add: analyze_corrections_fails entries_do_not_fail)
  then obtain b where b: "analyze_corrections (compile_literal rest) [entry_eur, entry_czk] = Inr b"
    by (cases "analyze_corrections (compile_literal rest) [entry_eur, entry_czk]") simp_all
  have "patterns b InvoicedTotal =
      [(ascii ''total'', 1), (ascii ''amount'', 1), (ascii ''celkem'', 1), (ascii ''k '' @ uhrade, 1)]"
    unfolding analyze_corrections_returns(1) [OF b]
    by (simp add: total_keys_of_entries bump_key_def dget_def uhrade_def ascii_def)
  with b show ?thesis by blast
qed

text \<open>
  Claim C7, as stated, has the frequency tables identical in every order of the entries.
  A table is a dictionary, whose keys are kept in the order of their first insertion, and
  that order follows the order of the entries: of two entries, one with the keywords
  \<^verbatim>\<open>celkem\<close> and \<^verbatim>\<open>k \u00fahrad\u011b\<close> around its total and one with \<^verbatim>\<open>total\<close> and \<^verbatim>\<open>amount\<close>, the table
  of the total has the keys of the entry that comes first before those of the other.
\<close>

theorem key_order_follows_entry_order:
  "mset [entry_czk, entry_eur] = mset [entry_eur, entry_czk] \<and>
   (\<forall>rest. \<exists>a b.
      analyze_corrections (compile_literal rest) [entry_czk, entry_eur] = Inr a \<and>
      analyze_corrections (compile_literal rest) [entry_eur, entry_czk] = Inr b \<and>
      map fst (patterns a InvoicedTotal) =
        [ascii ''celkem'', ascii ''k '' @ uhrade, ascii ''total'', ascii ''amount''] \<and>
      map fst (patterns b InvoicedTotal) =
        [ascii ''total'', ascii ''amount'', ascii ''celkem'', ascii ''k '' @ uhrade] \<and>
      patterns a InvoicedTotal \<noteq> patterns b InvoicedTotal)"
proof -
  have "\<exists>a b.
      analyze_corrections (compile_literal rest) [entry_czk, entry_eur] = Inr a \<and>
      analyze_corrections (compile_literal rest) [entry_eur, entry_czk] = Inr b \<and>
      map fst (patterns a InvoicedTotal) =
        [ascii ''celkem'', ascii ''k '' @ uhrade, ascii ''total'', ascii ''amount''] \<and>
      map fst (patterns b InvoicedTotal) =
        [ascii ''total'', ascii ''amount'', ascii ''celkem'', ascii ''k '' @ uhrade] \<and>
      patterns a InvoicedTotal \<noteq> patterns b InvoicedTotal" for rest
  proof -
    from analysis_czk_eur [of rest] obtain a where
      a: "analyze_corrections (compile_literal rest) [entry_czk, entry_eur] = Inr a"
        "patterns a InvoicedTotal =
          [(ascii ''celkem'', 1), (ascii ''k '' @ uhrade, 1), (ascii ''total'', 1), (ascii ''amount'', 1)]"
      by blast
    from analysis_eur_czk [of rest] obtain b where
      b: "analyze_corrections (compile_literal rest) [entry_eur, entry_czk] = Inr b"
        "patterns b InvoicedTotal =
          [(ascii ''total'', 1), (ascii ''amount'', 1), (ascii ''celkem'', 1), (ascii ''k '' @ uhrade, 1)]"
      by blast
    have "patterns a InvoicedTotal \<noteq> patterns b InvoicedTotal"
      unfolding a(2) b(2) by (simp add: ascii_def)
    moreover have "map fst (patterns a InvoicedTotal) =
        [ascii ''celkem'', ascii ''k '' @ uhrade, ascii ''total'', ascii ''amount'']"
      unfolding a(2) by simp
    moreover have "map fst (patterns b InvoicedTotal) =
        [ascii ''total'', ascii ''amount'', ascii ''celkem'', ascii ''k '' @ uhrade]"
      unfolding b(2) by simp
    ultimately show ?thesis
      by (intro exI [of _ a] exI [of _ b]) (simp only: a(1) b(1) simp_thms)
  qed
  then show ?thesis by simp
qed

text \<open>
  Claim C7, amended: for every list of feedback entries and every permutation of it, the
  analysis gives frequency tables that are equal as dictionaries (the same keys with the
  same frequencies; the order of the keys may differ), the same correction counts and the
  same total. The analysis returns unless the pattern built from some flagged total does
  not compile, whatever the order; then it fails in either order.
\<close>

theorem analysis_order_independent:
  assumes "mset fb = mset fb'"
  shows "(isl (analyze_corrections c fb) \<longleftrightarrow> isl (analyze_corrections c fb')) \<and>
    (isl (analyze_corrections c fb) \<longleftrightarrow> (\<exists>e\<in>set fb. entry_fails c e)) \<and>
    (\<forall>a b. analyze_corrections c fb = Inr a \<and> analyze_corrections c fb' = Inr b \<longrightarrow> same_tables a b)"
proof -
  from assms have "set fb = set fb'" by (rule mset_eq_setD)
  then have "isl (analyze_corrections c fb) \<longleftrightarrow> isl (analyze_corrections c fb')"
    by (simp add: analyze_corrections_fails)
  moreover have "same_tables a b"
    if a: "analyze_corrections c fb = Inr a" and b: "analyze_corrections c fb' = Inr b" for a b
  proof -
    have "map_of (patterns a f) = map_of (patterns b f)" for f
      unfolding analyze_corrections_returns(1) [OF a] analyze_corrections_returns(1) [OF b]
      by (rule tables_of_permutation [OF assms])
    moreover have "corrections_count a f = corrections_count b f" for f
      unfolding analyze_corrections_returns(2) [OF a] analyze_corrections_returns(2) [OF b]
      by (rule length_filter_mset [OF assms])
    moreover have "total_feedback a = total_feedback b"
      unfolding analyze_corrections_returns(3) [OF a] analyze_corrections_returns(3) [OF b]
      using assms by (rule mset_eq_length)
    ultimately show ?thesis by (simp add: same_tables_def)
  qed
  ultimately show ?thesis
    by (simp add: analyze_corrections_fails)
qed

theorem analysis_order_independent_witness:
  "mset [entry_czk, entry_eur] = mset [entry_eur, entry_czk] \<and>
   (\<forall>rest. \<exists>a b.
      analyze_corrections (compile_literal rest) [entry_czk, entry_eur] = Inr a \<and>
      analyze_corrections (compile_literal rest) [entry_eur, entry_czk] = Inr b \<and>
      same_tables a b \<and>
      map_of (patterns a InvoicedTotal) (ascii ''celkem'') = Some 1 \<and>
      map_of (patterns b InvoicedTotal) (ascii ''celkem'') = Some 1)"
proof -
  have m: "mset [entry_czk, entry_eur] = mset [entry_eur, entry_czk]"
    by simp
  have "\<exists>a b.
      analyze_corrections (compile_literal rest) [entry_czk, entry_eur] = Inr a \<and>
      analyze_corrections (compile_literal rest) [entry_eur, entry_czk] = Inr b \<and>
      same_tables a b \<and>
      map_of (patterns a InvoicedTotal) (ascii ''celkem'') = Some 1 \<and>
      map_of (patterns b InvoicedTotal) (ascii ''celkem'') = Some 1" for rest
  proof -
    note t = analysis_order_independent [OF m, of "compile_literal rest"]
    from analysis_czk_eur [of rest] obtain a where
      a: "analyze_corrections (compile_literal rest) [entry_czk, entry_eur] = Inr a"
        "patterns a InvoicedTotal =
          [(ascii ''celkem'', 1), (ascii ''k '' @ uhrade, 1), (ascii ''total'', 1), (ascii ''amount'', 1)]"
      by blast
    from t a(1) obtain b where
      b: "analyze_corrections (compile_literal rest) [entry_eur, entry_czk] = Inr b"
      by (cases "analyze_corrections (compile_literal rest) [entry_eur, entry_czk]") simp_all
    from t a(1) b have s: "same_tables a b" by blast
    have ka: "map_of (patterns a InvoicedTotal) (ascii ''celkem'') = Some 1"
      unfolding a(2) by simp
    from s have "map_of (patterns b InvoicedTotal) = map_of (patterns a InvoicedTotal)"
      by (simp add: same_tables_def)
    with ka have "map_of (patterns b InvoicedTotal) (ascii ''celkem'') = Some 1"
      by simp
    then show ?thesis
      by (intro exI [of _ a] exI [of _ b]) (simp only: a(1) b s ka simp_thms)
  qed
  with m show ?thesis by simp
qed

end
